(* ===== verification/Prelude.thy ===== *)
theory Prelude
  imports Main "HOL-Library.Word"
begin

text \<open>
  Shared vocabulary of the Raproxy model: the Python exceptions the sources raise or
  catch, the \<open>str\<close> methods they call (\<open>strip\<close>, \<open>split\<close>, \<open>splitlines\<close>,
  \<open>lower\<close>, \<open>upper\<close>, \<open>startswith\<close>, \<open>lstrip\<close>, the \<open>in\<close> test),
  \<open>os.path.join\<close>, and Python's
  insertion-ordered \<open>dict\<close> as an association list.  Strings are \<open>char list\<close>;
  the model covers the ASCII range of Python's \<open>str\<close> (the Unicode whitespace and
  line-break code points above 127 are not modelled).  The collection
  \<open>py_simps\<close> gathers the evaluation rules of these helpers so that component proofs
  and witnesses can say \<open>simp add: py_simps\<close>.
\<close>

named_theorems py_simps "evaluation rules of the Python built-ins modelled here"

section \<open>Exceptions\<close>

text \<open>
  The exceptions that occur in \<open>src/\<close>: \<open>NameError\<close> (an unbound global),
  \<open>ImportError\<close> (a missing module), \<open>ValueError\<close> (\<open>urlsplit\<close> of a malformed
  netloc), \<open>OSError\<close> (file and socket errors), \<open>PermissionError\<close> (binding a
  privileged port), a plain \<open>Exception\<close> with its message (raised by
  \<open>TorManager.ensure_running\<close>) and \<open>RequestException\<close> (anything
  \<open>requests.get\<close> or a response stream raises: connection errors, timeouts),
  \<open>IndexError\<close> and \<open>ZeroDivisionError\<close> (list indexing and \<open>%\<close>),
  \<open>EOFError\<close> (reading a prompt at the end of input) and \<open>CalledProcessError\<close>
  (\<open>subprocess.check_call\<close> of a command that fails, with the command).
\<close>

datatype py_exc =
    NameError string
  | ImportError
  | ValueError string
  | OSError string
  | PermissionError
  | Exception string
  | RequestException string
  | IndexError
  | ZeroDivisionError
  | EOFError
  | CalledProcessError string

text \<open>\<open>str(e)\<close>: the message an exception prints.\<close>

fun exc_message :: "py_exc \<Rightarrow> string" where
  "exc_message (NameError n) = ''name '' @ [CHR 0x27] @ n @ [CHR 0x27] @ '' is not defined''"
| "exc_message ImportError = ''No module named cryptography''"
| "exc_message (ValueError s) = s"
| "exc_message (OSError s) = s"
| "exc_message PermissionError = ''[Errno 13] Permission denied''"
| "exc_message (Exception s) = s"
| "exc_message (RequestException s) = s"
| "exc_message IndexError = ''list index out of range''"
| "exc_message ZeroDivisionError = ''integer modulo by zero''"
| "exc_message EOFError = ''''"
| "exc_message (CalledProcessError c) =
     ''Command '' @ [CHR 0x27] @ c @ [CHR 0x27] @ '' returned non-zero exit status 1.''"

section \<open>Characters\<close>

definition py_isspace :: "char \<Rightarrow> bool" where
  "py_isspace c \<longleftrightarrow> c \<in> set [CHR '' '', CHR 0x09, CHR 0x0A, CHR 0x0B, CHR 0x0C, CHR 0x0D,
                                 CHR 0x1C, CHR 0x1D, CHR 0x1E, CHR 0x1F]"

definition py_is_linebreak :: "char \<Rightarrow> bool" where
  "py_is_linebreak c \<longleftrightarrow> c \<in> set [CHR 0x0A, CHR 0x0B, CHR 0x0C, CHR 0x0D,
                                       CHR 0x1C, CHR 0x1D, CHR 0x1E]"

definition ascii_upper :: string where
  "ascii_upper = ''ABCDEFGHIJKLMNOPQRSTUVWXYZ''"

definition ascii_lower :: string where
  "ascii_lower = ''abcdefghijklmnopqrstuvwxyz''"

definition py_lower_char :: "char \<Rightarrow> char" where
  "py_lower_char c = (case map_of (zip ascii_upper ascii_lower) c of Some d \<Rightarrow> d | None \<Rightarrow> c)"

definition py_lower :: "string \<Rightarrow> string" where
  "py_lower s = map py_lower_char s"

definition py_upper_char :: "char \<Rightarrow> char" where
  "py_upper_char c = (case map_of (zip ascii_lower ascii_upper) c of Some d \<Rightarrow> d | None \<Rightarrow> c)"

definition py_upper :: "string \<Rightarrow> string" where
  "py_upper s = map py_upper_char s"

declare py_isspace_def [py_simps] py_is_linebreak_def [py_simps] ascii_upper_def [py_simps]
  ascii_lower_def [py_simps] py_lower_char_def [py_simps] py_lower_def [py_simps]
  py_upper_char_def [py_simps] py_upper_def [py_simps]

section \<open>String methods\<close>

text \<open>\<open>s.startswith(p)\<close>.\<close>

fun starts_with :: "string \<Rightarrow> string \<Rightarrow> bool" where
  "starts_with s [] = True"
| "starts_with [] (p # ps) = False"
| "starts_with (c # cs) (p # ps) = (c = p \<and> starts_with cs ps)"

text \<open>\<open>needle in hay\<close> for two strings.\<close>

fun py_contains :: "string \<Rightarrow> string \<Rightarrow> bool" where
  "py_contains n [] = (n = [])"
| "py_contains n (c # cs) = (starts_with (c # cs) n \<or> py_contains n cs)"

text \<open>\<open>s.lstrip(c)\<close> for a one-character argument, and \<open>s.strip()\<close>.\<close>

definition py_lstrip_char :: "char \<Rightarrow> string \<Rightarrow> string" where
  "py_lstrip_char c s = dropWhile (\<lambda>x. x = c) s"

definition py_strip :: "string \<Rightarrow> string" where
  "py_strip s = rev (dropWhile py_isspace (rev (dropWhile py_isspace s)))"

text \<open>\<open>s.split(c)\<close> for a one-character separator: never empty, empty fields kept.\<close>

fun py_split_sep :: "char \<Rightarrow> string \<Rightarrow> string list" where
  "py_split_sep c [] = [[]]"
| "py_split_sep c (x # xs) =
     (if x = c then [] # py_split_sep c xs
      else (case py_split_sep c xs of [] \<Rightarrow> [[x]] | w # ws \<Rightarrow> (x # w) # ws))"

text \<open>
  \<open>s.split()\<close>: maximal runs of non-whitespace, no empty words.  The accumulator
  holds the current word reversed.
\<close>

fun split_ws_acc :: "string \<Rightarrow> string \<Rightarrow> string list" where
  "split_ws_acc w [] = (if w = [] then [] else [rev w])"
| "split_ws_acc w (c # cs) =
     (if py_isspace c then (if w = [] then split_ws_acc [] cs else rev w # split_ws_acc [] cs)
      else split_ws_acc (c # w) cs)"

text \<open>\<open>sep.join(xs)\<close>.\<close>

fun py_join :: "string \<Rightarrow> string list \<Rightarrow> string" where
  "py_join sep [] = []"
| "py_join sep [x] = x"
| "py_join sep (x # y # xs) = x @ sep @ py_join sep (y # xs)"

text \<open>A word of \<open>s.split()\<close>: non-empty, no whitespace.\<close>

definition py_word :: "string \<Rightarrow> bool" where
  "py_word w \<longleftrightarrow> w \<noteq> [] \<and> list_all (\<lambda>c. \<not> py_isspace c) w"

definition py_split_ws :: "string \<Rightarrow> string list" where
  "py_split_ws s = split_ws_acc [] s"

text \<open>
  \<open>s.splitlines()\<close>: lines end at a line-break character, \<open>\r\n\<close> counting as one
  break; a final break does not start an empty last line.
\<close>

definition skip_lf :: "string \<Rightarrow> string" where
  "skip_lf cs = (case cs of d # r \<Rightarrow> if d = CHR 0x0A then r else cs | [] \<Rightarrow> [])"

function splitlines_acc :: "string \<Rightarrow> string \<Rightarrow> string list" where
  "splitlines_acc w [] = (if w = [] then [] else [rev w])"
| "splitlines_acc w (c # cs) =
     (if c = CHR 0x0D then rev w # splitlines_acc [] (skip_lf cs)
      else if py_is_linebreak c then rev w # splitlines_acc [] cs
      else splitlines_acc (c # w) cs)"
  by pat_completeness auto
termination
  by (relation "measure (\<lambda>(w, s). length s)") (auto simp: skip_lf_def split: list.split)

definition py_splitlines :: "string \<Rightarrow> string list" where
  "py_splitlines s = splitlines_acc [] s"

declare py_lstrip_char_def [py_simps] py_strip_def [py_simps] py_split_ws_def [py_simps]
  py_splitlines_def [py_simps]

text \<open>
  \<open>os.path.join(a, b)\<close> (\<open>posixpath.join\<close>): an absolute \<open>b\<close> replaces \<open>a\<close>;
  otherwise a separator is inserted unless \<open>a\<close> is empty or already ends in one.
\<close>

definition path_join :: "string \<Rightarrow> string \<Rightarrow> string" where
  "path_join a b =
     (if starts_with b ''/'' then b
      else if a = [] \<or> last a = CHR ''/'' then a @ b
      else a @ ''/'' @ b)"

section \<open>Rendering values as text\<close>

text \<open>
  \<open>str(n)\<close> of a natural number, \<open>html.escape(s, quote=False)\<close> (ampersand first,
  then the angle brackets, which a one-pass map does the same as Python's three
  \<open>replace\<close> calls), and \<open>repr(s)\<close> of a \<open>str\<close>: single quotes unless the text
  holds a single quote and no double quote, with the backslash and the chosen quote
  escaped.  \<open>repr\<close> is modelled for printable characters; the strings it is applied to
  are \<open>split()\<close> words, so they hold no whitespace.
\<close>

fun nat_str :: "nat \<Rightarrow> string" where
  "nat_str n = (if n < 10 then [''0123456789'' ! n] else nat_str (n div 10) @ [''0123456789'' ! (n mod 10)])"

declare nat_str.simps [simp del]

definition html_escape :: "string \<Rightarrow> string" where
  "html_escape s =
     concat (map (\<lambda>c. if c = CHR ''&'' then ''&amp;'' else if c = CHR ''<'' then ''&lt;''
                       else if c = CHR ''>'' then ''&gt;'' else [c]) s)"

definition py_repr :: "string \<Rightarrow> string" where
  "py_repr s =
     (let qc = (if CHR 0x27 \<in> set s \<and> CHR 0x22 \<notin> set s then CHR 0x22 else CHR 0x27) in
      qc # concat (map (\<lambda>c. if c = CHR 0x5C \<or> c = qc then [CHR 0x5C, c] else [c]) s) @ [qc])"

declare html_escape_def [py_simps] py_repr_def [py_simps]

section \<open>Arithmetic and indexing\<close>

text \<open>
  Python's \<open>a % b\<close> on ints rounds towards minus infinity, as HOL's \<open>mod\<close> on
  \<open>int\<close> does, and raises on a zero divisor; \<open>xs[i]\<close> counts negative indices
  from the end and raises out of range.
\<close>

definition py_mod :: "int \<Rightarrow> int \<Rightarrow> py_exc + int" where
  "py_mod a b = (if b = 0 then Inl ZeroDivisionError else Inr (a mod b))"

definition py_index :: "'a list \<Rightarrow> int \<Rightarrow> py_exc + 'a" where
  "py_index xs i =
     (let k = (if 0 \<le> i then i else i + int (length xs))
      in if k < 0 \<or> int (length xs) \<le> k then Inl IndexError else Inr (xs ! nat k))"

declare py_mod_def [py_simps] py_index_def [py_simps]

section \<open>Python dictionaries\<close>

text \<open>
  A \<open>dict\<close> keeps its keys in insertion order, and \<open>d[k] = v\<close> overwrites the
  value of an existing key in place or appends a new entry.  The order is observable
  in the sources (headers are sent in iteration order), so a dict is an association
  list and assignment is \<open>dict_set\<close>.
\<close>

fun dict_set :: "('k \<times> 'v) list \<Rightarrow> 'k \<Rightarrow> 'v \<Rightarrow> ('k \<times> 'v) list" where
  "dict_set [] k v = [(k, v)]"
| "dict_set ((k', v') # d) k v = (if k' = k then (k, v) # d else (k', v') # dict_set d k v)"

section \<open>Lemmas on the helpers\<close>

lemma map_of_dict_set [simp]: "map_of (dict_set d k v) = (map_of d)(k \<mapsto> v)"
  by (induction d) (auto simp: fun_eq_iff)

lemma keys_dict_set [simp]: "fst ` set (dict_set d k v) = insert k (fst ` set d)"
  by (simp flip: dom_map_of_conv_image_fst)

lemma distinct_dict_set [intro]:
  "distinct (map fst d) \<Longrightarrow> distinct (map fst (dict_set d k v))"
proof (induction d)
  case Nil
  then show ?case by simp
next
  case (Cons p d)
  then show ?case by (cases p) auto
qed

lemma dict_set_existing_keys:
  "k \<in> set (map fst d) \<Longrightarrow> map fst (dict_set d k v) = map fst d"
  by (induction d) (auto simp: image_iff, force)

lemma dict_set_new_key:
  "k \<notin> set (map fst d) \<Longrightarrow> dict_set d k v = d @ [(k, v)]"
  by (induction d) auto


lemma starts_with_append [simp]: "starts_with (p @ s) p"
  by (induction p) auto

lemma starts_with_iff: "starts_with s p \<longleftrightarrow> (\<exists>r. s = p @ r)"
  by (induction s p rule: starts_with.induct) auto

lemma py_split_sep_nonempty [simp]: "py_split_sep c s \<noteq> []"
  by (induction s) (auto split: list.split)

lemma hd_py_split_sep: "hd (py_split_sep c s) = takeWhile (\<lambda>x. x \<noteq> c) s"
  by (induction s) (auto split: list.split)

lemma py_split_sep_no_sep: "w \<in> set (py_split_sep c s) \<Longrightarrow> c \<notin> set w"
  by (induction s arbitrary: w) (auto split: list.splits if_splits)


lemma split_ws_acc_words:
  "w' \<in> set (split_ws_acc w s) \<Longrightarrow> \<forall>x\<in>set w. \<not> py_isspace x \<Longrightarrow>
     w' \<noteq> [] \<and> (\<forall>x\<in>set w'. \<not> py_isspace x)"
proof (induction w s rule: split_ws_acc.induct)
  case (1 w)
  then show ?case by (auto split: if_splits)
next
  case (2 w c cs)
  show ?case
  proof (cases "py_isspace c")
    case True
    with "2.prems" "2.IH"(1,2) show ?thesis by (auto split: if_splits)
  next
    case False
    with "2.prems" "2.IH"(3) show ?thesis by simp
  qed
qed


lemma py_strip_no_outer_space:
  "py_strip s \<noteq> [] \<Longrightarrow> \<not> py_isspace (hd (py_strip s)) \<and> \<not> py_isspace (last (py_strip s))"
proof -
  assume ne: "py_strip s \<noteq> []"
  define t where "t = dropWhile py_isspace s"
  define x where "x = dropWhile py_isspace (rev t)"
  have strip: "py_strip s = rev x" by (simp add: py_strip_def t_def x_def)
  have x_ne: "x \<noteq> []" using ne strip by simp
  have "\<not> py_isspace (hd x)" unfolding x_def using x_ne x_def by (simp add: hd_dropWhile)
  then have last_ok: "\<not> py_isspace (last (py_strip s))"
    using x_ne strip by (simp add: last_rev)
  have split: "rev t = takeWhile py_isspace (rev t) @ x" by (simp add: x_def)
  have t_ne: "t \<noteq> []" using x_ne x_def by auto
  have "last x = last (rev t)" using x_ne split by (metis last_appendR)
  also have "\<dots> = hd t" using t_ne by (simp add: last_rev)
  finally have "hd (py_strip s) = hd t" using x_ne strip by (simp add: hd_rev)
  moreover have "\<not> py_isspace (hd t)" using t_ne t_def by (simp add: hd_dropWhile)
  ultimately show ?thesis using last_ok by simp
qed

lemma py_mod_pos: "0 < b \<Longrightarrow> py_mod a b = Inr (a mod b) \<and> 0 \<le> a mod b \<and> a mod b < b"
  by (simp add: py_mod_def)

lemma py_index_nonneg:
  "0 \<le> i \<Longrightarrow> py_index xs i = (if i < int (length xs) then Inr (xs ! nat i) else Inl IndexError)"
  by (simp add: py_index_def Let_def)

lemma split_ws_acc_word:
  "list_all (\<lambda>c. \<not> py_isspace c) w \<Longrightarrow> split_ws_acc acc (w @ s) = split_ws_acc (rev w @ acc) s"
  by (induction w arbitrary: acc) auto

lemma split_ws_acc_join:
  "list_all py_word ws \<Longrightarrow> split_ws_acc [] (py_join '' '' ws) = ws"
proof (induction "'' ''" ws rule: py_join.induct)
  case 1
  then show ?case by simp
next
  case (2 x)
  then show ?case using split_ws_acc_word [of x "[]" "[]"] by (simp add: py_word_def)
next
  case (3 x y xs)
  then have "list_all (\<lambda>c. \<not> py_isspace c) x" and "x \<noteq> []" by (simp_all add: py_word_def)
  then have "split_ws_acc [] (x @ '' '' @ py_join '' '' (y # xs))
               = x # split_ws_acc [] (py_join '' '' (y # xs))"
    using split_ws_acc_word [of x "[]" "'' '' @ py_join '' '' (y # xs)"] by (simp add: py_isspace_def)
  with 3 show ?case by simp
qed

lemma py_split_ws_join: "list_all py_word ws \<Longrightarrow> py_split_ws (py_join '' '' ws) = ws"
  by (simp add: py_split_ws_def split_ws_acc_join)

lemma py_strip_id:
  "s \<noteq> [] \<Longrightarrow> \<not> py_isspace (hd s) \<Longrightarrow> \<not> py_isspace (last s) \<Longrightarrow> py_strip s = s"
proof -
  assume ne: "s \<noteq> []" and h: "\<not> py_isspace (hd s)" and l: "\<not> py_isspace (last s)"
  have "dropWhile py_isspace s = s" using h by (simp add: dropWhile_eq_self_iff)
  moreover have "dropWhile py_isspace (rev s) = rev s" using ne l by (simp add: dropWhile_eq_self_iff hd_rev)
  ultimately show ?thesis by (simp add: py_strip_def)
qed

lemma py_join_hd_last:
  assumes "ws \<noteq> []" and "list_all py_word ws"
  shows "py_join '' '' ws \<noteq> [] \<and> hd (py_join '' '' ws) = hd (hd ws) \<and> last (py_join '' '' ws) = last (last ws)"
  using assms
proof (induction "'' ''" ws rule: py_join.induct)
  case (3 x y xs)
  then show ?case by (auto simp: py_word_def)
qed (auto simp: py_word_def)


lemma split_ws_acc_spaces: "list_all py_isspace t \<Longrightarrow> split_ws_acc w t = split_ws_acc w []"
  by (induction t arbitrary: w) auto

lemma split_ws_acc_trailing:
  "list_all py_isspace t \<Longrightarrow> split_ws_acc w (s @ t) = split_ws_acc w s"
  by (induction w s rule: split_ws_acc.induct) (simp_all add: split_ws_acc_spaces)

lemma split_ws_acc_leading: "split_ws_acc [] (dropWhile py_isspace s) = split_ws_acc [] s"
  by (induction s) auto

text \<open>\<open>s.strip().split() == s.split()\<close>.\<close>

lemma py_split_ws_strip: "py_split_ws (py_strip s) = py_split_ws s"
proof -
  define d where "d = dropWhile py_isspace s"
  have "rev (dropWhile py_isspace (rev d)) @ rev (takeWhile py_isspace (rev d)) = d"
    using takeWhile_dropWhile_id [of py_isspace "rev d"] by (metis rev_append rev_rev_ident)
  moreover have "list_all py_isspace (rev (takeWhile py_isspace (rev d)))"
    by (auto simp: list_all_iff dest: set_takeWhileD)
  ultimately have "split_ws_acc [] (rev (dropWhile py_isspace (rev d))) = split_ws_acc [] d"
    by (metis split_ws_acc_trailing)
  then show ?thesis by (simp add: py_split_ws_def py_strip_def d_def split_ws_acc_leading)
qed

end
