(* ===== verification/Config.thy ===== *)
theory Config
  imports Prelude
begin

text \<open>
  The state of a \<open>ProxyEngine\<close> object (\<open>src/proxy_engine.py\<close>, class
  \<open>ProxyEngine\<close>): the \<open>config\<close> dict as the record \<open>engine_config\<close>, the
  other attributes as the record \<open>engine\<close>, and the methods that change them:
  \<open>__init__\<close>, \<open>set_config\<close>, \<open>add_header\<close>, \<open>update_proxy_pool\<close>,
  \<open>start_proxy\<close> and the body of the server thread \<open>_run_server\<close>.
  The well-formedness invariant \<open>wf_engine\<close> (header names are unique, which the
  dict guarantees and the association list must keep) is preserved by every mutator.
  \<open>engine_op\<close> and \<open>engine_step\<close> give the public methods as operations; over
  any sequence of them at most one server thread is started.
\<close>

section \<open>State\<close>

text \<open>
  The \<open>config\<close> dict has six keys, each a field here.  \<open>ip_rotation\<close> stays a
  string, as in the source, which compares it with \<open>"per-request"\<close>;
  \<open>headers\<close> is the nested dict of extra headers.
\<close>

record engine_config =
  ip_rotation :: string
  tor_enabled :: bool
  anti_fingerprint :: bool
  headers :: "(string \<times> string) list"
  cfg_proxy_pool :: "string list"
  mitm_enabled :: bool

text \<open>\<open>_server\<close> is \<open>None\<close> until the server thread has bound its socket.\<close>

datatype server_state = NoServer | Serving int

record engine =
  config :: engine_config
  port :: int
  proxy_pool :: "string list"
  running :: bool
  server :: server_state
  cert_dir :: string

section \<open>Operations\<close>

definition default_config :: engine_config where
  "default_config =
     \<lparr>ip_rotation = ''disabled'', tor_enabled = False, anti_fingerprint = False,
      headers = [], cfg_proxy_pool = [], mitm_enabled = False\<rparr>"

text \<open>
  \<open>os.path.expanduser("~/.raproxy/certs")\<close>: the home directory with trailing
  slashes removed, then the rest of the path (\<open>posixpath.expanduser\<close>).
\<close>

definition expand_home :: "string \<Rightarrow> string \<Rightarrow> string" where
  "expand_home home rest = rev (dropWhile (\<lambda>c. c = CHR ''/'') (rev home)) @ rest"

definition engine_init :: "string \<Rightarrow> engine" where
  "engine_init home =
     \<lparr>config = default_config, port = 8080, proxy_pool = [], running = False,
      server = NoServer, cert_dir = expand_home home ''/.raproxy/certs''\<rparr>"

text \<open>
  \<open>set_config(key, value)\<close> is \<open>self.config[key] = value\<close>; the keys the callers
  pass are the fields of the record, so an update names its field.
\<close>

datatype config_update =
    Set_ip_rotation string
  | Set_tor_enabled bool
  | Set_anti_fingerprint bool
  | Set_headers "(string \<times> string) list"
  | Set_proxy_pool "string list"
  | Set_mitm_enabled bool

fun apply_config_update :: "engine_config \<Rightarrow> config_update \<Rightarrow> engine_config" where
  "apply_config_update c (Set_ip_rotation v) = c\<lparr>ip_rotation := v\<rparr>"
| "apply_config_update c (Set_tor_enabled v) = c\<lparr>tor_enabled := v\<rparr>"
| "apply_config_update c (Set_anti_fingerprint v) = c\<lparr>anti_fingerprint := v\<rparr>"
| "apply_config_update c (Set_headers v) = c\<lparr>headers := v\<rparr>"
| "apply_config_update c (Set_proxy_pool v) = c\<lparr>cfg_proxy_pool := v\<rparr>"
| "apply_config_update c (Set_mitm_enabled v) = c\<lparr>mitm_enabled := v\<rparr>"

definition set_config :: "engine \<Rightarrow> config_update \<Rightarrow> engine" where
  "set_config e u = e\<lparr>config := apply_config_update (config e) u\<rparr>"

definition add_header :: "engine \<Rightarrow> string \<Rightarrow> string \<Rightarrow> engine" where
  "add_header e k v = e\<lparr>config := (config e)\<lparr>headers := dict_set (headers (config e)) k v\<rparr>\<rparr>"

definition update_proxy_pool :: "engine \<Rightarrow> string list \<Rightarrow> engine" where
  "update_proxy_pool e ps = e\<lparr>proxy_pool := ps\<rparr>"

text \<open>
  \<open>start_proxy\<close> returns at once when \<open>_running\<close> is set; otherwise it sets the
  flag and starts the server thread.  The second component says whether a thread was
  started.  The thread's body \<open>_run_server\<close> binds the port: the bind outcome is
  the environment's (\<open>None\<close> for success), a failure kills the thread with the
  exception and leaves \<open>_server\<close> unset, and a bound server serves forever.
\<close>

definition start_proxy :: "engine \<Rightarrow> engine \<times> bool" where
  "start_proxy e = (if running e then (e, False) else (e\<lparr>running := True\<rparr>, True))"

definition run_server :: "(int \<Rightarrow> py_exc option) \<Rightarrow> engine \<Rightarrow> engine \<times> py_exc option" where
  "run_server bind e =
     (case bind (port e) of
        None \<Rightarrow> (e\<lparr>server := Serving (port e)\<rparr>, None)
      | Some ex \<Rightarrow> (e, Some ex))"

text \<open>
  The public methods a client of \<open>ProxyEngine\<close> calls, as operations, and one call
  as a step that also says whether it started a server thread.  A sequence of
  operations is any order in which the shell (or another client) may call them.
\<close>

datatype engine_op =
    Op_set_config config_update
  | Op_add_header string string
  | Op_update_pool "string list"
  | Op_start_proxy

fun engine_step :: "engine \<Rightarrow> engine_op \<Rightarrow> engine \<times> bool" where
  "engine_step e (Op_set_config u) = (set_config e u, False)"
| "engine_step e (Op_add_header k v) = (add_header e k v, False)"
| "engine_step e (Op_update_pool ps) = (update_proxy_pool e ps, False)"
| "engine_step e Op_start_proxy = start_proxy e"

text \<open>The number of server threads a sequence of calls starts.\<close>

fun threads_started :: "engine \<Rightarrow> engine_op list \<Rightarrow> nat" where
  "threads_started e [] = 0"
| "threads_started e (op # ops) =
     (case engine_step e op of (e', t) \<Rightarrow> (if t then 1 else 0) + threads_started e' ops)"

section \<open>Invariant\<close>

definition wf_engine :: "engine \<Rightarrow> bool" where
  "wf_engine e \<longleftrightarrow> distinct (map fst (headers (config e)))"

lemmas engine_ops_defs = set_config_def add_header_def update_proxy_pool_def
  start_proxy_def run_server_def

lemma wf_engine_init: "wf_engine (engine_init home)"
  by (simp add: wf_engine_def engine_init_def default_config_def)

lemma wf_add_header [intro]: "wf_engine e \<Longrightarrow> wf_engine (add_header e k v)"
  by (auto simp: wf_engine_def add_header_def)

lemma wf_update_proxy_pool [intro]: "wf_engine e \<Longrightarrow> wf_engine (update_proxy_pool e ps)"
  by (simp add: wf_engine_def update_proxy_pool_def)

lemma wf_start_proxy [intro]: "wf_engine e \<Longrightarrow> wf_engine (fst (start_proxy e))"
  by (simp add: wf_engine_def start_proxy_def)

lemma wf_run_server [intro]: "wf_engine e \<Longrightarrow> wf_engine (fst (run_server b e))"
  by (simp add: wf_engine_def run_server_def split: option.split)

lemma wf_set_config [intro]:
  "wf_engine e \<Longrightarrow> (\<And>hs. u = Set_headers hs \<Longrightarrow> distinct (map fst hs)) \<Longrightarrow>
     wf_engine (set_config e u)"
  by (cases u) (auto simp: wf_engine_def set_config_def)

text \<open>Frame facts: which fields each mutator leaves alone.\<close>

lemma add_header_frame [simp]:
  "proxy_pool (add_header e k v) = proxy_pool e"
  "running (add_header e k v) = running e"
  "mitm_enabled (config (add_header e k v)) = mitm_enabled (config e)"
  "tor_enabled (config (add_header e k v)) = tor_enabled (config e)"
  "ip_rotation (config (add_header e k v)) = ip_rotation (config e)"
  "cert_dir (add_header e k v) = cert_dir e"
  by (simp_all add: add_header_def)

lemma start_proxy_frame [simp]:
  "config (fst (start_proxy e)) = config e"
  "proxy_pool (fst (start_proxy e)) = proxy_pool e"
  "cert_dir (fst (start_proxy e)) = cert_dir e"
  "running (fst (start_proxy e))"
  by (simp_all add: start_proxy_def)

lemma run_server_frame [simp]:
  "config (fst (run_server b e)) = config e"
  "proxy_pool (fst (run_server b e)) = proxy_pool e"
  "running (fst (run_server b e)) = running e"
  "cert_dir (fst (run_server b e)) = cert_dir e"
  by (simp_all add: run_server_def split: option.split)

lemma engine_step_running:
  "running (fst (engine_step e op)) \<longleftrightarrow> running e \<or> op = Op_start_proxy"
  "snd (engine_step e op) \<longleftrightarrow> \<not> running e \<and> op = Op_start_proxy"
  by (cases op; simp add: set_config_def add_header_def update_proxy_pool_def start_proxy_def)+

text \<open>C25: Over any sequence of calls to the engine's public methods, start_proxy starts
  a server thread at most once: exactly one thread when the engine was not yet running
  and start_proxy is called at least once, none otherwise, because _running is set on
  the first start and no method clears it.\<close>

theorem at_most_one_server_thread:
  "threads_started e ops = (if \<not> running e \<and> Op_start_proxy \<in> set ops then 1 else 0)"
proof (induction ops arbitrary: e)
  case Nil
  then show ?case by simp
next
  case (Cons op ops)
  obtain e' t where s: "engine_step e op = (e', t)" by (cases "engine_step e op") auto
  have r: "running e' \<longleftrightarrow> running e \<or> op = Op_start_proxy" and t: "t \<longleftrightarrow> \<not> running e \<and> op = Op_start_proxy"
    using engine_step_running [of e op] s by simp_all
  show ?case using Cons.IH [of e'] s r t by auto
qed

end
