(* ===== verification/Router.thy ===== *)
theory Router
  imports Config
begin

text \<open>
  The egress decision of \<open>Handler.do_GET\<close> (\<open>src/proxy_engine.py\<close>, the
  \<open>proxies\<close> computation): the anonymizing SOCKS endpoint when Tor is enabled,
  else in \<open>per-request\<close> rotation the pool entry at \<open>hash(url) % len(pool)\<close>,
  else a direct connection.  Python's \<open>hash\<close> of a \<open>str\<close> is a signed 64-bit
  value fixed within one interpreter run (it is salted per process), so it is a
  parameter \<open>h\<close> into \<open>64 word\<close>, read with \<open>sint\<close>.

  The code reads the attribute \<open>proxy_pool\<close> three times (the emptiness test,
  \<open>len\<close>, the index), and \<open>update_proxy_pool\<close> may replace it from another
  thread in between; \<open>pool_update\<close> names the interleavings, \<open>pool_reads\<close>
  gives the three values read.  The abstract contract is \<open>route\<close> (one of three
  egress paths), and \<open>select_proxies\<close> refines it when no update interleaves.
\<close>

type_synonym proxies = "(string \<times> string) list"
type_synonym str_hash = "string \<Rightarrow> 64 word"

definition tor_proxy_url :: string where
  "tor_proxy_url = ''socks5://127.0.0.1:9150''"

datatype pool_update = NoUpdate | UpdateBeforeLen "string list" | UpdateBeforeIndex "string list"

fun pool_reads :: "string list \<Rightarrow> pool_update \<Rightarrow> string list \<times> string list \<times> string list" where
  "pool_reads p NoUpdate = (p, p, p)"
| "pool_reads p (UpdateBeforeLen q) = (p, q, q)"
| "pool_reads p (UpdateBeforeIndex q) = (p, p, q)"

definition select_proxies_reads ::
  "str_hash \<Rightarrow> engine_config \<Rightarrow> string list \<times> string list \<times> string list \<Rightarrow> string \<Rightarrow>
     py_exc + proxies" where
  "select_proxies_reads h c rd url =
     (case rd of (p_chk, p_len, p_idx) \<Rightarrow>
       if tor_enabled c then Inr [(''http'', tor_proxy_url), (''https'', tor_proxy_url)]
       else if ip_rotation c = ''per-request'' \<and> p_chk \<noteq> [] then
         (case py_mod (sint (h url)) (int (length p_len)) of
            Inl ex \<Rightarrow> Inl ex
          | Inr idx \<Rightarrow>
              (case py_index p_idx idx of
                 Inl ex \<Rightarrow> Inl ex
               | Inr p \<Rightarrow> Inr [(''http'', ''http://'' @ p), (''https'', ''http://'' @ p)]))
       else Inr [])"

definition select_proxies :: "str_hash \<Rightarrow> engine \<Rightarrow> pool_update \<Rightarrow> string \<Rightarrow> py_exc + proxies" where
  "select_proxies h e upd url = select_proxies_reads h (config e) (pool_reads (proxy_pool e) upd) url"

section \<open>Abstract contract\<close>

datatype egress = Direct | Anonymizing | Pooled string

definition pool_slot :: "str_hash \<Rightarrow> string list \<Rightarrow> string \<Rightarrow> nat" where
  "pool_slot h pool url = nat (sint (h url) mod int (length pool))"

definition route :: "str_hash \<Rightarrow> engine_config \<Rightarrow> string list \<Rightarrow> string \<Rightarrow> egress" where
  "route h c pool url =
     (if tor_enabled c then Anonymizing
      else if ip_rotation c = ''per-request'' \<and> pool \<noteq> [] then Pooled (pool ! pool_slot h pool url)
      else Direct)"

fun proxies_of :: "egress \<Rightarrow> proxies" where
  "proxies_of Direct = []"
| "proxies_of Anonymizing = [(''http'', tor_proxy_url), (''https'', tor_proxy_url)]"
| "proxies_of (Pooled p) = [(''http'', ''http://'' @ p), (''https'', ''http://'' @ p)]"

text \<open>An engine in per-request rotation over a two-entry pool, for the witnesses.\<close>

definition rot_engine :: engine where
  "rot_engine = update_proxy_pool (set_config (engine_init ''/home/op'') (Set_ip_rotation ''per-request''))
                  [''1.2.3.4:8000'', ''5.6.7.8:8000'']"

section \<open>Lemmas\<close>

lemma pool_slot_bound: "pool \<noteq> [] \<Longrightarrow> pool_slot h pool url < length pool"
  by (simp add: pool_slot_def nat_less_iff)

lemma select_reads_same [simp]:
  "select_proxies_reads h c (p, p, p) url = Inr (proxies_of (route h c p url))"
proof -
  have "p \<noteq> [] \<Longrightarrow> py_mod (sint (h url)) (int (length p)) = Inr (int (pool_slot h p url))"
    by (simp add: py_mod_def pool_slot_def)
  moreover have "p \<noteq> [] \<Longrightarrow> py_index p (int (pool_slot h p url)) = Inr (p ! pool_slot h p url)"
    using pool_slot_bound [of p h url] by (simp add: py_index_nonneg)
  ultimately show ?thesis
    by (simp add: select_proxies_reads_def route_def)
qed

lemma select_reads_index_race:
  assumes "\<not> tor_enabled c" and "ip_rotation c = ''per-request''" and "p \<noteq> []"
    and "int (length q) \<le> sint (h url) mod int (length p)"
  shows "select_proxies_reads h c (p, p, q) url = Inl IndexError"
proof -
  have "py_mod (sint (h url)) (int (length p)) = Inr (sint (h url) mod int (length p))"
    using assms(3) by (simp add: py_mod_def)
  moreover have "0 \<le> sint (h url) mod int (length p)" using assms(3) by simp
  ultimately show ?thesis
    using assms by (simp add: select_proxies_reads_def py_index_nonneg)
qed

text \<open>C12: Without a concurrent pool update, the code's proxies are exactly those of the
  abstract route: the SOCKS endpoint for both schemes when Tor is on, else in
  per-request rotation the pool entry at hash(url) mod the pool size over http, else
  none; the selection never raises.\<close>

theorem select_proxies_refines_route:
  "select_proxies h e NoUpdate url = Inr (proxies_of (route h (config e) (proxy_pool e) url))"
  by (simp add: select_proxies_def)

text \<open>C13: With Tor enabled the pool is never consulted: whatever pool update the shell
  thread interleaves, every request goes to the SOCKS endpoint for both schemes, so the
  race of C14 cannot make a request fail.\<close>

theorem tor_ignores_pool_race:
  "tor_enabled (config e) \<Longrightarrow>
     select_proxies h e upd url = Inr [(''http'', tor_proxy_url), (''https'', tor_proxy_url)]"
  by (cases upd) (simp_all add: select_proxies_def select_proxies_reads_def)

text \<open>C14: The pool attribute is read three times; when update_proxy_pool replaces it with a
  shorter list between the length read and the index read, the selection raises
  IndexError (and with an empty list before the length read, ZeroDivisionError).\<close>

lemma pool_update_race:
  assumes "\<not> tor_enabled (config e)" and "ip_rotation (config e) = ''per-request''"
    and "proxy_pool e \<noteq> []"
  shows "(int (length q) \<le> sint (h url) mod int (length (proxy_pool e)) \<longrightarrow>
            select_proxies h e (UpdateBeforeIndex q) url = Inl IndexError)
         \<and> select_proxies h e (UpdateBeforeLen []) url = Inl ZeroDivisionError"
  using assms select_reads_index_race [of "config e" "proxy_pool e" q h url]
  by (simp add: select_proxies_def select_proxies_reads_def py_mod_def)

lemmas rot_engine_defs = rot_engine_def update_proxy_pool_def set_config_def engine_init_def
  default_config_def

lemma tor_ignores_pool_race_witness:
  "tor_enabled (config (set_config rot_engine (Set_tor_enabled True)))
   \<and> select_proxies (\<lambda>u. 7) (set_config rot_engine (Set_tor_enabled True)) (UpdateBeforeLen []) ''http://example.com/''
       = Inr [(''http'', tor_proxy_url), (''https'', tor_proxy_url)]"
proof -
  have t: "tor_enabled (config (set_config rot_engine (Set_tor_enabled True)))" by (simp add: set_config_def)
  show ?thesis using tor_ignores_pool_race [OF t] t by simp
qed

lemma pool_update_race_witness:
  "\<not> tor_enabled (config rot_engine) \<and> ip_rotation (config rot_engine) = ''per-request''
   \<and> proxy_pool rot_engine \<noteq> []
   \<and> select_proxies (\<lambda>u. 7) rot_engine (UpdateBeforeIndex [''9.9.9.9:80'']) ''http://example.com/'' = Inl IndexError
   \<and> select_proxies (\<lambda>u. 7) rot_engine (UpdateBeforeLen []) ''http://example.com/'' = Inl ZeroDivisionError"
proof -
  have a: "\<not> tor_enabled (config rot_engine)" and b: "ip_rotation (config rot_engine) = ''per-request''"
    and c: "proxy_pool rot_engine \<noteq> []"
    by (simp_all add: rot_engine_defs)
  have d: "int (length [''9.9.9.9:80'']) \<le> sint ((\<lambda>u. 7::64 word) ''http://example.com/'') mod int (length (proxy_pool rot_engine))"
    by (simp add: rot_engine_defs)
  show ?thesis using a b c d pool_update_race [OF a b c, of "[''9.9.9.9:80'']" "\<lambda>u. 7" "''http://example.com/''"]
    by simp
qed

lemma select_proxies_refines_route_witness:
  "select_proxies (\<lambda>u. 7) rot_engine NoUpdate ''http://example.com/''
     = Inr [(''http'', ''http://5.6.7.8:8000''), (''https'', ''http://5.6.7.8:8000'')]"
  using select_proxies_refines_route [of "\<lambda>u. 7" rot_engine "''http://example.com/''"]
  by (simp add: rot_engine_defs route_def pool_slot_def)

end
