(* ===== verification/CertStore.thy ===== *)
theory CertStore
  imports Config
begin

text \<open>
  The certificate cache \<open>ProxyEngine.generate_cert\<close> (\<open>src/proxy_engine.py\<close>).
  The disk is a map from paths to file contents (\<open>fs\<close>); \<open>os.path.exists\<close> is
  membership in its domain and \<open>os.path.join\<close> is \<open>path_join\<close> of the
  prelude (posixpath: an absolute second argument discards the first).  What the \<open>cryptography\<close> package
  computes (a fresh RSA key and a self-signed certificate, in PEM) is the
  environment's \<open>gen\<close>, which may raise: \<open>ImportError\<close> when the package is
  missing.  Writing a file may fail (\<open>writable\<close>), leaving earlier writes in place.

  The handler of \<open>ImportError\<close> calls \<open>console.print\<close>, but \<open>console\<close> is not
  bound in \<open>proxy_engine.py\<close> (it is a global of \<open>raproxy.py\<close>), so the
  handler raises \<open>NameError\<close> and the \<open>return None, None\<close> is never reached.

  \<open>cg_step\<close> splits one call into its atomic steps (the existence check, the
  generation, the two writes) so that two handler threads asking for the same host can
  be interleaved.
\<close>

type_synonym fs = "string \<rightharpoonup> string"

record cert_env =
  gen :: "string \<Rightarrow> py_exc + (string \<times> string)"
  writable :: "string \<Rightarrow> bool"

definition cert_file :: "string \<Rightarrow> string \<Rightarrow> string" where
  "cert_file dir hostname = path_join dir (hostname @ ''.pem'')"

definition key_file :: "string \<Rightarrow> string \<Rightarrow> string" where
  "key_file dir hostname = path_join dir (hostname @ ''.key'')"

text \<open>\<open>open(p, "wb").write(b)\<close>.\<close>

definition write_file :: "cert_env \<Rightarrow> fs \<Rightarrow> string \<Rightarrow> string \<Rightarrow> py_exc + fs" where
  "write_file env m p b = (if writable env p then Inr (m(p \<mapsto> b)) else Inl (OSError p))"

definition generate_cert ::
  "cert_env \<Rightarrow> string \<Rightarrow> fs \<Rightarrow> string \<Rightarrow> (py_exc + (string \<times> string)) \<times> fs" where
  "generate_cert env dir m hostname =
     (let cp = cert_file dir hostname; kp = key_file dir hostname in
      if cp \<in> dom m \<and> kp \<in> dom m then (Inr (cp, kp), m)
      else (case gen env hostname of
              Inl ex \<Rightarrow> (if ex = ImportError then Inl (NameError ''console'') else Inl ex, m)
            | Inr (cb, kb) \<Rightarrow>
                (case write_file env m cp cb of
                   Inl ex \<Rightarrow> (Inl ex, m)
                 | Inr m1 \<Rightarrow>
                     (case write_file env m1 kp kb of
                        Inl ex \<Rightarrow> (Inl ex, m1)
                      | Inr m2 \<Rightarrow> (Inr (cp, kp), m2)))))"

section \<open>Interleaved calls\<close>

text \<open>
  The program counter of one call: before the existence check, about to write the
  certificate (with the material it generated), about to write the key, returned.
  \<open>gens\<close> counts key generations.
\<close>

datatype cg_pc = CG_Start | CG_WriteCert "string \<times> string" | CG_WriteKey "string \<times> string" | CG_Done

record cg_state =
  files :: fs
  pcs :: "nat \<Rightarrow> cg_pc"
  gens :: nat

inductive cg_step :: "(nat \<Rightarrow> string \<times> string) \<Rightarrow> string \<Rightarrow> string \<Rightarrow> cg_state \<Rightarrow> cg_state \<Rightarrow> bool"
  for mat :: "nat \<Rightarrow> string \<times> string" and cp :: string and kp :: string where
  check_hit: "pcs s i = CG_Start \<Longrightarrow> cp \<in> dom (files s) \<Longrightarrow> kp \<in> dom (files s) \<Longrightarrow>
    cg_step mat cp kp s (s\<lparr>pcs := (pcs s)(i := CG_Done)\<rparr>)"
| check_miss: "pcs s i = CG_Start \<Longrightarrow> \<not> (cp \<in> dom (files s) \<and> kp \<in> dom (files s)) \<Longrightarrow>
    cg_step mat cp kp s (s\<lparr>pcs := (pcs s)(i := CG_WriteCert (mat i)), gens := Suc (gens s)\<rparr>)"
| write_cert: "pcs s i = CG_WriteCert b \<Longrightarrow>
    cg_step mat cp kp s (s\<lparr>files := (files s)(cp \<mapsto> fst b), pcs := (pcs s)(i := CG_WriteKey b)\<rparr>)"
| write_key: "pcs s i = CG_WriteKey b \<Longrightarrow>
    cg_step mat cp kp s (s\<lparr>files := (files s)(kp \<mapsto> snd b), pcs := (pcs s)(i := CG_Done)\<rparr>)"

definition cg_init :: "fs \<Rightarrow> cg_state" where
  "cg_init m = \<lparr>files = m, pcs = (\<lambda>_. CG_Start), gens = 0\<rparr>"

inductive_cases cg_step_cases: "cg_step mat cp kp s t"

section \<open>Lemmas\<close>

lemmas generate_cert_unfold = generate_cert_def write_file_def Let_def

lemma path_join_absolute: "starts_with b ''/'' \<Longrightarrow> path_join a b = b"
  by (simp add: path_join_def)

lemma generate_cert_hit:
  "cert_file dir h \<in> dom m \<Longrightarrow> key_file dir h \<in> dom m \<Longrightarrow>
     generate_cert env dir m h = (Inr (cert_file dir h, key_file dir h), m)"
  by (simp add: generate_cert_def Let_def)

lemma generate_cert_Inr:
  assumes "generate_cert env dir m h = (Inr r, m')"
  shows "r = (cert_file dir h, key_file dir h) \<and> cert_file dir h \<in> dom m' \<and> key_file dir h \<in> dom m'
         \<and> (\<forall>p. p \<noteq> cert_file dir h \<and> p \<noteq> key_file dir h \<longrightarrow> m' p = m p)"
  using assms
  by (auto simp: generate_cert_unfold split: if_splits sum.splits prod.splits)

lemma generate_cert_Inl_frame:
  assumes "generate_cert env dir m h = (Inl ex, m')"
  shows "\<forall>p. p \<noteq> cert_file dir h \<longrightarrow> m' p = m p"
  using assms
  by (auto simp: generate_cert_unfold split: if_splits sum.splits prod.splits)

lemma cg_step_single_run:
  assumes "pcs s i = CG_Start" and "\<not> (cp \<in> dom (files s) \<and> kp \<in> dom (files s))"
  shows "rtranclp (cg_step mat cp kp) s
           (s\<lparr>files := (files s)(cp \<mapsto> fst (mat i), kp \<mapsto> snd (mat i)),
              pcs := (pcs s)(i := CG_Done), gens := Suc (gens s)\<rparr>)"
proof -
  let ?s1 = "s\<lparr>pcs := (pcs s)(i := CG_WriteCert (mat i)), gens := Suc (gens s)\<rparr>"
  let ?s2 = "?s1\<lparr>files := (files ?s1)(cp \<mapsto> fst (mat i)), pcs := (pcs ?s1)(i := CG_WriteKey (mat i))\<rparr>"
  let ?s3 = "?s2\<lparr>files := (files ?s2)(kp \<mapsto> snd (mat i)), pcs := (pcs ?s2)(i := CG_Done)\<rparr>"
  have "cg_step mat cp kp s ?s1" using assms by (rule check_miss)
  moreover have "cg_step mat cp kp ?s1 ?s2" by (rule write_cert) simp
  moreover have "cg_step mat cp kp ?s2 ?s3" by (rule write_key) simp
  moreover have "?s3 = s\<lparr>files := (files s)(cp \<mapsto> fst (mat i), kp \<mapsto> snd (mat i)),
              pcs := (pcs s)(i := CG_Done), gens := Suc (gens s)\<rparr>"
    by simp
  ultimately show ?thesis
    by (metis (no_types, lifting) rtranclp.rtrancl_refl rtranclp.rtrancl_into_rtrancl)
qed

text \<open>C8: A successful call leaves both files on disk, so a second call for the same host
  is a cache hit: it returns the same paths, whatever the generator would now do, and
  changes nothing.\<close>

lemma generate_cert_idempotent:
  "generate_cert env dir m h = (Inr r, m') \<Longrightarrow> generate_cert env' dir m' h = (Inr r, m')"
  using generate_cert_Inr [of env dir m h r m'] by (simp add: generate_cert_hit)

text \<open>C9: On a cache miss with working cryptography and writable paths, the call writes the
  generated certificate and key to the two paths, touches no other file, and returns the
  paths.\<close>

lemma generate_cert_miss:
  assumes "\<not> (cert_file dir h \<in> dom m \<and> key_file dir h \<in> dom m)"
    and "gen env h = Inr (cb, kb)"
    and "writable env (cert_file dir h)" and "writable env (key_file dir h)"
  shows "generate_cert env dir m h =
           (Inr (cert_file dir h, key_file dir h), m(cert_file dir h \<mapsto> cb, key_file dir h \<mapsto> kb))"
  using assms by (auto simp: generate_cert_unfold)

text \<open>
  If two calls for the same host ran concurrently, as under the thread-per-connection
  design of the spec, both could miss the cache, both generate a key, and interleave
  their writes so that the certificate on disk comes from one call and the key from the
  other: nothing in \<open>generate_cert\<close> makes generation single-flight.  (The server of
  the code handles connections one at a time, see \<open>Listener\<close>, so this interleaving
  does not arise there.)
\<close>

lemma cert_race_mismatch:
  assumes "cp \<noteq> kp" and "cp \<notin> dom m"
  shows "\<exists>s. rtranclp (cg_step mat cp kp) (cg_init m) s \<and> pcs s 0 = CG_Done \<and> pcs s 1 = CG_Done
             \<and> files s cp = Some (fst (mat 0)) \<and> files s kp = Some (snd (mat 1)) \<and> gens s = 2"
proof -
  let ?s0 = "cg_init m"
  let ?s1 = "?s0\<lparr>pcs := (pcs ?s0)(0 := CG_WriteCert (mat 0)), gens := Suc (gens ?s0)\<rparr>"
  let ?s2 = "?s1\<lparr>pcs := (pcs ?s1)(1 := CG_WriteCert (mat 1)), gens := Suc (gens ?s1)\<rparr>"
  let ?s3 = "?s2\<lparr>files := (files ?s2)(cp \<mapsto> fst (mat 1)), pcs := (pcs ?s2)(1 := CG_WriteKey (mat 1))\<rparr>"
  let ?s4 = "?s3\<lparr>files := (files ?s3)(cp \<mapsto> fst (mat 0)), pcs := (pcs ?s3)(0 := CG_WriteKey (mat 0))\<rparr>"
  let ?s5 = "?s4\<lparr>files := (files ?s4)(kp \<mapsto> snd (mat 0)), pcs := (pcs ?s4)(0 := CG_Done)\<rparr>"
  let ?s6 = "?s5\<lparr>files := (files ?s5)(kp \<mapsto> snd (mat 1)), pcs := (pcs ?s5)(1 := CG_Done)\<rparr>"
  have "cg_step mat cp kp ?s0 ?s1" by (rule check_miss) (use assms in \<open>simp_all add: cg_init_def\<close>)
  moreover have "cg_step mat cp kp ?s1 ?s2" by (rule check_miss) (use assms in \<open>simp_all add: cg_init_def\<close>)
  moreover have "cg_step mat cp kp ?s2 ?s3" by (rule write_cert) simp
  moreover have "cg_step mat cp kp ?s3 ?s4" by (rule write_cert) simp
  moreover have "cg_step mat cp kp ?s4 ?s5" by (rule write_key) simp
  moreover have "cg_step mat cp kp ?s5 ?s6" by (rule write_key) simp
  ultimately have run: "rtranclp (cg_step mat cp kp) ?s0 ?s6"
    by (meson rtranclp.rtrancl_refl rtranclp.rtrancl_into_rtrancl)
  have "pcs ?s6 0 = CG_Done \<and> pcs ?s6 1 = CG_Done \<and> files ?s6 cp = Some (fst (mat 0))
        \<and> files ?s6 kp = Some (snd (mat 1)) \<and> gens ?s6 = 2"
    using assms by (simp add: cg_init_def)
  with run show ?thesis by blast
qed

text \<open>
  \<open>os.path.join\<close> discards the certificate directory when the second part is absolute:
  for a host name beginning with a slash both files lie at that absolute path.
\<close>

lemma cert_path_escapes_dir:
  assumes "starts_with h ''/''"
  shows "cert_file dir h = h @ ''.pem'' \<and> key_file dir h = h @ ''.key''"
proof -
  from assms obtain r where "h = ''/'' @ r" by (auto simp: starts_with_iff)
  then have "starts_with (h @ ''.pem'') ''/''" "starts_with (h @ ''.key'') ''/''" by simp_all
  then show ?thesis by (simp add: cert_file_def key_file_def path_join_absolute)
qed

lemma generate_cert_changes:
  "generate_cert env dir m h = (r, m') \<Longrightarrow> m' p \<noteq> m p \<Longrightarrow> p = cert_file dir h \<or> p = key_file dir h"
  using generate_cert_Inr [of env dir m h _ m'] generate_cert_Inl_frame [of env dir m h _ m']
  by (cases r) auto

lemma generate_cert_idempotent_witness:
  "generate_cert \<lparr>gen = (\<lambda>h. Inr (''C'', ''K'')), writable = (\<lambda>p. True)\<rparr> ''/d'' Map.empty ''a''
     = (Inr (''/d/a.pem'', ''/d/a.key''), [''/d/a.pem'' \<mapsto> ''C'', ''/d/a.key'' \<mapsto> ''K''])
   \<and> generate_cert \<lparr>gen = (\<lambda>h. Inl ImportError), writable = (\<lambda>p. False)\<rparr> ''/d''
       [''/d/a.pem'' \<mapsto> ''C'', ''/d/a.key'' \<mapsto> ''K''] ''a''
     = (Inr (''/d/a.pem'', ''/d/a.key''), [''/d/a.pem'' \<mapsto> ''C'', ''/d/a.key'' \<mapsto> ''K''])"
proof -
  have g: "generate_cert \<lparr>gen = (\<lambda>h. Inr (''C'', ''K'')), writable = (\<lambda>p. True)\<rparr> ''/d'' Map.empty ''a''
     = (Inr (''/d/a.pem'', ''/d/a.key''), [''/d/a.pem'' \<mapsto> ''C'', ''/d/a.key'' \<mapsto> ''K''])"
    by (simp add: generate_cert_unfold cert_file_def key_file_def path_join_def)
  show ?thesis
    using g generate_cert_idempotent [OF g, of "\<lparr>gen = (\<lambda>h. Inl ImportError), writable = (\<lambda>p. False)\<rparr>"]
    by simp
qed

lemma generate_cert_miss_witness:
  "\<not> (cert_file ''/d'' ''a'' \<in> dom (Map.empty :: fs) \<and> key_file ''/d'' ''a'' \<in> dom (Map.empty :: fs))
   \<and> generate_cert \<lparr>gen = (\<lambda>h. Inr (''C'', ''K'')), writable = (\<lambda>p. True)\<rparr> ''/d'' Map.empty ''a''
     = (Inr (cert_file ''/d'' ''a'', key_file ''/d'' ''a''),
        [cert_file ''/d'' ''a'' \<mapsto> ''C'', key_file ''/d'' ''a'' \<mapsto> ''K''])"
  using generate_cert_miss [of "''/d''" "''a''" Map.empty "\<lparr>gen = (\<lambda>h. Inr (''C'', ''K'')), writable = (\<lambda>p. True)\<rparr>" "''C''" "''K''"]
  by simp

lemma cert_race_mismatch_witness:
  "\<exists>s. rtranclp (cg_step (\<lambda>i. if i = 0 then (''C0'', ''K0'') else (''C1'', ''K1'')) ''a.pem'' ''a.key'')
         (cg_init Map.empty) s
       \<and> pcs s 0 = CG_Done \<and> pcs s 1 = CG_Done
       \<and> files s ''a.pem'' = Some ''C0'' \<and> files s ''a.key'' = Some ''K1'' \<and> gens s = 2"
  using cert_race_mismatch [of "''a.pem''" "''a.key''" Map.empty
      "\<lambda>i. if i = 0 then (''C0'', ''K0'') else (''C1'', ''K1'')"]
  by simp

lemma cert_file_ne_key_file: "cert_file dir h \<noteq> key_file dir h"
  by (cases h) (auto simp: cert_file_def key_file_def path_join_def)

text \<open>C27: When the certificate is written but the key cannot be, generate_cert raises
  OSError (which escapes do_CONNECT) and leaves the new certificate on disk without its
  key; the next call misses the cache again and regenerates both files.\<close>

lemma generate_cert_partial_write:
  assumes "\<not> (cert_file dir h \<in> dom m \<and> key_file dir h \<in> dom m)"
    and "gen env h = Inr (cb, kb)"
    and "writable env (cert_file dir h)" and "\<not> writable env (key_file dir h)"
    and "key_file dir h \<notin> dom m"
  shows "generate_cert env dir m h = (Inl (OSError (key_file dir h)), m(cert_file dir h \<mapsto> cb))
         \<and> cert_file dir h \<in> dom (m(cert_file dir h \<mapsto> cb))
         \<and> key_file dir h \<notin> dom (m(cert_file dir h \<mapsto> cb))"
  using assms cert_file_ne_key_file [of dir h] by (auto simp: generate_cert_unfold)

lemma generate_cert_partial_write_witness:
  "\<not> (cert_file ''/d'' ''a'' \<in> dom (Map.empty :: fs) \<and> key_file ''/d'' ''a'' \<in> dom (Map.empty :: fs))
   \<and> generate_cert \<lparr>gen = (\<lambda>h. Inr (''C'', ''K'')), writable = (\<lambda>p. p = ''/d/a.pem'')\<rparr> ''/d'' Map.empty ''a''
     = (Inl (OSError ''/d/a.key''), [''/d/a.pem'' \<mapsto> ''C''])"
proof -
  let ?env = "\<lparr>gen = (\<lambda>h. Inr (''C'', ''K'')), writable = (\<lambda>p. p = ''/d/a.pem'')\<rparr>"
  have f: "cert_file ''/d'' ''a'' = ''/d/a.pem''" "key_file ''/d'' ''a'' = ''/d/a.key''"
    by (simp_all add: cert_file_def key_file_def path_join_def)
  have a: "\<not> (cert_file ''/d'' ''a'' \<in> dom (Map.empty :: fs) \<and> key_file ''/d'' ''a'' \<in> dom (Map.empty :: fs))"
    and b: "gen ?env ''a'' = Inr (''C'', ''K'')"
    and c: "writable ?env (cert_file ''/d'' ''a'')" and d: "\<not> writable ?env (key_file ''/d'' ''a'')"
    and e: "key_file ''/d'' ''a'' \<notin> dom (Map.empty :: fs)"
    by (simp_all add: f)
  show ?thesis using generate_cert_partial_write [OF a b c d e] a f by simp
qed

end
