(* ===== verification/Handler.thy ===== *)
theory Handler
  imports Router CertStore
begin

text \<open>
  The request handler built by \<open>ProxyEngine._make_handler\<close>
  (\<open>src/proxy_engine.py\<close>, class \<open>Handler\<close>, methods \<open>do_CONNECT\<close> and
  \<open>do_GET\<close>) together with the part of \<open>http.server.BaseHTTPRequestHandler\<close>
  that drives them: \<open>handle_one_request\<close> reads one request line and calls
  \<open>do_<METHOD>\<close>, or answers with \<open>send_error(501)\<close> when the class has no such
  method, or leaves the answer to \<open>parse_request\<close> when the bytes are not a request
  line.  With the default \<open>protocol_version\<close> HTTP/1.0 a
  connection carries one request, so \<open>handle_one_request\<close> on the client's input is
  the whole connection.

  The client's input is a list of \<open>client_item\<close>s: a request line that
  \<open>parse_request\<close> accepts (method and path), or a TLS handshake the client attempts
  (with its outcome, when the server has started one).  Handshake bytes where a request
  line is expected are read as a bad request line: what \<open>parse_request\<close> does with
  them is the environment's \<open>bad_line\<close>, nothing when they hold no word, else
  \<open>send_error\<close> with the code and message it chooses (400, 414 or 505).  The handler's output is the list
  of \<open>out_event\<close>s it writes to the client.  The outside world is the record
  \<open>handler_env\<close>: Python's string hash, the outbound \<open>requests.get\<close> (its result
  for a URL, headers and proxies, with the fixed \<open>timeout=20, stream=True\<close>), the
  certificate environment, and the interleaving of a concurrent
  \<open>update_proxy_pool\<close>.  The connection's outcome is \<open>Closed\<close>, or
  \<open>Raised\<close> with the exception that escapes the handler (socketserver then logs it
  and closes the socket; the listener goes on).
\<close>

datatype out_event =
    Status nat "string option"
  | Header string string
  | EndHeaders
  | Body string
  | TlsEstablished

datatype fetch_result =
    FetchRaise py_exc
  | FetchResp nat "(string \<times> string) list" "string list" "py_exc option"

record handler_env =
  hash :: str_hash
  fetch :: "string \<Rightarrow> (string \<times> string) list \<Rightarrow> proxies \<Rightarrow> fetch_result"
  certs :: cert_env
  pool_upd :: pool_update
  bad_line :: "(nat \<times> string) option"

datatype client_item = Req string string | Handshake bool

datatype conn_result = Closed | Raised py_exc

section \<open>URLs\<close>

text \<open>Step 1 of \<open>do_GET\<close>: a target without scheme gets \<open>http://\<close>.\<close>

definition normalize_url :: "string \<Rightarrow> string" where
  "normalize_url path =
     (if starts_with path ''http://'' \<or> starts_with path ''https://'' then path
      else ''http://'' @ py_lstrip_char CHR ''/'' path)"

text \<open>
  \<open>urllib.parse.urlparse(url).netloc\<close> (\<open>urlsplit\<close>): a scheme is the text before
  the first colon when it starts with a letter and has only scheme characters; after
  it, \<open>//\<close> starts the netloc, which runs to the first \<open>/\<close>, \<open>?\<close> or \<open>#\<close>.
  An unbalanced bracket raises \<open>ValueError\<close>.  (The URLs here start with
  \<open>http\<close>, so the leading-whitespace and control-character stripping of
  \<open>urlsplit\<close> does nothing and is left out.)
\<close>

definition scheme_chars :: string where
  "scheme_chars = ascii_upper @ ascii_lower @ ''0123456789+-.''"

definition url_after_scheme :: "string \<Rightarrow> string" where
  "url_after_scheme url =
     (let i = length (takeWhile (\<lambda>c. c \<noteq> CHR '':'') url) in
      if 0 < i \<and> i < length url \<and> hd url \<in> set (ascii_upper @ ascii_lower)
         \<and> list_all (\<lambda>c. c \<in> set scheme_chars) (take i url)
      then drop (Suc i) url else url)"

definition url_netloc :: "string \<Rightarrow> py_exc + string" where
  "url_netloc url =
     (let rest = url_after_scheme url in
      if take 2 rest = ''//'' then
        (let nl = takeWhile (\<lambda>c. c \<notin> set ''/?#'') (drop 2 rest) in
         if (CHR ''['' \<in> set nl) \<noteq> (CHR '']'' \<in> set nl) then Inl (ValueError ''Invalid IPv6 URL'')
         else Inr nl)
      else Inr [])"

section \<open>do_GET\<close>

definition hop_by_hop :: "string list" where
  "hop_by_hop = [''content-encoding'', ''transfer-encoding'', ''connection'']"

text \<open>Steps 1 to 3: the URL, the outbound headers and the proxies, each of which may raise.\<close>

definition outbound_request ::
  "handler_env \<Rightarrow> engine \<Rightarrow> string \<Rightarrow> py_exc + (string \<times> (string \<times> string) list \<times> proxies)" where
  "outbound_request env e path =
     (let url = normalize_url path in
      case url_netloc url of
        Inl ex \<Rightarrow> Inl ex
      | Inr nl \<Rightarrow>
          (let hdrs = dict_set (headers (config e)) ''Host'' nl in
           case select_proxies (hash env) e (pool_upd env) url of
             Inl ex \<Rightarrow> Inl ex
           | Inr px \<Rightarrow> Inr (url, hdrs, px)))"

definition forward_headers :: "(string \<times> string) list \<Rightarrow> (string \<times> string) list" where
  "forward_headers hs = filter (\<lambda>(k, v). py_lower k \<notin> set hop_by_hop) hs"

text \<open>The \<open>except\<close> branch: status 502, no headers, the body \<open>Proxy Error\<close>.\<close>

definition error_reply :: "out_event list" where
  "error_reply = [Status 502 None, EndHeaders, Body ''Proxy Error'']"

text \<open>
  Steps 4 and 5: the status line, the headers without the hop-by-hop ones, the body
  chunks as they arrive; an exception while streaming falls into the same
  \<open>except\<close> branch after what was already written.
\<close>

fun relay :: "fetch_result \<Rightarrow> out_event list" where
  "relay (FetchRaise ex) = error_reply"
| "relay (FetchResp st rh chunks err) =
     [Status st None] @ map (\<lambda>(k, v). Header k v) (forward_headers rh) @ [EndHeaders]
     @ map Body chunks @ (case err of None \<Rightarrow> [] | Some ex \<Rightarrow> error_reply)"

definition do_GET :: "handler_env \<Rightarrow> engine \<Rightarrow> string \<Rightarrow> out_event list" where
  "do_GET env e path =
     (case outbound_request env e path of
        Inl ex \<Rightarrow> error_reply
      | Inr (url, hdrs, px) \<Rightarrow> relay (fetch env url hdrs px))"

section \<open>Error replies of http.server\<close>

text \<open>
  \<open>BaseHTTPRequestHandler.send_error(code, message)\<close> (Python 3.11): the status line
  through \<open>send_response\<close>, the header \<open>Connection: close\<close>, and for a code of at
  least 200 other than 204, 205 and 304 the HTML page of \<open>DEFAULT_ERROR_MESSAGE\<close>
  with its \<open>Content-Type\<close> and \<open>Content-Length\<close>; the page is not written for a
  \<open>HEAD\<close> request.  The reason phrase defaults to the short text of the
  \<open>responses\<close> table, the explanation is its long text (\<open>???\<close> for a code not in
  the table).  The page is ASCII for the messages the handler passes, so its UTF-8
  length is its length.  A \<open>Status\<close> event stands for all of \<open>send_response\<close>:
  the status line and the \<open>Server\<close> and \<open>Date\<close> headers it always adds.
\<close>

definition http_responses :: "(nat \<times> string \<times> string) list" where
  "http_responses =
     [(400, ''Bad Request'', ''Bad request syntax or unsupported method''),
      (414, ''Request-URI Too Long'', ''URI is too long''),
      (501, ''Not Implemented'', ''Server does not support this operation''),
      (505, ''HTTP Version Not Supported'', ''Cannot fulfill request'')]"

definition error_page :: "nat \<Rightarrow> string \<Rightarrow> string \<Rightarrow> string" where
  "error_page code msg explain =
     concat (map (\<lambda>l. l @ [CHR 0x0A])
       [''<!DOCTYPE HTML>'',
        ''<html lang='' @ [CHR 0x22] @ ''en'' @ [CHR 0x22] @ ''>'',
        ''    <head>'',
        ''        <meta charset='' @ [CHR 0x22] @ ''utf-8'' @ [CHR 0x22] @ ''>'',
        ''        <title>Error response</title>'',
        ''    </head>'',
        ''    <body>'',
        ''        <h1>Error response</h1>'',
        ''        <p>Error code: '' @ nat_str code @ ''</p>'',
        ''        <p>Message: '' @ msg @ ''.</p>'',
        ''        <p>Error code explanation: '' @ nat_str code @ '' - '' @ explain @ ''.</p>'',
        ''    </body>'',
        ''</html>''])"

definition send_error :: "nat \<Rightarrow> string option \<Rightarrow> string option \<Rightarrow> out_event list" where
  "send_error code message command =
     (let (short, long) = (case map_of http_responses code of Some sl \<Rightarrow> sl | None \<Rightarrow> (''???'', ''???''));
          msg = (case message of None \<Rightarrow> short | Some mm \<Rightarrow> mm) in
      [Status code (Some msg), Header ''Connection'' ''close''] @
      (if 200 \<le> code \<and> code \<notin> {204, 205, 304} then
         (let body = error_page code (html_escape msg) (html_escape long) in
          [Header ''Content-Type'' ''text/html;charset=utf-8'', Header ''Content-Length'' (nat_str (length body)),
           EndHeaders] @ (if command \<noteq> Some ''HEAD'' then [Body body] else []))
       else [EndHeaders]))"

section \<open>do_CONNECT and the dispatcher\<close>

text \<open>\<open>self2.path.split(":")[0]\<close>.\<close>

definition connect_host :: "string \<Rightarrow> string" where
  "connect_host path = hd (py_split_sep CHR '':'' path)"

text \<open>
  \<open>do_CONNECT\<close>: 403 unless MITM is enabled; then the certificate (an exception
  from \<open>generate_cert\<close> escapes the handler); 500 for an empty path; else 200, the
  TLS handshake over the client socket, and one more request read from the decrypted
  stream.  Everything after the 200 is inside \<open>try: ... except Exception: pass\<close>,
  so its exceptions are swallowed.
\<close>

fun handle_one_request ::
  "handler_env \<Rightarrow> engine \<Rightarrow> fs \<Rightarrow> client_item list \<Rightarrow> out_event list \<times> fs \<times> conn_result"
and do_CONNECT ::
  "handler_env \<Rightarrow> engine \<Rightarrow> fs \<Rightarrow> string \<Rightarrow> client_item list \<Rightarrow> out_event list \<times> fs \<times> conn_result"
where
  "handle_one_request env e m [] = ([], m, Closed)"
| "handle_one_request env e m (Handshake b # rest) =
     ((case bad_line env of None \<Rightarrow> [] | Some (code, msg) \<Rightarrow> send_error code (Some msg) None), m, Closed)"
| "handle_one_request env e m (Req meth path # rest) =
     (if meth = ''GET'' then (do_GET env e path, m, Closed)
      else if meth = ''CONNECT'' then do_CONNECT env e m path rest
      else (send_error 501 (Some (''Unsupported method ('' @ py_repr meth @ '')'')) (Some meth), m, Closed))"
| "do_CONNECT env e m path rest =
     (if \<not> mitm_enabled (config e) then ([Status 403 None, EndHeaders], m, Closed)
      else
        (case generate_cert (certs env) (cert_dir e) m (connect_host path) of
           (Inl ex, m') \<Rightarrow> ([], m', Raised ex)
         | (Inr (c, k), m') \<Rightarrow>
             (if c = [] \<or> k = [] then ([Status 500 None, EndHeaders], m', Closed)
              else
                (let pre = [Status 200 (Some ''Connection Established''), EndHeaders] in
                 case rest of
                   Handshake ok # rest' \<Rightarrow>
                     (if ok then
                        (case handle_one_request env e m' rest' of
                           (out, m'', r) \<Rightarrow> (pre @ TlsEstablished # out, m'', Closed))
                      else (pre, m', Closed))
                 | _ \<Rightarrow> (pre, m', Closed)))))"

section \<open>Concrete environments for the witnesses\<close>

text \<open>
  \<open>is_status\<close> picks the status lines out of an output.  \<open>demo_env\<close> is an
  environment whose outbound requests all time out and whose certificate generation
  succeeds; \<open>demo_engine\<close> is a freshly constructed engine and \<open>mitm_engine\<close>
  the same with interception enabled.
\<close>

fun is_status :: "out_event \<Rightarrow> bool" where
  "is_status (Status n r) = True"
| "is_status _ = False"

definition demo_env :: handler_env where
  "demo_env =
     \<lparr>hash = (\<lambda>u. 7), fetch = (\<lambda>u hs px. FetchRaise (RequestException ''Read timed out'')),
      certs = \<lparr>gen = (\<lambda>h. Inr (''CERT'', ''KEY'')), writable = (\<lambda>p. True)\<rparr>,
      pool_upd = NoUpdate, bad_line = None\<rparr>"

definition demo_engine :: engine where
  "demo_engine = engine_init ''/home/op''"

definition mitm_engine :: engine where
  "mitm_engine = set_config demo_engine (Set_mitm_enabled True)"

definition ok_env :: handler_env where
  "ok_env = demo_env\<lparr>fetch := (\<lambda>u hs px.
     FetchResp 200 [(''Content-Type'', ''text/html''), (''Connection'', ''close'')] [''<html>''] None)\<rparr>"

definition broken_stream_env :: handler_env where
  "broken_stream_env = demo_env\<lparr>fetch := (\<lambda>u hs px.
     FetchResp 200 [] [''<ht''] (Some (RequestException ''Connection reset by peer'')))\<rparr>"

definition nocrypto_env :: handler_env where
  "nocrypto_env = demo_env\<lparr>certs := \<lparr>gen = (\<lambda>h. Inl ImportError), writable = (\<lambda>p. True)\<rparr>\<rparr>"

lemmas demo_defs = ok_env_def broken_stream_env_def nocrypto_env_def demo_env_def demo_engine_def mitm_engine_def engine_init_def default_config_def
  set_config_def expand_home_def

section \<open>Lemmas\<close>

lemmas url_defs = outbound_request_def normalize_url_def url_netloc_def url_after_scheme_def
  scheme_chars_def ascii_upper_def ascii_lower_def select_proxies_def select_proxies_reads_def

lemma path_join_nonempty: "b \<noteq> [] \<Longrightarrow> path_join a b \<noteq> []"
  by (simp add: path_join_def)

lemma cert_key_file_nonempty [simp]: "cert_file dir h \<noteq> []" "key_file dir h \<noteq> []"
  by (simp_all add: cert_file_def key_file_def path_join_nonempty)

lemma generate_cert_Inr_nonempty:
  "generate_cert env dir m h = (Inr (c, k), m') \<Longrightarrow> c \<noteq> [] \<and> k \<noteq> []"
  using generate_cert_Inr [of env dir m h "(c, k)" m'] by simp

lemma relay_headers: "Header k v \<in> set (relay r) \<Longrightarrow> py_lower k \<notin> set hop_by_hop"
  by (cases r) (auto simp: error_reply_def forward_headers_def split: option.splits)

lemma do_GET_headers: "Header k v \<in> set (do_GET env e p) \<Longrightarrow> py_lower k \<notin> set hop_by_hop"
  by (auto simp: do_GET_def error_reply_def dest: relay_headers split: sum.splits prod.splits)

lemma send_error_headers:
  "Header k v \<in> set (send_error c msg cmd) \<Longrightarrow> py_lower k \<in> set hop_by_hop \<Longrightarrow> (k, v) = (''Connection'', ''close'')"
proof -
  assume h: "Header k v \<in> set (send_error c msg cmd)" and l: "py_lower k \<in> set hop_by_hop"
  have "(k, v) = (''Connection'', ''close'') \<or> k = ''Content-Type'' \<or> k = ''Content-Length''"
    using h by (auto simp: send_error_def Let_def split: prod.splits if_splits)
  moreover have "py_lower ''Content-Type'' \<notin> set hop_by_hop" "py_lower ''Content-Length'' \<notin> set hop_by_hop"
    by (simp_all add: hop_by_hop_def py_simps)
  ultimately show ?thesis using l by auto
qed
lemma connection_headers_aux:
  "Header k v \<in> set (fst (handle_one_request env e m xs)) \<Longrightarrow> py_lower k \<in> set hop_by_hop \<Longrightarrow>
     (k, v) = (''Connection'', ''close'')"
  "Header k v \<in> set (fst (do_CONNECT env e m p xs)) \<Longrightarrow> py_lower k \<in> set hop_by_hop \<Longrightarrow>
     (k, v) = (''Connection'', ''close'')"
proof (induction env e m xs and env e m p xs rule: handle_one_request_do_CONNECT.induct)
  case (2 env e m b rest)
  then show ?case by (auto dest: send_error_headers split: option.splits)
next
  case (4 env e m path rest)
  then show ?case
    by (auto simp: Let_def split: if_splits prod.splits sum.splits list.splits client_item.splits)
qed (auto split: if_splits dest: do_GET_headers send_error_headers)

text \<open>C3: The only hop-by-hop header (content-encoding, transfer-encoding, connection,
  compared case-insensitively) that a connection ever writes to the client, directly or
  inside an intercepted tunnel, is the "Connection: close" of http.server's send_error
  (for a bad request line or an unsupported method); hop-by-hop headers of the upstream
  response are never relayed.\<close>

lemma connection_hop_by_hop_only_close:
  "Header k v \<in> set (fst (handle_one_request env e m xs)) \<Longrightarrow> py_lower k \<in> set hop_by_hop \<Longrightarrow>
     (k, v) = (''Connection'', ''close'')"
  by (rule connection_headers_aux(1))

text \<open>C2: When the outbound request raises (a timeout, a DNS or connection failure), the client receives exactly status 502, the end of the headers and the body "Proxy Error", and the connection closes normally.\<close>

lemma do_GET_fetch_raise:
  "outbound_request env e p = Inr (u, hs, px) \<Longrightarrow> fetch env u hs px = FetchRaise ex \<Longrightarrow>
     do_GET env e p = [Status 502 None, EndHeaders, Body ''Proxy Error'']"
  by (simp add: do_GET_def error_reply_def)

text \<open>C4: The outbound request goes to the normalized URL and carries exactly the configured extra headers with Host set to the URL's netloc, with unique header names.\<close>

lemma outbound_headers:
  assumes "outbound_request env e p = Inr (u, hs, px)" and "wf_engine e"
  shows "u = normalize_url p \<and>
         (\<exists>nl. url_netloc u = Inr nl \<and> map_of hs = (map_of (headers (config e)))(''Host'' \<mapsto> nl)
               \<and> distinct (map fst hs))"
  using assms
  by (auto simp: outbound_request_def wf_engine_def Let_def split: sum.splits)

text \<open>C7: When the upstream body stream fails after the status line was sent, the client receives two status lines: the upstream status and then 502.\<close>

lemma do_GET_stream_error:
  "outbound_request env e p = Inr (u, hs, px) \<Longrightarrow> fetch env u hs px = FetchResp st rh chs (Some ex) \<Longrightarrow>
     filter is_status (do_GET env e p) = [Status st None, Status 502 None]"
  by (auto simp: do_GET_def error_reply_def filter_empty_conv)

text \<open>C1: With MITM disabled, a CONNECT request is answered 403 with no further output, the certificate store is not touched, no handshake is attempted and the connection closes.\<close>

lemma connect_mitm_disabled:
  "\<not> mitm_enabled (config e) \<Longrightarrow>
     handle_one_request env e m (Req ''CONNECT'' t # rest) = ([Status 403 None, EndHeaders], m, Closed)"
  by simp

text \<open>C5: When the cryptography package is missing and the certificate is not cached, CONNECT writes nothing and the handler dies with NameError (console is unbound in proxy_engine.py): the client never receives the 500 the spec requires.\<close>

lemma connect_cert_unavailable:
  assumes "mitm_enabled (config e)" and "gen (certs env) (connect_host t) = Inl ImportError"
    and "cert_file (cert_dir e) (connect_host t) \<notin> dom m"
  shows "handle_one_request env e m (Req ''CONNECT'' t # rest) = ([], m, Raised (NameError ''console''))"
  using assms by (simp add: generate_cert_def Let_def)

text \<open>C26: do_CONNECT never answers 500: generate_cert either raises or returns two
  non-empty paths, so the "if not cert or not key" branch of the source is dead and no
  certificate failure is ever reported to the client as the spec's 500.\<close>

lemma connect_never_500: "take 1 (fst (do_CONNECT env e m t rest)) \<noteq> [Status 500 None]"
  by (auto simp: Let_def dest: generate_cert_Inr_nonempty split: prod.splits sum.splits list.splits client_item.splits)

text \<open>C6: After an intercepted CONNECT and a successful handshake, the tunnelled GET is handled by do_GET on its own path alone: the CONNECT target is not used, so an origin-form path such as /index.html is forwarded to http://index.html.\<close>

lemma tunnel_forward:
  assumes "mitm_enabled (config e)"
    and "generate_cert (certs env) (cert_dir e) m (connect_host t) = (Inr r, m')"
  shows "handle_one_request env e m (Req ''CONNECT'' t # Handshake True # Req ''GET'' p # rest) =
           ([Status 200 (Some ''Connection Established''), EndHeaders, TlsEstablished] @ do_GET env e p,
            m', Closed)"
proof -
  obtain c k where r: "r = (c, k)" by (cases r)
  with assms(2) have "c \<noteq> [] \<and> k \<noteq> []" by (simp add: generate_cert_Inr_nonempty)
  with assms r show ?thesis by simp
qed

lemma normalize_origin_form:
  "normalize_url (CHR ''/'' # p) = ''http://'' @ dropWhile (\<lambda>c. c = CHR ''/'') p"
  by (simp add: normalize_url_def py_lstrip_char_def)


lemma connect_mitm_disabled_witness:
  "\<not> mitm_enabled (config demo_engine) \<and>
   handle_one_request demo_env demo_engine Map.empty [Req ''CONNECT'' ''example.com:443''] =
     ([Status 403 None, EndHeaders], Map.empty, Closed)"
  using connect_mitm_disabled [of demo_engine demo_env Map.empty "''example.com:443''" "[]"]
  by (simp add: demo_defs)

lemma do_GET_fetch_raise_witness:
  "outbound_request demo_env demo_engine ''http://example.com/''
     = Inr (''http://example.com/'', [(''Host'', ''example.com'')], []) \<and>
   fetch demo_env ''http://example.com/'' [(''Host'', ''example.com'')] [] = FetchRaise (RequestException ''Read timed out'') \<and>
   do_GET demo_env demo_engine ''http://example.com/'' = [Status 502 None, EndHeaders, Body ''Proxy Error'']"
proof -
  have o: "outbound_request demo_env demo_engine ''http://example.com/''
     = Inr (''http://example.com/'', [(''Host'', ''example.com'')], [])"
    by (simp add: demo_defs outbound_request_def normalize_url_def url_netloc_def url_after_scheme_def
        scheme_chars_def ascii_upper_def ascii_lower_def select_proxies_def select_proxies_reads_def)
  have f: "fetch demo_env ''http://example.com/'' [(''Host'', ''example.com'')] [] = FetchRaise (RequestException ''Read timed out'')"
    by (simp add: demo_env_def)
  show ?thesis using do_GET_fetch_raise [OF o f] o f by simp
qed



lemma connection_hop_by_hop_only_close_witness:
  "Header ''Connection'' ''close'' \<in> set (fst (handle_one_request ok_env demo_engine Map.empty [Req ''POST'' ''/'']))
   \<and> py_lower ''Connection'' \<in> set hop_by_hop
   \<and> (''Connection'', ''close'') = (''Connection'', ''close'')"
proof -
  have h: "Header ''Connection'' ''close'' \<in> set (fst (handle_one_request ok_env demo_engine Map.empty [Req ''POST'' ''/'']))"
    by (simp add: send_error_def http_responses_def Let_def)
  have l: "py_lower ''Connection'' \<in> set hop_by_hop" by (simp add: hop_by_hop_def py_simps)
  show ?thesis using connection_hop_by_hop_only_close [OF h l] h l by simp
qed

lemma outbound_headers_witness:
  "outbound_request demo_env (add_header demo_engine ''X-Tag'' ''1'') ''example.com/a''
     = Inr (''http://example.com/a'', [(''X-Tag'', ''1''), (''Host'', ''example.com'')], [])
   \<and> wf_engine (add_header demo_engine ''X-Tag'' ''1'')
   \<and> url_netloc ''http://example.com/a'' = Inr ''example.com''"
proof -
  have o: "outbound_request demo_env (add_header demo_engine ''X-Tag'' ''1'') ''example.com/a''
     = Inr (''http://example.com/a'', [(''X-Tag'', ''1''), (''Host'', ''example.com'')], [])"
    by (simp add: demo_defs url_defs add_header_def py_simps)
  have w: "wf_engine (add_header demo_engine ''X-Tag'' ''1'')"
    by (simp add: demo_defs add_header_def wf_engine_def)
  have n: "url_netloc ''http://example.com/a'' = Inr ''example.com''"
    by (simp add: url_defs)
  from outbound_headers [OF o w] o w n show ?thesis by simp
qed

lemma connect_cert_unavailable_witness:
  "mitm_enabled (config mitm_engine) \<and>
   gen (certs nocrypto_env) (connect_host ''example.com:443'') = Inl ImportError \<and>
   cert_file (cert_dir mitm_engine) (connect_host ''example.com:443'') \<notin> dom (Map.empty :: fs) \<and>
   handle_one_request nocrypto_env mitm_engine Map.empty [Req ''CONNECT'' ''example.com:443'']
     = ([], Map.empty, Raised (NameError ''console''))"
proof -
  have a: "mitm_enabled (config mitm_engine)" by (simp add: demo_defs)
  have b: "gen (certs nocrypto_env) (connect_host ''example.com:443'') = Inl ImportError"
    by (simp add: demo_defs)
  have c: "cert_file (cert_dir mitm_engine) (connect_host ''example.com:443'') \<notin> dom (Map.empty :: fs)"
    by simp
  show ?thesis using connect_cert_unavailable [OF a b c, of "[]"] a b c by simp
qed

lemma tunnel_forward_witness:
  "mitm_enabled (config mitm_engine) \<and>
   generate_cert (certs demo_env) (cert_dir mitm_engine) Map.empty (connect_host ''example.com:443'')
     = (Inr (''/home/op/.raproxy/certs/example.com.pem'', ''/home/op/.raproxy/certs/example.com.key''),
        [''/home/op/.raproxy/certs/example.com.pem'' \<mapsto> ''CERT'', ''/home/op/.raproxy/certs/example.com.key'' \<mapsto> ''KEY''])
   \<and> handle_one_request demo_env mitm_engine Map.empty
       [Req ''CONNECT'' ''example.com:443'', Handshake True, Req ''GET'' ''/index.html'']
     = ([Status 200 (Some ''Connection Established''), EndHeaders, TlsEstablished]
          @ do_GET demo_env mitm_engine ''/index.html'',
        [''/home/op/.raproxy/certs/example.com.pem'' \<mapsto> ''CERT'', ''/home/op/.raproxy/certs/example.com.key'' \<mapsto> ''KEY''],
        Closed)"
proof -
  have a: "mitm_enabled (config mitm_engine)" by (simp add: demo_defs)
  have g: "generate_cert (certs demo_env) (cert_dir mitm_engine) Map.empty (connect_host ''example.com:443'')
     = (Inr (''/home/op/.raproxy/certs/example.com.pem'', ''/home/op/.raproxy/certs/example.com.key''),
        [''/home/op/.raproxy/certs/example.com.pem'' \<mapsto> ''CERT'', ''/home/op/.raproxy/certs/example.com.key'' \<mapsto> ''KEY''])"
    by (simp add: demo_defs generate_cert_unfold connect_host_def cert_file_def key_file_def path_join_def)
  show ?thesis using tunnel_forward [OF a g, of "''/index.html''" "[]"] a g by simp
qed

lemma do_GET_stream_error_witness:
  "outbound_request broken_stream_env demo_engine ''http://example.com/''
     = Inr (''http://example.com/'', [(''Host'', ''example.com'')], []) \<and>
   fetch broken_stream_env ''http://example.com/'' [(''Host'', ''example.com'')] []
     = FetchResp 200 [] [''<ht''] (Some (RequestException ''Connection reset by peer'')) \<and>
   filter is_status (do_GET broken_stream_env demo_engine ''http://example.com/'')
     = [Status 200 None, Status 502 None]"
proof -
  have o: "outbound_request broken_stream_env demo_engine ''http://example.com/''
     = Inr (''http://example.com/'', [(''Host'', ''example.com'')], [])"
    by (simp add: demo_defs url_defs)
  have f: "fetch broken_stream_env ''http://example.com/'' [(''Host'', ''example.com'')] []
     = FetchResp 200 [] [''<ht''] (Some (RequestException ''Connection reset by peer''))"
    by (simp add: demo_defs)
  show ?thesis using do_GET_stream_error [OF o f] o f by simp
qed

lemma connect_never_500_witness:
  "take 1 (fst (do_CONNECT nocrypto_env mitm_engine Map.empty ''example.com:443'' [])) \<noteq> [Status 500 None]"
  by (rule connect_never_500)

end
