(* ===== verification/TorManager.thy ===== *)
theory TorManager
  imports Config
begin

text \<open>
  The anonymizing-transport supervisor, class \<open>TorManager\<close> of
  \<open>src/Core/tor_manager.py\<close>.  The host it runs on is the record \<open>tor_host\<close>:
  \<open>platform.system()\<close>, the \<open>PREFIX\<close> environment variable, the home directory,
  which paths exist, and the result of the Windows \<open>where tor.exe\<close> subprocess
  (\<open>None\<close> when it raises).  \<open>ensure_running\<close> acts on the record
  \<open>tor_world\<close>: whether anything listens on 127.0.0.1:9150, the processes it has
  spawned, and the seconds it has slept.  \<open>Popen\<close> may raise (\<open>popen\<close> gives the
  exception, \<open>None\<close> for a started process).
\<close>

record tor_host =
  platform_system :: string
  prefix_env :: "string option"
  home_dir :: string
  path_exists :: "string \<Rightarrow> bool"
  where_result :: "(int \<times> string) option"

record tor_world =
  port_open :: bool
  procs :: "string list"
  slept :: nat

text \<open>\<open>result.stdout.strip().split('\n')[0]\<close> when \<open>where\<close> succeeded with output.\<close>

definition where_first :: "(int \<times> string) option \<Rightarrow> string option" where
  "where_first r =
     (case r of
        None \<Rightarrow> None
      | Some (rc, out) \<Rightarrow>
          (if rc = 0 \<and> py_strip out \<noteq> [] then Some (hd (py_split_sep CHR 0x0A (py_strip out)))
           else None))"

definition darwin_paths :: "string list" where
  "darwin_paths = [''/opt/homebrew/bin/tor'', ''/usr/local/bin/tor'']"

definition windows_candidates :: "string \<Rightarrow> string list" where
  "windows_candidates home = [home @ ''/tor/tor.exe'', ''C:/tor/tor.exe'', ''tor.exe'']"

definition get_tor_cmd :: "tor_host \<Rightarrow> string option" where
  "get_tor_cmd t =
     (let system = py_lower (platform_system t) in
      if py_contains ''com.termux'' (case prefix_env t of None \<Rightarrow> [] | Some p \<Rightarrow> p) then Some ''tor''
      else if system = ''linux'' then Some ''tor''
      else if system = ''darwin'' then
        (case find (path_exists t) darwin_paths of Some p \<Rightarrow> Some p | None \<Rightarrow> Some ''tor'')
      else if system = ''windows'' then
        (case where_first (where_result t) of
           Some p \<Rightarrow> Some p
         | None \<Rightarrow> find (path_exists t) (windows_candidates (home_dir t)))
      else Some ''tor'')"

definition tor_not_found :: py_exc where
  "tor_not_found = Exception ''Tor not found. Install manually.''"

text \<open>
  \<open>ensure_running\<close>: a successful probe of port 9150 returns \<open>True\<close> at once;
  otherwise the command is looked up (none, or an empty one, raises), started with its
  output discarded, and after \<open>time.sleep(3)\<close> \<open>True\<close> is returned without probing
  again.  A failing \<open>Popen\<close> becomes \<open>Exception("Tor start failed: ...")\<close>.
\<close>

definition ensure_running ::
  "tor_host \<Rightarrow> (string \<Rightarrow> py_exc option) \<Rightarrow> tor_world \<Rightarrow> (py_exc + bool) \<times> tor_world" where
  "ensure_running t popen w =
     (if port_open w then (Inr True, w)
      else
        (case get_tor_cmd t of
           None \<Rightarrow> (Inl tor_not_found, w)
         | Some c \<Rightarrow>
             (if c = [] then (Inl tor_not_found, w)
              else
                (case popen c of
                   Some ex \<Rightarrow> (Inl (Exception (''Tor start failed: '' @ exc_message ex)), w)
                 | None \<Rightarrow> (Inr True, w\<lparr>procs := procs w @ [c], slept := slept w + 3\<rparr>)))))"

text \<open>A Linux host with no Tor binary and a Windows host where nothing is found, for the
  witnesses.\<close>

definition linux_host :: tor_host where
  "linux_host = \<lparr>platform_system = ''Linux'', prefix_env = None, home_dir = ''/home/op'',
                 path_exists = (\<lambda>p. False), where_result = None\<rparr>"

definition windows_host :: tor_host where
  "windows_host = \<lparr>platform_system = ''Windows'', prefix_env = None, home_dir = ''C:/Users/op'',
                   path_exists = (\<lambda>p. False), where_result = Some (1, [])\<rparr>"

definition closed_world :: tor_world where
  "closed_world = \<lparr>port_open = False, procs = [], slept = 0\<rparr>"

section \<open>Lemmas\<close>

lemma find_darwin_nonempty: "find P darwin_paths = Some p \<Longrightarrow> p \<noteq> []"
  by (auto simp: darwin_paths_def split: if_splits)

lemma get_tor_cmd_not_windows:
  "py_lower (platform_system t) \<noteq> ''windows'' \<Longrightarrow> \<exists>c. get_tor_cmd t = Some c \<and> c \<noteq> []"
  by (auto simp: get_tor_cmd_def Let_def dest: find_darwin_nonempty split: option.split)

text \<open>C15: When something already listens on port 9150, ensure_running reports success and
  changes nothing: no process is started and no time is spent.\<close>

lemma ensure_running_probe_ok:
  "port_open w \<Longrightarrow> ensure_running t popen w = (Inr True, w)"
  by (simp add: ensure_running_def)

text \<open>C16: When the probe fails and the command starts, ensure_running reports success after
  sleeping three seconds without probing again: the world it returns still has nothing
  listening on the port (the spec's readiness gap).\<close>

lemma ensure_running_no_reprobe:
  assumes "\<not> port_open w" and "get_tor_cmd t = Some c" and "c \<noteq> []" and "popen c = None"
  shows "ensure_running t popen w = (Inr True, w\<lparr>procs := procs w @ [c], slept := slept w + 3\<rparr>)
         \<and> \<not> port_open (snd (ensure_running t popen w))"
  using assms by (simp add: ensure_running_def)

text \<open>C17: Off Windows a command is always found (the bare name tor when no known path
  exists), so ensure_running never fails with "Tor not found": a missing binary shows
  up as "Tor start failed" from Popen instead, unlike the spec's "binary not found".\<close>

lemma ensure_running_not_found_only_windows:
  "py_lower (platform_system t) \<noteq> ''windows'' \<Longrightarrow> fst (ensure_running t popen w) \<noteq> Inl tor_not_found"
  using get_tor_cmd_not_windows [of t]
  by (auto simp: ensure_running_def tor_not_found_def split: option.split)

text \<open>C18: On Windows outside Termux, when where fails and no candidate path exists, the
  probe failing leads to the exception "Tor not found. Install manually." and no process
  is started.\<close>

lemma ensure_running_windows_not_found:
  assumes "py_lower (platform_system t) = ''windows''"
    and "\<not> py_contains ''com.termux'' (case prefix_env t of None \<Rightarrow> [] | Some p \<Rightarrow> p)"
    and "where_first (where_result t) = None"
    and "\<not> list_ex (path_exists t) (windows_candidates (home_dir t))"
    and "\<not> port_open w"
  shows "ensure_running t popen w = (Inl tor_not_found, w)"
proof -
  have "find (path_exists t) (windows_candidates (home_dir t)) = None"
    using assms(4) by (simp add: find_None_iff list_ex_iff)
  then have "get_tor_cmd t = None"
    using assms(1-3) by (simp add: get_tor_cmd_def Let_def)
  with assms(5) show ?thesis by (simp add: ensure_running_def)
qed

lemmas tor_demo_defs = linux_host_def windows_host_def closed_world_def get_tor_cmd_def
  where_first_def windows_candidates_def py_simps

lemma ensure_running_probe_ok_witness:
  "port_open (closed_world\<lparr>port_open := True\<rparr>) \<and>
   ensure_running linux_host (\<lambda>c. None) (closed_world\<lparr>port_open := True\<rparr>)
     = (Inr True, closed_world\<lparr>port_open := True\<rparr>)"
  using ensure_running_probe_ok [of "closed_world\<lparr>port_open := True\<rparr>" linux_host "\<lambda>c. None"]
  by simp

lemma ensure_running_no_reprobe_witness:
  "ensure_running linux_host (\<lambda>c. None) closed_world = (Inr True, \<lparr>port_open = False, procs = [''tor''], slept = 3\<rparr>)
   \<and> \<not> port_open (snd (ensure_running linux_host (\<lambda>c. None) closed_world))"
proof -
  have a: "\<not> port_open closed_world" by (simp add: closed_world_def)
  have b: "get_tor_cmd linux_host = Some ''tor''" by (simp add: tor_demo_defs)
  have c: "''tor'' \<noteq> []" by simp
  have d: "(\<lambda>c. None :: py_exc option) ''tor'' = None" by simp
  show ?thesis using ensure_running_no_reprobe [OF a b c d] by (simp add: closed_world_def)
qed

lemma ensure_running_not_found_only_windows_witness:
  "py_lower (platform_system linux_host) \<noteq> ''windows'' \<and>
   fst (ensure_running linux_host (\<lambda>c. Some (OSError ''[Errno 2] No such file or directory: tor'')) closed_world)
     \<noteq> Inl tor_not_found"
proof -
  have a: "py_lower (platform_system linux_host) \<noteq> ''windows''" by (simp add: tor_demo_defs)
  show ?thesis using a ensure_running_not_found_only_windows [OF a] by simp
qed

lemma ensure_running_windows_not_found_witness:
  "py_lower (platform_system windows_host) = ''windows'' \<and>
   \<not> py_contains ''com.termux'' (case prefix_env windows_host of None \<Rightarrow> [] | Some p \<Rightarrow> p) \<and>
   where_first (where_result windows_host) = None \<and>
   \<not> list_ex (path_exists windows_host) (windows_candidates (home_dir windows_host)) \<and>
   \<not> port_open closed_world \<and>
   ensure_running windows_host (\<lambda>c. None) closed_world = (Inl tor_not_found, closed_world)"
proof -
  have a: "py_lower (platform_system windows_host) = ''windows''"
    and b: "\<not> py_contains ''com.termux'' (case prefix_env windows_host of None \<Rightarrow> [] | Some p \<Rightarrow> p)"
    and c: "where_first (where_result windows_host) = None"
    and d: "\<not> list_ex (path_exists windows_host) (windows_candidates (home_dir windows_host))"
    and e: "\<not> port_open closed_world"
    by (simp_all add: tor_demo_defs)
  show ?thesis using a b c d e ensure_running_windows_not_found [OF a b c d e] by blast
qed

end
