(* ===== verification/Network.thy ===== *)
theory Network
  imports Prelude
begin

text \<open>
  The proxy-list fetcher, \<open>NetworkUtils\<close> of \<open>src/network.py\<close>.  The HTTP GET
  is the environment's \<open>get\<close> (the response text, or the exception
  \<open>requests.get\<close> raised; the status code is never looked at by the code, so it is
  not part of the model); what is modelled is the filtering of the text into the
  list \<open>self.proxies\<close>.
\<close>

record net_utils =
  proxies :: "string list"

definition proxy_list_url :: string where
  "proxy_list_url = ''https://raw.githubusercontent.com/TheSpeedX/PROXY-List/master/http.txt''"

definition proxy_lines :: "string \<Rightarrow> string list" where
  "proxy_lines text = take 20 (filter (\<lambda>p. CHR '':'' \<in> set p)
                       (filter (\<lambda>p. p \<noteq> []) (map py_strip (py_splitlines text))))"

definition fetch_proxies :: "(string \<Rightarrow> py_exc + string) \<Rightarrow> net_utils \<Rightarrow> net_utils" where
  "fetch_proxies get n =
     (case get proxy_list_url of
        Inl ex \<Rightarrow> n\<lparr>proxies := []\<rparr>
      | Inr text \<Rightarrow> n\<lparr>proxies := proxy_lines text\<rparr>)"

section \<open>Lemmas\<close>

text \<open>C19: After fetch_proxies the list holds at most 20 entries, each non-empty, containing a
  colon and without surrounding whitespace, whatever the response text, and is empty when
  the request raised.\<close>

lemma fetch_proxies_bounds:
  "length (proxies (fetch_proxies get n)) \<le> 20 \<and>
   list_all (\<lambda>p. p \<noteq> [] \<and> CHR '':'' \<in> set p \<and> \<not> py_isspace (hd p) \<and> \<not> py_isspace (last p))
     (proxies (fetch_proxies get n)) \<and>
   (get proxy_list_url = Inl ex \<longrightarrow> proxies (fetch_proxies get n) = [])"
proof -
  have entry: "p \<noteq> [] \<and> CHR '':'' \<in> set p \<and> \<not> py_isspace (hd p) \<and> \<not> py_isspace (last p)"
    if "p \<in> set (proxy_lines body)" for p body
  proof -
    from that have p: "p \<in> set (map py_strip (py_splitlines body))" "p \<noteq> []" "CHR '':'' \<in> set p"
      by (auto simp: proxy_lines_def dest: in_set_takeD)
    then obtain x where "p = py_strip x" by auto
    with p show ?thesis using py_strip_no_outer_space [of x] by simp
  qed
  then have "list_all (\<lambda>p. p \<noteq> [] \<and> CHR '':'' \<in> set p \<and> \<not> py_isspace (hd p) \<and> \<not> py_isspace (last p))
          (proxy_lines body)" for body
    by (simp add: list_all_iff)
  then show ?thesis
    by (auto simp: fetch_proxies_def proxy_lines_def split: sum.split)
qed

lemma fetch_proxies_bounds_witness:
  "proxies (fetch_proxies (\<lambda>u. Inr ''1.2.3.4:80\<newline>  \<newline> bad\<newline> 5.6.7.8:3128  '') \<lparr>proxies = []\<rparr>)
     = [''1.2.3.4:80'', ''5.6.7.8:3128''] \<and>
   length (proxies (fetch_proxies (\<lambda>u. Inr ''1.2.3.4:80\<newline>  \<newline> bad\<newline> 5.6.7.8:3128  '') \<lparr>proxies = []\<rparr>)) \<le> 20"
proof -
  have "proxies (fetch_proxies (\<lambda>u. Inr ''1.2.3.4:80\<newline>  \<newline> bad\<newline> 5.6.7.8:3128  '') \<lparr>proxies = []\<rparr>)
     = [''1.2.3.4:80'', ''5.6.7.8:3128'']"
    by (simp add: fetch_proxies_def proxy_lines_def py_simps)
  then show ?thesis
    using fetch_proxies_bounds [of "\<lambda>u. Inr ''1.2.3.4:80\<newline>  \<newline> bad\<newline> 5.6.7.8:3128  ''" "\<lparr>proxies = []\<rparr>" ImportError]
    by simp
qed

end
