(* ===== verification/Shell.thy ===== *)
theory Shell
  imports TorManager Network
begin

text \<open>
  The interactive shell of \<open>src/raproxy.py\<close>: the global objects \<open>engine\<close>,
  \<open>tor\<close> and \<open>net\<close> (the record \<open>app\<close>, with the console output as a list of
  \<open>msg\<close>s and the exceptions that killed background threads), the commands
  \<open>cmd_start\<close>, \<open>cmd_set_ip_rotation\<close>, \<open>cmd_enable_tor\<close>,
  \<open>cmd_enable_anti_fp\<close>, \<open>cmd_set_header\<close>, \<open>cmd_status\<close>, and the command loop
  of \<open>main\<close> (\<open>dispatch\<close> for one line, \<open>run_shell\<close> for the input).  The
  platform facts (\<open>IS_ROOT\<close>, \<open>detect_platform()\<close>), the Tor host, \<open>Popen\<close>,
  the proxy-list download and the port binding are the environment \<open>shell_env\<close>.
  Messages are named by what they say; the Rich markup is not modelled.  The
  anti-fingerprint call goes to \<open>stealth.py\<close>, which is not in the repository, and
  changes no modelled state.
\<close>

datatype msg =
    Initializing
  | TorSkippedTermux
  | TorFailed py_exc
  | ProxiesLoaded nat
  | NoProxiesFetched
  | CoreActive int
  | RotationSet string
  | RotationUsage
  | TorNeedsRoot
  | TorRoutingEnabled
  | AntiFingerprintActive
  | HeaderSet string string
  | StatusReport engine_config "nat option"
  | UsageSet
  | UsageEnable
  | FeatureUsage
  | CommandsUsage
  | Shutdown

record shell_env =
  is_root :: bool
  platform :: string
  tor_host_of :: tor_host
  popen_of :: "string \<Rightarrow> py_exc option"
  http_get :: "string \<Rightarrow> py_exc + string"
  bind_of :: "int \<Rightarrow> py_exc option"

record app =
  eng :: engine
  tor_w :: tor_world
  net :: net_utils
  console :: "msg list"
  bg_errors :: "py_exc list"

definition app_init :: "string \<Rightarrow> tor_world \<Rightarrow> app" where
  "app_init home w =
     \<lparr>eng = engine_init home, tor_w = w, net = \<lparr>proxies = []\<rparr>, console = [], bg_errors = []\<rparr>"

definition say :: "msg \<Rightarrow> app \<Rightarrow> app" where
  "say x a = a\<lparr>console := console a @ [x]\<rparr>"

text \<open>\<open>not IS_ROOT and "termux" in detect_platform()\<close>.\<close>

definition termux_nonroot :: "shell_env \<Rightarrow> bool" where
  "termux_nonroot env \<longleftrightarrow> \<not> is_root env \<and> py_contains ''termux'' (platform env)"

section \<open>Commands\<close>

definition cmd_set_ip_rotation :: "string \<Rightarrow> app \<Rightarrow> app" where
  "cmd_set_ip_rotation mode a =
     (if mode \<in> set [''per-request'', ''disabled'']
      then say (RotationSet mode) (a\<lparr>eng := set_config (eng a) (Set_ip_rotation mode)\<rparr>)
      else say RotationUsage a)"

definition cmd_enable_tor :: "shell_env \<Rightarrow> app \<Rightarrow> app" where
  "cmd_enable_tor env a =
     (if termux_nonroot env then say TorNeedsRoot a
      else say TorRoutingEnabled (a\<lparr>eng := set_config (eng a) (Set_tor_enabled True)\<rparr>))"

definition cmd_enable_anti_fp :: "app \<Rightarrow> app" where
  "cmd_enable_anti_fp a =
     say AntiFingerprintActive (a\<lparr>eng := set_config (eng a) (Set_anti_fingerprint True)\<rparr>)"

definition cmd_set_header :: "string \<Rightarrow> string \<Rightarrow> app \<Rightarrow> app" where
  "cmd_set_header k v a = say (HeaderSet k v) (a\<lparr>eng := add_header (eng a) k v\<rparr>)"

definition cmd_status :: "app \<Rightarrow> app" where
  "cmd_status a =
     say (StatusReport (config (eng a))
            (if proxy_pool (eng a) = [] then None else Some (length (proxy_pool (eng a))))) a"

text \<open>
  \<open>cmd_start\<close> in its three stages.  Tor: skipped on non-root Termux, else
  \<open>ensure_running\<close>, whose exception is printed and ends the command (the second
  component \<open>False\<close>).  Rotation: unless \<open>ip_rotation\<close> is \<open>"disabled"\<close>, fetch
  the list and install it when non-empty.  Server: \<open>start_proxy\<close>, the "ACTIVE"
  message, and the server thread's bind; an exception in the thread is reported by
  the threading module, never to \<open>cmd_start\<close>.  The \<open>except PermissionError\<close>
  around \<open>start_proxy\<close> (lines 150 and 151) is not modelled: \<open>start_proxy\<close> only
  sets a flag and starts a thread, and \<open>Thread.start\<close> raises no
  \<open>PermissionError\<close> (its \<open>RuntimeError\<close> when no thread can be created is not
  modelled), so the binding-failure message is never printed.
\<close>

definition start_tor :: "shell_env \<Rightarrow> app \<Rightarrow> app \<times> bool" where
  "start_tor env a =
     (if \<not> tor_enabled (config (eng a)) then (a, True)
      else if termux_nonroot env then (say TorSkippedTermux a, True)
      else
        (case ensure_running (tor_host_of env) (popen_of env) (tor_w a) of
           (Inl ex, w) \<Rightarrow> (say (TorFailed ex) (a\<lparr>tor_w := w\<rparr>), False)
         | (Inr ok, w) \<Rightarrow> (a\<lparr>tor_w := w\<rparr>, True)))"

definition start_rotation :: "shell_env \<Rightarrow> app \<Rightarrow> app" where
  "start_rotation env a =
     (if ip_rotation (config (eng a)) \<noteq> ''disabled'' then
        (let n = fetch_proxies (http_get env) (net a); a1 = a\<lparr>net := n\<rparr> in
         if proxies n \<noteq> []
         then say (ProxiesLoaded (length (proxies n))) (a1\<lparr>eng := update_proxy_pool (eng a1) (proxies n)\<rparr>)
         else say NoProxiesFetched a1)
      else a)"

definition start_server :: "shell_env \<Rightarrow> app \<Rightarrow> app" where
  "start_server env a =
     (case start_proxy (eng a) of
        (e1, spawned) \<Rightarrow>
          (let a1 = say (CoreActive (port e1)) (a\<lparr>eng := e1\<rparr>) in
           if spawned then
             (case run_server (bind_of env) e1 of
                (e2, None) \<Rightarrow> a1\<lparr>eng := e2\<rparr>
              | (e2, Some ex) \<Rightarrow> a1\<lparr>eng := e2, bg_errors := bg_errors a1 @ [ex]\<rparr>)
           else a1))"

definition cmd_start :: "shell_env \<Rightarrow> app \<Rightarrow> app" where
  "cmd_start env a =
     (case start_tor env (say Initializing a) of
        (a1, go) \<Rightarrow> (if go then start_server env (start_rotation env a1) else a1))"

section \<open>The command loop\<close>

text \<open>
  One input line: stripped, empty lines skipped, split on whitespace, the first word
  lower-cased and dispatched; \<open>exit\<close> ends the loop (the second component).  The
  header value is the remaining words joined by single spaces.  A stripped non-empty
  line always has a first word, so the \<open>[]\<close> branch is never taken.
\<close>

definition dispatch :: "shell_env \<Rightarrow> app \<Rightarrow> string \<Rightarrow> app \<times> bool" where
  "dispatch env a line =
     (let cmd = py_strip line in
      if cmd = [] then (a, False)
      else
        (case py_split_ws cmd of
           [] \<Rightarrow> (a, False)
         | w0 # ws \<Rightarrow>
            (let parts = w0 # ws; action = py_lower w0 in
             if action = ''set'' then
               (if 3 \<le> length parts \<and> parts ! 1 = ''ip-rotation'' then (cmd_set_ip_rotation (parts ! 2) a, False)
                else if 4 \<le> length parts \<and> parts ! 1 = ''header''
                then (cmd_set_header (parts ! 2) (py_join '' '' (drop 3 parts)) a, False)
                else (say UsageSet a, False))
             else if action = ''enable'' then
               (if 2 \<le> length parts then
                  (if parts ! 1 = ''tor'' then (cmd_enable_tor env a, False)
                   else if parts ! 1 = ''anti-fingerprint'' then (cmd_enable_anti_fp a, False)
                   else (say FeatureUsage a, False))
                else (say UsageEnable a, False))
             else if action = ''start'' then (cmd_start env a, False)
             else if action = ''status'' then (cmd_status a, False)
             else if action = ''exit'' then (say Shutdown a, True)
             else (say CommandsUsage a, False))))"

text \<open>\<open>main\<close>'s loop over the input lines; the end of input (\<open>EOFError\<close>) ends it.\<close>

fun run_shell :: "shell_env \<Rightarrow> app \<Rightarrow> string list \<Rightarrow> app" where
  "run_shell env a [] = a"
| "run_shell env a (l # ls) =
     (case dispatch env a l of (a', stop) \<Rightarrow> if stop then a' else run_shell env a' ls)"

section \<open>Invariant\<close>

text \<open>
  What every reachable application state satisfies: unique header names, a rotation
  mode the code knows, and MITM off (no command sets it).
\<close>

definition shell_inv :: "app \<Rightarrow> bool" where
  "shell_inv a \<longleftrightarrow> wf_engine (eng a) \<and> ip_rotation (config (eng a)) \<in> {''disabled'', ''per-request''}
                     \<and> \<not> mitm_enabled (config (eng a))"

text \<open>A non-root Linux user whose Tor lookup fails and whose bind is refused, for the
  witnesses.\<close>

definition demo_shell :: shell_env where
  "demo_shell = \<lparr>is_root = False, platform = ''linux-user'', tor_host_of = windows_host,
                 popen_of = (\<lambda>c. None), http_get = (\<lambda>u. Inr []), bind_of = (\<lambda>p. Some PermissionError)\<rparr>"

section \<open>Lemmas\<close>

lemma eng_say [simp]: "eng (say x a) = eng a"
  by (simp add: say_def)

lemma console_say [simp]: "console (say x a) = console a @ [x]"
  by (simp add: say_def)

lemma shell_inv_config: "config (eng b) = config (eng a) \<Longrightarrow> shell_inv b = shell_inv a"
  by (simp add: shell_inv_def wf_engine_def)

lemma start_tor_eng: "eng (fst (start_tor env a)) = eng a"
  by (auto simp: start_tor_def split: prod.split sum.split)

lemma start_rotation_config: "config (eng (start_rotation env a)) = config (eng a)"
  by (simp add: start_rotation_def Let_def update_proxy_pool_def)

lemma start_server_config: "config (eng (start_server env a)) = config (eng a)"
proof -
  obtain e1 sp where s: "start_proxy (eng a) = (e1, sp)" by force
  obtain e2 r where b: "run_server (bind_of env) e1 = (e2, r)" by force
  have c1: "config e1 = config (eng a)" using start_proxy_frame(1) [of "eng a"] s by simp
  have c2: "config e2 = config e1" using run_server_frame(1) [of "bind_of env" e1] b by simp
  show ?thesis using s b c1 c2 by (cases r) (simp_all add: start_server_def Let_def)
qed

lemma cmd_start_config: "config (eng (cmd_start env a)) = config (eng a)"
proof -
  obtain a1 go where t: "start_tor env (say Initializing a) = (a1, go)" by force
  then have "eng a1 = eng a" using start_tor_eng [of env "say Initializing a"] by simp
  then show ?thesis
    using t by (simp add: cmd_start_def start_server_config start_rotation_config)
qed

lemma shell_inv_commands:
  assumes "shell_inv a"
  shows "shell_inv (say x a)" "shell_inv (cmd_set_ip_rotation m a)" "shell_inv (cmd_set_header k v a)"
    "shell_inv (cmd_enable_tor env a)" "shell_inv (cmd_enable_anti_fp a)" "shell_inv (cmd_start env a)"
    "shell_inv (cmd_status a)"
  using assms shell_inv_config [OF cmd_start_config, of env a]
  by (auto simp: shell_inv_def cmd_set_ip_rotation_def cmd_set_header_def cmd_enable_tor_def
      cmd_enable_anti_fp_def cmd_status_def wf_engine_def set_config_def add_header_def)

lemma dispatch_inv: "shell_inv a \<Longrightarrow> shell_inv (fst (dispatch env a l))"
  by (simp add: dispatch_def Let_def shell_inv_commands split: list.split)

lemma run_shell_inv: "shell_inv a \<Longrightarrow> shell_inv (run_shell env a ls)"
proof (induction ls arbitrary: a)
  case Nil
  then show ?case by simp
next
  case (Cons l ls)
  obtain a' stop where d: "dispatch env a l = (a', stop)" by force
  with Cons.prems have "shell_inv a'" using dispatch_inv [of a env l] by simp
  with Cons.IH d show ?case by simp
qed

lemma shell_inv_init: "shell_inv (app_init home w)"
  by (simp add: shell_inv_def app_init_def engine_init_def default_config_def wf_engine_def)

text \<open>C20: Whatever lines the operator types, from the start state the engine keeps unique
  header names, a rotation mode of "disabled" or "per-request" (set ip-rotation rejects
  other values), and MITM interception off: no command of the shell enables it.\<close>

theorem shell_reachable_inv:
  "shell_inv (run_shell env (app_init home w) cmds)"
  by (rule run_shell_inv [OF shell_inv_init])

lemma shell_reachable_inv_witness:
  "shell_inv (run_shell \<lparr>is_root = True, platform = ''linux-root'', tor_host_of = linux_host,
       popen_of = (\<lambda>c. None), http_get = (\<lambda>u. Inr []), bind_of = (\<lambda>p. None)\<rparr>
     (app_init ''/home/op'' closed_world) [''set ip-rotation sometimes'', ''set header X-A 1''])"
  by (rule shell_reachable_inv)

lemma start_tor_disabled: "\<not> tor_enabled (config (eng a)) \<Longrightarrow> start_tor env a = (a, True)"
  by (simp add: start_tor_def)

lemma start_rotation_disabled: "ip_rotation (config (eng a)) = ''disabled'' \<Longrightarrow> start_rotation env a = a"
  by (simp add: start_rotation_def)

lemma start_server_pool_console:
  "proxy_pool (eng (start_server env a)) = proxy_pool (eng a) \<and> (\<exists>sfx. console (start_server env a) = console a @ sfx)"
proof -
  obtain e1 sp where s: "start_proxy (eng a) = (e1, sp)" by force
  obtain e2 r where b: "run_server (bind_of env) e1 = (e2, r)" by force
  have p1: "proxy_pool e1 = proxy_pool (eng a)" using start_proxy_frame(2) [of "eng a"] s by simp
  have p2: "proxy_pool e2 = proxy_pool e1" using run_server_frame(2) [of "bind_of env" e1] b by simp
  show ?thesis using s b p1 p2 by (cases r; cases sp) (simp_all add: start_server_def Let_def)
qed

text \<open>C24: With Tor off and rotation on, start downloads the public list and, when the
  filtered list is non-empty, installs exactly that list (at most 20 host:port entries)
  as the engine's pool and reports its size; the server start that follows keeps it.\<close>

theorem start_installs_fetched_pool:
  assumes "\<not> tor_enabled (config (eng a))" and "ip_rotation (config (eng a)) \<noteq> ''disabled''"
    and "http_get env proxy_list_url = Inr body" and "proxy_lines body \<noteq> []"
  shows "proxy_pool (eng (cmd_start env a)) = proxy_lines body
         \<and> ProxiesLoaded (length (proxy_lines body)) \<in> set (console (cmd_start env a))"
proof -
  let ?a0 = "say Initializing a"
  have t: "start_tor env ?a0 = (?a0, True)" using assms(1) by (simp add: start_tor_disabled)
  have f: "proxies (fetch_proxies (http_get env) (net ?a0)) = proxy_lines body"
    using assms(3) by (simp add: fetch_proxies_def)
  let ?a1 = "start_rotation env ?a0"
  have r: "proxy_pool (eng ?a1) = proxy_lines body \<and> ProxiesLoaded (length (proxy_lines body)) \<in> set (console ?a1)"
    using assms(2,4) f by (simp add: start_rotation_def Let_def update_proxy_pool_def)
  then show ?thesis using t start_server_pool_console [of env ?a1] by (auto simp: cmd_start_def)
qed

text \<open>C21: The bind happens in the server thread, so a failing bind (a privileged port) is
  never seen by cmd_start: it prints "ACTIVE" and no binding failure, the exception only
  kills the thread, _running stays set with no server, and every later start does
  nothing, so the proxy cannot be restarted.\<close>

lemma start_bind_failure:
  assumes "\<not> running (eng a)" and "\<not> tor_enabled (config (eng a))"
    and "ip_rotation (config (eng a)) = ''disabled''" and "bind_of env (port (eng a)) = Some ex"
  shows "console (cmd_start env a) = console a @ [Initializing, CoreActive (port (eng a))]
         \<and> bg_errors (cmd_start env a) = bg_errors a @ [ex]
         \<and> running (eng (cmd_start env a)) \<and> server (eng (cmd_start env a)) = server (eng a)
         \<and> eng (cmd_start env (cmd_start env a)) = eng (cmd_start env a)
         \<and> bg_errors (cmd_start env (cmd_start env a)) = bg_errors (cmd_start env a)"
proof -
  let ?a0 = "say Initializing a"
  have tor0: "start_tor env ?a0 = (?a0, True)" using assms(2) by (simp add: start_tor_disabled)
  have rot0: "start_rotation env ?a0 = ?a0" using assms(3) by (simp add: start_rotation_disabled)
  have a1: "cmd_start env a =
      (say (CoreActive (port (eng a))) (?a0\<lparr>eng := (eng a)\<lparr>running := True\<rparr>\<rparr>))\<lparr>bg_errors := bg_errors a @ [ex]\<rparr>"
    using assms(1,4) tor0 rot0
    by (simp add: cmd_start_def start_server_def start_proxy_def run_server_def Let_def say_def)
  let ?a1 = "cmd_start env a"
  let ?b0 = "say Initializing ?a1"
  have tor1: "start_tor env ?b0 = (?b0, True)" using assms(2) a1 by (simp add: start_tor_disabled say_def)
  have rot1: "start_rotation env ?b0 = ?b0" using assms(3) a1 by (simp add: start_rotation_disabled say_def)
  have a2: "eng (cmd_start env ?a1) = eng ?a1 \<and> bg_errors (cmd_start env ?a1) = bg_errors ?a1"
    using tor1 rot1 a1 by (simp add: cmd_start_def start_server_def start_proxy_def Let_def say_def)
  show ?thesis using a1 a2 by (simp add: say_def)
qed

text \<open>C22: When Tor routing is enabled outside non-root Termux and ensure_running fails,
  start prints the failure and stops: the engine is unchanged, so the proxy is not
  started without anonymization.\<close>

lemma start_tor_failure_aborts:
  assumes "tor_enabled (config (eng a))" and "\<not> termux_nonroot env"
    and "fst (ensure_running (tor_host_of env) (popen_of env) (tor_w a)) = Inl ex"
  shows "eng (cmd_start env a) = eng a \<and> console (cmd_start env a) = console a @ [Initializing, TorFailed ex]"
proof -
  obtain w where "ensure_running (tor_host_of env) (popen_of env) (tor_w a) = (Inl ex, w)"
    using assms(3) by (cases "ensure_running (tor_host_of env) (popen_of env) (tor_w a)") auto
  then show ?thesis using assms(1,2) by (simp add: cmd_start_def start_tor_def say_def)
qed

lemma start_bind_failure_witness:
  "\<not> running (eng (app_init ''/home/op'' closed_world))
   \<and> \<not> tor_enabled (config (eng (app_init ''/home/op'' closed_world)))
   \<and> ip_rotation (config (eng (app_init ''/home/op'' closed_world))) = ''disabled''
   \<and> bind_of demo_shell (port (eng (app_init ''/home/op'' closed_world))) = Some PermissionError
   \<and> console (cmd_start demo_shell (app_init ''/home/op'' closed_world)) = [Initializing, CoreActive 8080]"
proof -
  let ?a = "app_init ''/home/op'' closed_world"
  have h: "\<not> running (eng ?a)" "\<not> tor_enabled (config (eng ?a))"
    "ip_rotation (config (eng ?a)) = ''disabled''" "bind_of demo_shell (port (eng ?a)) = Some PermissionError"
    by (simp_all add: app_init_def engine_init_def default_config_def demo_shell_def)
  have p: "port (eng ?a) = 8080" and c: "console ?a = []" by (simp_all add: app_init_def engine_init_def)
  show ?thesis using h start_bind_failure [OF h] p c by simp
qed

lemma start_tor_failure_aborts_witness:
  "tor_enabled (config (eng (cmd_enable_tor demo_shell (app_init ''/home/op'' closed_world))))
   \<and> \<not> termux_nonroot demo_shell
   \<and> fst (ensure_running (tor_host_of demo_shell) (popen_of demo_shell)
        (tor_w (cmd_enable_tor demo_shell (app_init ''/home/op'' closed_world)))) = Inl tor_not_found
   \<and> eng (cmd_start demo_shell (cmd_enable_tor demo_shell (app_init ''/home/op'' closed_world)))
       = eng (cmd_enable_tor demo_shell (app_init ''/home/op'' closed_world))"
proof -
  let ?a = "cmd_enable_tor demo_shell (app_init ''/home/op'' closed_world)"
  have t: "\<not> termux_nonroot demo_shell" by (simp add: termux_nonroot_def demo_shell_def)
  have h1: "tor_enabled (config (eng ?a))"
    using t by (simp add: cmd_enable_tor_def app_init_def set_config_def)
  have h3: "fst (ensure_running (tor_host_of demo_shell) (popen_of demo_shell) (tor_w ?a)) = Inl tor_not_found"
    using t by (simp add: cmd_enable_tor_def app_init_def demo_shell_def ensure_running_def tor_demo_defs say_def)
  show ?thesis using h1 t h3 start_tor_failure_aborts [OF h1 t h3] by simp
qed

lemma dispatch_line:
  assumes "ws \<noteq> []" and "list_all py_word ws"
  shows "py_strip (py_join '' '' ws) = py_join '' '' ws \<and> py_join '' '' ws \<noteq> []
         \<and> py_split_ws (py_join '' '' ws) = ws"
proof -
  have hl: "py_join '' '' ws \<noteq> [] \<and> hd (py_join '' '' ws) = hd (hd ws) \<and> last (py_join '' '' ws) = last (last ws)"
    using assms by (rule py_join_hd_last)
  have "py_word (hd ws)" "py_word (last ws)" using assms by (auto simp: list_all_iff)
  then have "\<not> py_isspace (hd (hd ws))" "\<not> py_isspace (last (last ws))"
    by (auto simp: py_word_def list_all_iff)
  with hl have "py_strip (py_join '' '' ws) = py_join '' '' ws" by (simp add: py_strip_id)
  with hl assms show ?thesis by (simp add: py_split_ws_join)
qed

lemma py_word_keywords [simp]:
  "py_word ''set''" "py_word ''ip-rotation''" "py_word ''header''"
  by (simp_all add: py_word_def py_isspace_def)

text \<open>C28: The line "set ip-rotation MODE" (MODE one word) sets the rotation mode when MODE
  is "per-request" or "disabled" and otherwise leaves the engine unchanged and prints
  the usage message; the loop goes on either way.\<close>

lemma dispatch_set_ip_rotation:
  assumes "py_word mode"
  shows "dispatch env a (py_join '' '' [''set'', ''ip-rotation'', mode]) =
           (if mode \<in> set [''per-request'', ''disabled'']
            then (say (RotationSet mode) (a\<lparr>eng := set_config (eng a) (Set_ip_rotation mode)\<rparr>), False)
            else (say RotationUsage a, False))"
proof -
  have l: "py_strip (py_join '' '' [''set'', ''ip-rotation'', mode]) = py_join '' '' [''set'', ''ip-rotation'', mode]
        \<and> py_join '' '' [''set'', ''ip-rotation'', mode] \<noteq> []
        \<and> py_split_ws (py_join '' '' [''set'', ''ip-rotation'', mode]) = [''set'', ''ip-rotation'', mode]"
    using assms by (intro dispatch_line) simp_all
  show ?thesis
    unfolding dispatch_def Let_def using l
    by (simp add: cmd_set_ip_rotation_def py_simps del: py_join.simps)
qed

text \<open>C29: A line whose words (split on any whitespace) are set, header, KEY and at
  least one more word sets header KEY to the remaining words joined by single spaces:
  the value depends on the words alone, so tabs and runs of spaces typed inside the
  value are collapsed to one space and whitespace around the line is dropped.\<close>

lemma dispatch_set_header:
  assumes "py_split_ws l = ''set'' # ''header'' # k # vs" and "vs \<noteq> []"
  shows "dispatch env a l = (cmd_set_header k (py_join '' '' vs) a, False)"
proof -
  have s: "py_split_ws (py_strip l) = ''set'' # ''header'' # k # vs"
    using assms(1) by (simp add: py_split_ws_strip)
  have ne: "py_strip l \<noteq> []" using s by (auto simp: py_split_ws_def)
  have len: "4 \<le> length (''set'' # ''header'' # k # vs)" using assms(2) by (cases vs) simp_all
  have lw: "py_lower ''set'' = ''set''" by (simp add: py_simps)
  show ?thesis unfolding dispatch_def Let_def using s ne len lw by simp
qed

lemma dispatch_set_ip_rotation_witness:
  "py_word ''sometimes'' \<and>
   dispatch demo_shell (app_init ''/home/op'' closed_world) (py_join '' '' [''set'', ''ip-rotation'', ''sometimes''])
     = (say RotationUsage (app_init ''/home/op'' closed_world), False)"
proof -
  have w: "py_word ''sometimes''" by (simp add: py_word_def py_isspace_def)
  show ?thesis using w dispatch_set_ip_rotation [OF w, of demo_shell "app_init ''/home/op'' closed_world"]
    by (simp del: py_join.simps)
qed

lemma dispatch_set_header_witness:
  "py_split_ws ('' set header X-A a  '' @ [CHR 0x09] @ ''  b '') = [''set'', ''header'', ''X-A'', ''a'', ''b'']
   \<and> [''a'', ''b''] \<noteq> []
   \<and> dispatch demo_shell (app_init ''/home/op'' closed_world) ('' set header X-A a  '' @ [CHR 0x09] @ ''  b '')
       = (cmd_set_header ''X-A'' ''a b'' (app_init ''/home/op'' closed_world), False)"
proof -
  have w: "py_split_ws ('' set header X-A a  '' @ [CHR 0x09] @ ''  b '') = [''set'', ''header'', ''X-A'', ''a'', ''b'']"
    by (simp add: py_simps)
  have n: "[''a'', ''b''] \<noteq> []" by simp
  have j: "py_join '' '' [''a'', ''b''] = ''a b''" by simp
  show ?thesis
    using w n j dispatch_set_header [OF w n, of demo_shell "app_init ''/home/op'' closed_world"]
    by (simp del: py_join.simps)
qed


lemma start_installs_fetched_pool_witness:
  "\<not> tor_enabled (config (eng (cmd_set_ip_rotation ''per-request'' (app_init ''/home/op'' closed_world))))
   \<and> ip_rotation (config (eng (cmd_set_ip_rotation ''per-request'' (app_init ''/home/op'' closed_world)))) \<noteq> ''disabled''
   \<and> http_get (demo_shell\<lparr>http_get := \<lambda>u. Inr '' 1.2.3.4:80 ''\<rparr>) proxy_list_url = Inr '' 1.2.3.4:80 ''
   \<and> proxy_lines '' 1.2.3.4:80 '' = [''1.2.3.4:80'']
   \<and> proxy_pool (eng (cmd_start (demo_shell\<lparr>http_get := \<lambda>u. Inr '' 1.2.3.4:80 ''\<rparr>)
        (cmd_set_ip_rotation ''per-request'' (app_init ''/home/op'' closed_world)))) = [''1.2.3.4:80'']"
proof -
  let ?a = "cmd_set_ip_rotation ''per-request'' (app_init ''/home/op'' closed_world)"
  let ?env = "demo_shell\<lparr>http_get := \<lambda>u. Inr '' 1.2.3.4:80 ''\<rparr>"
  have c: "\<not> tor_enabled (config (eng ?a))" and d: "ip_rotation (config (eng ?a)) \<noteq> ''disabled''"
    by (simp_all add: cmd_set_ip_rotation_def app_init_def engine_init_def default_config_def set_config_def)
  have g: "http_get ?env proxy_list_url = Inr '' 1.2.3.4:80 ''" by simp
  have l: "proxy_lines '' 1.2.3.4:80 '' = [''1.2.3.4:80'']" by (simp add: proxy_lines_def py_simps)
  have n: "proxy_lines '' 1.2.3.4:80 '' \<noteq> []" using l by simp
  show ?thesis using start_installs_fetched_pool [OF c d g n] c d g l by simp
qed

end
