(* ===== verification/Listener.thy ===== *)
theory Listener
  imports Handler
begin

text \<open>
  The listener: \<open>ProxyEngine._run_server\<close> serves with
  \<open>socketserver.TCPServer.serve_forever\<close>, which accepts a connection, runs its
  handler to the end, and only then accepts the next; an exception escaping a handler
  is logged by \<open>handle_error\<close> and the loop goes on.  So connections are handled one
  after another, each with the engine state and outside world of its time, all sharing
  the certificate store.  \<open>serve\<close> runs a list of accepted connections.  The
  properties: a certificate pair once on disk is never changed (C10), a CONNECT host
  beginning with a slash puts both files outside the certificate directory (C11), and
  the only files ever changed are the certificate and key paths of the CONNECT hosts
  (C30).
\<close>

type_synonym connection = "handler_env \<times> engine \<times> client_item list"

fun serve :: "fs \<Rightarrow> connection list \<Rightarrow> (out_event list \<times> conn_result) list \<times> fs" where
  "serve m [] = ([], m)"
| "serve m ((env, e, c) # cs) =
     (case handle_one_request env e m c of
        (out, m', r) \<Rightarrow> (case serve m' cs of (rs, m'') \<Rightarrow> ((out, r) # rs, m'')))"

text \<open>
  \<open>cert_stem\<close> is the common part of a host's two file paths: \<open>os.path.join\<close> takes
  the same branch for \<open>host.pem\<close> and \<open>host.key\<close>.
\<close>

definition cert_stem :: "string \<Rightarrow> string \<Rightarrow> string" where
  "cert_stem dir h =
     (if starts_with h ''/'' then h else if dir = [] \<or> last dir = CHR ''/'' then dir @ h else dir @ ''/'' @ h)"

text \<open>
  The host names a client's input asks a \<open>CONNECT\<close> for, tunnelled requests included,
  and the certificate and key paths they name under a certificate directory.
\<close>

fun connect_targets :: "client_item list \<Rightarrow> string list" where
  "connect_targets [] = []"
| "connect_targets (Req meth t # rest) =
     (if meth = ''CONNECT'' then t # connect_targets rest else connect_targets rest)"
| "connect_targets (Handshake b # rest) = connect_targets rest"

definition ct_paths :: "string \<Rightarrow> client_item list \<Rightarrow> string list" where
  "ct_paths dir xs =
     concat (map (\<lambda>t. [cert_file dir (connect_host t), key_file dir (connect_host t)]) (connect_targets xs))"

section \<open>Lemmas\<close>

lemma starts_with_ext:
  "starts_with (h @ ''.pem'') ''/'' = starts_with h ''/''" "starts_with (h @ ''.key'') ''/'' = starts_with h ''/''"
  by (cases h; simp)+

lemma cert_key_stem: "cert_file dir h = cert_stem dir h @ ''.pem''" "key_file dir h = cert_stem dir h @ ''.key''"
  by (simp_all add: cert_file_def key_file_def path_join_def cert_stem_def starts_with_ext)

lemma cert_file_eq_key_file_eq:
  "cert_file dir h' = cert_file dir h \<longleftrightarrow> key_file dir h' = key_file dir h"
  by (simp add: cert_key_stem)

lemma cert_file_ne_key_file_any: "cert_file dir h' \<noteq> key_file dir h"
proof
  assume "cert_file dir h' = key_file dir h"
  then have "last (cert_file dir h') = last (key_file dir h)" by simp
  then show False by (simp add: cert_key_stem)
qed

lemma generate_cert_keeps_pair:
  assumes "cert_file dir h \<in> dom m" and "key_file dir h \<in> dom m"
    and "generate_cert env dir m h' = (r, m')"
  shows "m' (cert_file dir h) = m (cert_file dir h) \<and> m' (key_file dir h) = m (key_file dir h)"
proof (cases "cert_file dir h' \<in> dom m \<and> key_file dir h' \<in> dom m")
  case True
  with assms(3) show ?thesis by (simp add: generate_cert_hit)
next
  case False
  with assms(1,2) have ne: "cert_file dir h' \<noteq> cert_file dir h" "key_file dir h' \<noteq> key_file dir h"
    using cert_file_eq_key_file_eq [of dir h' h] by auto
  have other: "cert_file dir h' \<noteq> key_file dir h" "key_file dir h' \<noteq> cert_file dir h"
    using cert_file_ne_key_file_any [of dir h' h] cert_file_ne_key_file_any [of dir h h'] by auto
  show ?thesis
  proof (cases r)
    case (Inl ex)
    then show ?thesis using generate_cert_Inl_frame [of env dir m h' ex m'] assms(3) ne other by simp
  next
    case (Inr p)
    then show ?thesis using generate_cert_Inr [of env dir m h' p m'] assms(3) ne other by simp
  qed
qed

lemma generate_cert_keeps_contents:
  "m (cert_file dir h) = Some a \<Longrightarrow> m (key_file dir h) = Some b \<Longrightarrow>
     generate_cert env dir m h' = (r, m') \<Longrightarrow> m' (cert_file dir h) = Some a \<and> m' (key_file dir h) = Some b"
  using generate_cert_keeps_pair [of dir h m env h' r m'] by (auto simp: domI)

lemma connection_keeps_contents:
  "cert_dir e = dir \<Longrightarrow> m (cert_file dir h) = Some a \<Longrightarrow> m (key_file dir h) = Some b \<Longrightarrow>
     fst (snd (handle_one_request env e m xs)) (cert_file dir h) = Some a \<and>
     fst (snd (handle_one_request env e m xs)) (key_file dir h) = Some b"
  "cert_dir e = dir \<Longrightarrow> m (cert_file dir h) = Some a \<Longrightarrow> m (key_file dir h) = Some b \<Longrightarrow>
     fst (snd (do_CONNECT env e m p xs)) (cert_file dir h) = Some a \<and>
     fst (snd (do_CONNECT env e m p xs)) (key_file dir h) = Some b"
proof (induction env e m xs and env e m p xs rule: handle_one_request_do_CONNECT.induct)
  case (4 env e m path rest)
  show ?case
  proof (cases "mitm_enabled (config e)")
    case False
    then show ?thesis using "4.prems" by simp
  next
    case True
    obtain r m' where g: "generate_cert (certs env) (cert_dir e) m (connect_host path) = (r, m')" by force
    have keep: "m' (cert_file dir h) = Some a" "m' (key_file dir h) = Some b"
      using generate_cert_keeps_contents [of m "cert_dir e" h a b "certs env" "connect_host path" r m'] "4.prems" g
      by simp_all
    show ?thesis
    proof (cases r)
      case (Inl ex)
      then show ?thesis using True g keep by simp
    next
      case (Inr ck)
      obtain c k where ck: "ck = (c, k)" by force
      have ne: "\<not> (c = [] \<or> k = [])" using g Inr ck generate_cert_Inr_nonempty by simp
      show ?thesis
      proof (cases "\<exists>rest'. rest = Handshake True # rest'")
        case False
        then show ?thesis using True g Inr ck ne keep
          by (auto simp: Let_def split: list.split client_item.split)
      next
        case True2: True
        then obtain rest' where rest: "rest = Handshake True # rest'" by blast
        have r: "r = Inr (c, k)" using Inr ck by simp
        have nn: "\<not> \<not> mitm_enabled (config e)" using True by simp
        have ih: "fst (snd (handle_one_request env e m' rest')) (cert_file dir h) = Some a \<and>
                  fst (snd (handle_one_request env e m' rest')) (key_file dir h) = Some b"
          by (rule "4.IH" [OF nn g [symmetric] r refl ne refl rest refl TrueI
                "4.prems"(1) keep])
        obtain o3 m3 r3 where t: "handle_one_request env e m' rest' = (o3, m3, r3)" by (cases "handle_one_request env e m' rest'") auto
        show ?thesis using True g r ne rest ih t by (simp add: Let_def)
      qed
    qed
  qed
qed (auto split: if_splits)

lemma connection_changes:
  "fst (snd (handle_one_request env e m xs)) p \<noteq> m p \<Longrightarrow> p \<in> set (ct_paths (cert_dir e) xs)"
  "fst (snd (do_CONNECT env e m t xs)) p \<noteq> m p \<Longrightarrow> p \<in> set (ct_paths (cert_dir e) (Req ''CONNECT'' t # xs))"
proof (induction env e m xs and env e m t xs rule: handle_one_request_do_CONNECT.induct)
  case (3 env e m meth path rest)
  then show ?case by (auto simp: ct_paths_def split: if_splits)
next
  case (4 env e m path rest)
  have mitm: "mitm_enabled (config e)" using "4.prems" by (cases "mitm_enabled (config e)") auto
  obtain r m' where g: "generate_cert (certs env) (cert_dir e) m (connect_host path) = (r, m')" by force
  have here: "cert_file (cert_dir e) (connect_host path) \<in> set (ct_paths (cert_dir e) (Req ''CONNECT'' path # rest))"
    "key_file (cert_dir e) (connect_host path) \<in> set (ct_paths (cert_dir e) (Req ''CONNECT'' path # rest))"
    by (simp_all add: ct_paths_def)
  have gen: "m' p \<noteq> m p \<Longrightarrow> p \<in> set (ct_paths (cert_dir e) (Req ''CONNECT'' path # rest))"
    using generate_cert_changes [OF g] here by blast
  show ?case
  proof (cases r)
    case (Inl ex)
    then show ?thesis using mitm g gen "4.prems" by simp
  next
    case (Inr ck)
    obtain c k where ck: "ck = (c, k)" by force
    have ne: "\<not> (c = [] \<or> k = [])" using g Inr ck generate_cert_Inr_nonempty by simp
    show ?thesis
    proof (cases "\<exists>rest'. rest = Handshake True # rest'")
      case False
      then have "fst (snd (do_CONNECT env e m path rest)) = m'"
        using mitm g Inr ck ne by (auto simp: Let_def split: list.split client_item.split)
      then show ?thesis using gen "4.prems" by simp
    next
      case True
      then obtain rest' where rest: "rest = Handshake True # rest'" by blast
      have r: "r = Inr (c, k)" using Inr ck by simp
      have nn: "\<not> \<not> mitm_enabled (config e)" using mitm by simp
      obtain o3 m3 r3 where t: "handle_one_request env e m' rest' = (o3, m3, r3)"
        by (cases "handle_one_request env e m' rest'") auto
      have out: "fst (snd (do_CONNECT env e m path rest)) = m3" using mitm g r ne rest t by (simp add: Let_def)
      have ih: "m3 p \<noteq> m' p \<Longrightarrow> p \<in> set (ct_paths (cert_dir e) rest')"
        using "4.IH" [OF nn g [symmetric] r refl ne refl rest refl TrueI] t by simp
      have sub: "set (ct_paths (cert_dir e) rest') \<subseteq> set (ct_paths (cert_dir e) (Req ''CONNECT'' path # rest))"
        using rest by (auto simp: ct_paths_def)
      show ?thesis using "4.prems" out gen ih sub by (cases "m' p = m p") auto
    qed
  qed
qed auto

text \<open>C11: The host name of a CONNECT line is used unchecked: for a target such as
  "/home/op/.bashrc:443" (a host beginning with a slash), with interception on and
  working cryptography, the connection writes the generated certificate and key to that
  absolute path plus ".pem" and ".key", outside the certificate directory, whatever the
  directory and whatever the client sends in the tunnel.\<close>

theorem connect_writes_outside_cert_dir:
  assumes "mitm_enabled (config e)" and "starts_with h ''/''" and "CHR '':'' \<notin> set h"
    and "gen (certs env) h = Inr (c, k)"
    and "writable (certs env) (h @ ''.pem'')" and "writable (certs env) (h @ ''.key'')"
    and "h @ ''.pem'' \<notin> dom m"
  shows "fst (snd (handle_one_request env e m (Req ''CONNECT'' (h @ '':'' @ pt) # rest))) (h @ ''.pem'') = Some c
       \<and> fst (snd (handle_one_request env e m (Req ''CONNECT'' (h @ '':'' @ pt) # rest))) (h @ ''.key'') = Some k"
proof -
  have hn: "connect_host (h @ '':'' @ pt) = h"
  proof -
    have "takeWhile (\<lambda>x. x \<noteq> CHR '':'') (h @ CHR '':'' # pt) = h"
      using assms(3) by (subst takeWhile_append2) auto
    then show ?thesis by (simp add: connect_host_def hd_py_split_sep)
  qed
  have pf: "cert_file (cert_dir e) h = h @ ''.pem''" "key_file (cert_dir e) h = h @ ''.key''"
    using cert_path_escapes_dir [OF assms(2)] by simp_all
  have g: "generate_cert (certs env) (cert_dir e) m h =
             (Inr (h @ ''.pem'', h @ ''.key''), m(h @ ''.pem'' \<mapsto> c, h @ ''.key'' \<mapsto> k))"
    using generate_cert_miss [of "cert_dir e" h m "certs env" c k] assms(4-7) pf by simp
  let ?m' = "m(h @ ''.pem'' \<mapsto> c, h @ ''.key'' \<mapsto> k)"
  have kp: "?m' (h @ ''.pem'') = Some c" "?m' (h @ ''.key'') = Some k" by simp_all
  have inner: "fst (snd (handle_one_request env e ?m' xs)) (h @ ''.pem'') = Some c
             \<and> fst (snd (handle_one_request env e ?m' xs)) (h @ ''.key'') = Some k" for xs
    using connection_keeps_contents(1) [of e "cert_dir e" ?m' h c k env xs] pf by simp
  show ?thesis
  proof (cases "\<exists>rest'. rest = Handshake True # rest'")
    case True
    then obtain rest' where rest: "rest = Handshake True # rest'" by blast
    obtain o3 m3 r3 where t: "handle_one_request env e ?m' rest' = (o3, m3, r3)"
      by (cases "handle_one_request env e ?m' rest'") auto
    show ?thesis using assms(1) hn g rest t inner [of rest'] by (simp add: Let_def)
  next
    case False
    then show ?thesis using assms(1) hn g kp
      by (auto simp: Let_def split: list.split client_item.split)
  qed
qed

text \<open>C10: The server handles connections one after another; across any sequence of
  connections (each with its own engine snapshot and outside world, all using the same
  certificate directory), a certificate and key already on disk for a host are never
  changed: a pair is generated at most once and then only reused.\<close>

theorem serve_keeps_cert_pairs:
  assumes "list_all (\<lambda>(env, e, c). cert_dir e = dir) conns"
    and "m (cert_file dir h) = Some a" and "m (key_file dir h) = Some b"
  shows "snd (serve m conns) (cert_file dir h) = Some a \<and> snd (serve m conns) (key_file dir h) = Some b"
  using assms
proof (induction conns arbitrary: m)
  case Nil
  then show ?case by simp
next
  case (Cons cn cs)
  obtain env e c where cn: "cn = (env, e, c)" by (cases cn) auto
  obtain out m' r where t: "handle_one_request env e m c = (out, m', r)" by (cases "handle_one_request env e m c") auto
  have d: "cert_dir e = dir" using Cons.prems(1) cn by simp
  have k: "m' (cert_file dir h) = Some a" "m' (key_file dir h) = Some b"
    using connection_keeps_contents(1) [OF d Cons.prems(2,3), of env c] t by simp_all
  have "snd (serve m' cs) (cert_file dir h) = Some a \<and> snd (serve m' cs) (key_file dir h) = Some b"
    using Cons.IH [of m'] Cons.prems(1) cn k by simp
  then show ?case using cn t by (cases "serve m' cs") simp
qed

text \<open>C30: Across any sequence of served connections, a file of the store changes only
  if it is the certificate or the key path, under that connection's certificate
  directory, of a host named by a CONNECT line of one of the connections, tunnelled
  requests included: the proxy writes no other file.\<close>

theorem serve_changes_only_cert_files:
  assumes "snd (serve m conns) p \<noteq> m p"
  shows "\<exists>cn \<in> set conns. p \<in> set (ct_paths (cert_dir (fst (snd cn))) (snd (snd cn)))"
  using assms
proof (induction conns arbitrary: m)
  case Nil
  then show ?case by simp
next
  case (Cons cn cs)
  obtain env e c where cn: "cn = (env, e, c)" by (cases cn) auto
  obtain out m' r where t: "handle_one_request env e m c = (out, m', r)"
    by (cases "handle_one_request env e m c") auto
  have s: "snd (serve m (cn # cs)) = snd (serve m' cs)" using cn t by (cases "serve m' cs") simp
  show ?case
  proof (cases "m' p = m p")
    case True
    then have "snd (serve m' cs) p \<noteq> m' p" using Cons.prems s by simp
    then show ?thesis using Cons.IH by auto
  next
    case False
    then have "p \<in> set (ct_paths (cert_dir e) c)" using connection_changes(1) [of env e m c p] t by simp
    then show ?thesis using cn by auto
  qed
qed

lemma serve_keeps_cert_pairs_witness:
  "list_all (\<lambda>(env, e, c). cert_dir e = ''/home/op/.raproxy/certs'')
     [(demo_env, mitm_engine, [Req ''CONNECT'' ''example.com:443'', Handshake True, Req ''GET'' ''/''])]
   \<and> snd (serve [''/home/op/.raproxy/certs/example.com.pem'' \<mapsto> ''OLD'', ''/home/op/.raproxy/certs/example.com.key'' \<mapsto> ''OLDK'']
        [(demo_env, mitm_engine, [Req ''CONNECT'' ''example.com:443'', Handshake True, Req ''GET'' ''/''])])
       (cert_file ''/home/op/.raproxy/certs'' ''example.com'') = Some ''OLD''
   \<and> snd (serve [''/home/op/.raproxy/certs/example.com.pem'' \<mapsto> ''OLD'', ''/home/op/.raproxy/certs/example.com.key'' \<mapsto> ''OLDK'']
        [(demo_env, mitm_engine, [Req ''CONNECT'' ''example.com:443'', Handshake True, Req ''GET'' ''/''])])
       (key_file ''/home/op/.raproxy/certs'' ''example.com'') = Some ''OLDK''"
proof -
  have l: "list_all (\<lambda>(env, e, c). cert_dir e = ''/home/op/.raproxy/certs'')
     [(demo_env, mitm_engine, [Req ''CONNECT'' ''example.com:443'', Handshake True, Req ''GET'' ''/''])]"
    by (simp add: demo_defs)
  have f: "cert_file ''/home/op/.raproxy/certs'' ''example.com'' = ''/home/op/.raproxy/certs/example.com.pem''"
    "key_file ''/home/op/.raproxy/certs'' ''example.com'' = ''/home/op/.raproxy/certs/example.com.key''"
    by (simp_all add: cert_file_def key_file_def path_join_def)
  let ?m = "[''/home/op/.raproxy/certs/example.com.pem'' \<mapsto> ''OLD'', ''/home/op/.raproxy/certs/example.com.key'' \<mapsto> ''OLDK'']"
  have a: "?m (cert_file ''/home/op/.raproxy/certs'' ''example.com'') = Some ''OLD''"
    and b: "?m (key_file ''/home/op/.raproxy/certs'' ''example.com'') = Some ''OLDK''"
    by (simp_all add: f)
  show ?thesis using l serve_keeps_cert_pairs [OF l a b] by blast
qed

lemma connect_writes_outside_cert_dir_witness:
  "mitm_enabled (config mitm_engine) \<and> starts_with ''/home/op/.bashrc'' ''/'' \<and> CHR '':'' \<notin> set ''/home/op/.bashrc''
   \<and> gen (certs demo_env) ''/home/op/.bashrc'' = Inr (''CERT'', ''KEY'')
   \<and> writable (certs demo_env) ''/home/op/.bashrc.pem'' \<and> writable (certs demo_env) ''/home/op/.bashrc.key''
   \<and> ''/home/op/.bashrc.pem'' \<notin> dom (Map.empty :: fs)
   \<and> fst (snd (handle_one_request demo_env mitm_engine Map.empty [Req ''CONNECT'' ''/home/op/.bashrc:443'']))
       ''/home/op/.bashrc.key'' = Some ''KEY''"
proof -
  have a: "mitm_enabled (config mitm_engine)" by (simp add: demo_defs)
  have b: "starts_with ''/home/op/.bashrc'' ''/''" and c: "CHR '':'' \<notin> set ''/home/op/.bashrc''" by simp_all
  have d: "gen (certs demo_env) ''/home/op/.bashrc'' = Inr (''CERT'', ''KEY'')"
    and w1: "writable (certs demo_env) (''/home/op/.bashrc'' @ ''.pem'')"
    and w2: "writable (certs demo_env) (''/home/op/.bashrc'' @ ''.key'')" by (simp_all add: demo_defs)
  have n: "''/home/op/.bashrc'' @ ''.pem'' \<notin> dom (Map.empty :: fs)" by simp
  have t: "''/home/op/.bashrc'' @ '':'' @ ''443'' = ''/home/op/.bashrc:443''" by simp
  show ?thesis
    using connect_writes_outside_cert_dir [OF a b c d w1 w2 n, of "''443''" "[]"] a b c d w1 w2 t
    by (simp add: demo_defs)
qed

lemma serve_changes_only_cert_files_witness:
  "snd (serve Map.empty [(demo_env, mitm_engine, [Req ''CONNECT'' ''example.com:443''])])
       (cert_file ''/home/op/.raproxy/certs'' ''example.com'') \<noteq> None
   \<and> (\<exists>cn \<in> set [(demo_env, mitm_engine, [Req ''CONNECT'' ''example.com:443''])].
        cert_file ''/home/op/.raproxy/certs'' ''example.com'' \<in> set (ct_paths (cert_dir (fst (snd cn))) (snd (snd cn))))"
proof -
  have ch: "snd (serve Map.empty [(demo_env, mitm_engine, [Req ''CONNECT'' ''example.com:443''])])
       (cert_file ''/home/op/.raproxy/certs'' ''example.com'') \<noteq> None"
    by (simp add: demo_defs generate_cert_unfold cert_file_def key_file_def path_join_def connect_host_def)
  then have "snd (serve Map.empty [(demo_env, mitm_engine, [Req ''CONNECT'' ''example.com:443''])])
       (cert_file ''/home/op/.raproxy/certs'' ''example.com'') \<noteq> Map.empty (cert_file ''/home/op/.raproxy/certs'' ''example.com'')"
    by simp
  from serve_changes_only_cert_files [OF this] ch show ?thesis by blast
qed

end
