(* ===== verification/Platform.thy ===== *)
theory Platform
  imports Prelude "HOL-Library.Stream"
begin

text \<open>
  Platform detection and the start-up screens of the shell (\<open>src/raproxy.py\<close>,
  lines 39 to 114): the module globals \<open>OS\<close> and \<open>IS_TERMUX\<close>, \<open>detect_platform\<close>
  (which also sets the global \<open>IS_ROOT\<close>, returned here as the second component),
  \<open>install_deps\<close>, \<open>show_disclaimer\<close> and \<open>banner\<close>.  The facts these read
  about the machine form the record \<open>platform_host\<close>: \<open>platform.system()\<close>, the
  \<open>PREFIX\<close> variable, the outcome of \<open>tsu -c "id -u"\<close> (\<open>None\<close> when
  \<open>subprocess.run\<close> raises, as on a timeout or a missing \<open>tsu\<close>: the bare
  \<open>except\<close> catches it), \<open>os.geteuid()\<close>, the exit code of \<open>net session\<close>,
  the installed third-party modules and whether \<open>pip install\<close> of a package succeeds.
  The console output is a list of \<open>boot_msg\<close>.
\<close>

section \<open>Host facts and messages\<close>

record platform_host =
  os_system :: string
  env_prefix :: "string option"
  tsu_id :: "(int \<times> string) option"
  euid :: int
  net_session_rc :: int
  site_modules :: "string list"
  pip_ok :: "string \<Rightarrow> bool"

datatype boot_msg =
    MissingCore string
  | EnsureCoreFolder
  | InstallingRich
  | PlatformIs string
  | InstallingRequests
  | NonRootTermuxWarning
  | LimitedModePrompt
  | BannerArt
  | EditionLine
  | PrivilegeLine string bool

text \<open>
  Standard input as the prompts read it: a stream of lines, where \<open>EOF\<close> is the end
  of input (what follows it is never read).  A stream, not a list, because the input may
  not end.
\<close>

datatype input = Line string | EOF

section \<open>Operations\<close>

text \<open>\<open>OS = platform.system().lower()\<close> and
  \<open>IS_TERMUX = "com.termux" in os.environ.get("PREFIX", "")\<close>.\<close>

definition os_name :: "platform_host \<Rightarrow> string" where
  "os_name h = py_lower (os_system h)"

definition is_termux :: "platform_host \<Rightarrow> bool" where
  "is_termux h \<longleftrightarrow> py_contains ''com.termux'' (case env_prefix h of None \<Rightarrow> [] | Some p \<Rightarrow> p)"

text \<open>
  \<open>detect_platform()\<close>: the label and the new value of \<open>IS_ROOT\<close>.  On Termux the
  \<open>tsu\<close> probe decides (exit code 0 and output \<open>"0"\<close> after \<open>strip\<close>); Linux and
  macOS ask for the effective uid, Windows for the exit code of \<open>net session\<close>.
\<close>

definition detect_platform :: "platform_host \<Rightarrow> string \<times> bool" where
  "detect_platform h =
     (if is_termux h then
        (case tsu_id h of
           Some (rc, out) \<Rightarrow>
             if rc = 0 \<and> py_strip out = ''0'' then (''termux-root'', True)
             else (''termux-nonroot'', False)
         | None \<Rightarrow> (''termux-nonroot'', False))
      else if os_name h = ''linux'' then
        (if euid h = 0 then (''linux-root'', True) else (''linux-user'', False))
      else if os_name h = ''darwin'' then
        (if euid h = 0 then (''macos-root'', True) else (''macos-user'', False))
      else if os_name h = ''windows'' then
        (if net_session_rc h = 0 then (''windows-admin'', True) else (''windows-user'', False))
      else (''unknown'', False))"

text \<open>
  \<open>pip install\<close> through \<open>subprocess.check_call\<close>: a failing install raises
  \<open>CalledProcessError\<close>, which nothing catches.
\<close>

definition pip_install :: "platform_host \<Rightarrow> string \<Rightarrow> py_exc + unit" where
  "pip_install h pkg =
     (if pip_ok h pkg then Inr () else Inl (CalledProcessError (py_join '' '' [''python'', ''-m'', ''pip'', ''install'', pkg])))"

text \<open>\<open>install_deps()\<close>: print the platform, then import \<open>requests\<close> or install it.\<close>

definition install_deps :: "platform_host \<Rightarrow> boot_msg list \<times> (py_exc + unit)" where
  "install_deps h =
     (let plat = fst (detect_platform h) in
      if ''requests'' \<in> set (site_modules h) then ([PlatformIs (py_upper plat)], Inr ())
      else ([PlatformIs (py_upper plat), InstallingRequests], pip_install h ''requests''))"

text \<open>
  \<open>show_disclaimer()\<close>: on a non-root Termux the warning, then \<open>Prompt.ask\<close>, which
  reads one line of input; at the end of input it raises \<open>EOFError\<close>.  The result is
  the input left for the shell.
\<close>

definition show_disclaimer :: "platform_host \<Rightarrow> input stream \<Rightarrow> boot_msg list \<times> (py_exc + input stream)" where
  "show_disclaimer h s =
     (if py_contains ''termux-nonroot'' (fst (detect_platform h)) then
        (case shd s of
           EOF \<Rightarrow> ([NonRootTermuxWarning, LimitedModePrompt], Inl EOFError)
         | Line l \<Rightarrow> ([NonRootTermuxWarning, LimitedModePrompt], Inr (stl s)))
      else ([], Inr s))"

text \<open>\<open>banner()\<close>: the art, the edition line, and the platform with the privilege read
  from \<open>IS_ROOT\<close> as \<open>detect_platform\<close> has just set it.\<close>

definition banner :: "platform_host \<Rightarrow> boot_msg list" where
  "banner h = (case detect_platform h of (plat, root) \<Rightarrow> [BannerArt, EditionLine, PrivilegeLine (py_upper plat) root])"

definition platform_labels :: "string list" where
  "platform_labels = [''termux-root'', ''termux-nonroot'', ''linux-root'', ''linux-user'',
     ''macos-root'', ''macos-user'', ''windows-admin'', ''windows-user'', ''unknown'']"

definition root_labels :: "string list" where
  "root_labels = [''termux-root'', ''linux-root'', ''macos-root'', ''windows-admin'']"

text \<open>Whether the \<open>tsu\<close> probe reports root.\<close>

definition tsu_root :: "platform_host \<Rightarrow> bool" where
  "tsu_root h \<longleftrightarrow> (case tsu_id h of Some (rc, out) \<Rightarrow> rc = 0 \<and> py_strip out = ''0'' | None \<Rightarrow> False)"

definition termux_phone :: platform_host where
  "termux_phone =
     \<lparr>os_system = ''Linux'', env_prefix = Some ''/data/data/com.termux/files/usr'', tsu_id = None,
      euid = 10234, net_session_rc = 1, site_modules = [''requests'', ''rich''], pip_ok = (\<lambda>p. True)\<rparr>"

definition linux_box :: platform_host where
  "linux_box =
     \<lparr>os_system = ''Linux'', env_prefix = None, tsu_id = None,
      euid = 1000, net_session_rc = 1, site_modules = [''requests'', ''rich''], pip_ok = (\<lambda>p. True)\<rparr>"

lemmas platform_demo_defs = termux_phone_def linux_box_def

section \<open>Lemmas\<close>

lemma detect_platform_cases:
  "detect_platform h \<in> set (zip platform_labels [True, False, True, False, True, False, True, False, False])"
  by (simp add: detect_platform_def platform_labels_def split: option.split prod.split)

lemma detect_platform_termux:
  "is_termux h \<Longrightarrow> detect_platform h = (if tsu_root h then (''termux-root'', True) else (''termux-nonroot'', False))"
  by (simp add: detect_platform_def tsu_root_def split: option.split prod.split)

lemma disclaimer_cond_iff:
  "py_contains ''termux-nonroot'' (fst (detect_platform h)) \<longleftrightarrow> is_termux h \<and> \<not> tsu_root h"
  by (cases "is_termux h") (auto simp: detect_platform_termux, auto simp: detect_platform_def split: if_splits)

lemma platform_label_termux_iff:
  "py_contains ''termux'' (fst (detect_platform h)) \<longleftrightarrow> is_termux h"
  using detect_platform_cases [of h]
  by (auto simp: detect_platform_def platform_labels_def split: if_splits option.splits prod.splits)

lemma install_deps_installed:
  "''requests'' \<in> set (site_modules h) \<Longrightarrow> install_deps h = ([PlatformIs (py_upper (fst (detect_platform h)))], Inr ())"
  by (simp add: install_deps_def)

lemma show_disclaimer_skip:
  "\<not> (is_termux h \<and> \<not> tsu_root h) \<Longrightarrow> show_disclaimer h s = ([], Inr s)"
  by (auto simp: show_disclaimer_def disclaimer_cond_iff)

lemma show_disclaimer_shown:
  "is_termux h \<Longrightarrow> \<not> tsu_root h \<Longrightarrow>
     show_disclaimer h s = ([NonRootTermuxWarning, LimitedModePrompt],
                            (case shd s of EOF \<Rightarrow> Inl EOFError | Line l \<Rightarrow> Inr (stl s)))"
  by (simp add: show_disclaimer_def disclaimer_cond_iff split: input.split)

section \<open>Properties\<close>

text \<open>C31: detect_platform always returns one of the nine platform labels, and the value
  it gives IS_ROOT is True exactly for the four privileged labels (termux-root,
  linux-root, macos-root, windows-admin).\<close>

theorem detect_platform_label:
  "fst (detect_platform h) \<in> set platform_labels
   \<and> (snd (detect_platform h) \<longleftrightarrow> fst (detect_platform h) \<in> set root_labels)"
  using detect_platform_cases [of h] by (auto simp: platform_labels_def root_labels_def)

end
