(* ===== verification/Startup.thy ===== *)
theory Startup
  imports Shell Platform
begin

text \<open>
  The whole program run as \<open>python3 raproxy.py\<close> (\<open>src/raproxy.py\<close>): the module
  level (the search path for the core modules, their imports and the exit on a missing
  one, the import or installation of \<open>rich\<close>, the global instances) and \<open>main\<close>
  (\<open>install_deps\<close>, \<open>show_disclaimer\<close>, \<open>banner\<close>, then the command loop).
  The command loop reads a stream of input lines: it is a \<open>partial_function\<close> in the
  \<open>option\<close> monad, \<open>None\<close> when the input never ends and never says \<open>exit\<close>;
  on a finite input it coincides with \<open>run_shell\<close> of \<open>Shell\<close> (\<open>main_loop_shift\<close>).
\<close>

section \<open>Module search path and imports\<close>

text \<open>
  The files of the installation: the directory of the script (\<open>BASE_DIR\<close>), the
  directories \<open>sys.path\<close> starts with (the script's directory first), and which paths
  exist.  The home directory is where \<open>ProxyEngine()\<close> puts its certificates.
\<close>

record layout =
  script_dir :: string
  sys_path0 :: "string list"
  file_exists :: "string \<Rightarrow> bool"
  user_home :: string

text \<open>\<open>CORE_DIR = os.path.join(BASE_DIR, "core")\<close>, put first on \<open>sys.path\<close> unless
  it is already there.\<close>

definition core_dir :: "layout \<Rightarrow> string" where
  "core_dir L = path_join (script_dir L) ''core''"

definition sys_path :: "layout \<Rightarrow> string list" where
  "sys_path L = (if core_dir L \<in> set (sys_path0 L) then sys_path0 L else core_dir L # sys_path0 L)"

text \<open>A source module \<open>m\<close> is found when some directory of the path holds \<open>m.py\<close>.\<close>

definition find_source :: "layout \<Rightarrow> string \<Rightarrow> bool" where
  "find_source L m \<longleftrightarrow> list_ex (\<lambda>d. file_exists L (path_join d (m @ ''.py''))) (sys_path L)"

text \<open>
  The four \<open>from ... import\<close> lines, in order, each with the third-party modules the
  imported file itself imports first (\<open>proxy_engine.py\<close> and \<open>network.py\<close> import
  \<open>requests\<close>; \<open>tor_manager.py\<close> only the standard library).  \<open>stealth.py\<close> is
  not in the repository, so nothing is known of its imports.
\<close>

definition core_modules :: "(string \<times> string list) list" where
  "core_modules =
     [(''proxy_engine'', [''requests'']), (''tor_manager'', []), (''stealth'', []), (''network'', [''requests''])]"

text \<open>The first module whose import fails, if any: the core module itself is not
  found, or one of the modules it imports is not installed.\<close>

fun import_modules :: "platform_host \<Rightarrow> layout \<Rightarrow> (string \<times> string list) list \<Rightarrow> string option" where
  "import_modules h L [] = None"
| "import_modules h L ((m, deps) # ms) =
     (if \<not> find_source L m then Some m
      else case find (\<lambda>d. d \<notin> set (site_modules h)) deps of
             Some d \<Rightarrow> Some d
           | None \<Rightarrow> import_modules h L ms)"

text \<open>\<open>from rich.console import Console\<close>, or \<open>pip install rich\<close> first.\<close>

definition import_rich :: "platform_host \<Rightarrow> boot_msg list \<times> (py_exc + unit)" where
  "import_rich h =
     (if ''rich'' \<in> set (site_modules h) then ([], Inr ()) else ([InstallingRich], pip_install h ''rich''))"

section \<open>The command loop and main\<close>

text \<open>
  \<open>main\<close>'s \<open>while True\<close> loop: read a line (\<open>EOFError\<close> ends the loop with
  \<open>break\<close>), dispatch it, stop after \<open>exit\<close> (\<open>sys.exit(0)\<close>).
\<close>

partial_function (option) main_loop :: "shell_env \<Rightarrow> app \<Rightarrow> input stream \<Rightarrow> app option" where
  "main_loop env a s =
     (case shd s of
        EOF \<Rightarrow> Some a
      | Line l \<Rightarrow> (case dispatch env a l of (a', stop) \<Rightarrow> if stop then Some a' else main_loop env a' (stl s)))"

text \<open>How a run ends: \<open>sys.exit(n)\<close>, an exception nothing catches, or the end of the
  command loop with the final state.\<close>

datatype boot_end = Exited int | Crashed py_exc | Finished app

text \<open>The shell sees the platform label and \<open>IS_ROOT\<close> as \<open>detect_platform\<close> sets them.\<close>

definition boot_env :: "platform_host \<Rightarrow> shell_env \<Rightarrow> shell_env" where
  "boot_env h env = env\<lparr>is_root := snd (detect_platform h), platform := fst (detect_platform h)\<rparr>"

text \<open>\<open>main()\<close>.  The second component is \<open>None\<close> when the command loop never ends.\<close>

definition main_prog :: "platform_host \<Rightarrow> shell_env \<Rightarrow> app \<Rightarrow> input stream \<Rightarrow> boot_msg list \<times> boot_end option" where
  "main_prog h env a s =
     (case install_deps h of
        (o1, Inl ex) \<Rightarrow> (o1, Some (Crashed ex))
      | (o1, Inr _) \<Rightarrow>
          (case show_disclaimer h s of
             (o2, Inl ex) \<Rightarrow> (o1 @ o2, Some (Crashed ex))
           | (o2, Inr s') \<Rightarrow> (o1 @ o2 @ banner h, map_option Finished (main_loop env a s'))))"

text \<open>The module run as a script: imports (exit status 1 on a missing core module),
  \<open>rich\<close>, the global instances \<open>engine\<close>, \<open>tor\<close>, \<open>net\<close>, then \<open>main()\<close>.\<close>

definition raproxy :: "platform_host \<Rightarrow> layout \<Rightarrow> shell_env \<Rightarrow> tor_world \<Rightarrow> input stream \<Rightarrow> boot_msg list \<times> boot_end option" where
  "raproxy h L env w s =
     (case import_modules h L core_modules of
        Some m \<Rightarrow> ([MissingCore m, EnsureCoreFolder], Some (Exited 1))
      | None \<Rightarrow>
          (case import_rich h of
             (o0, Inl ex) \<Rightarrow> (o0, Some (Crashed ex))
           | (o0, Inr _) \<Rightarrow>
               (case main_prog h (boot_env h env) (app_init (user_home L) w) s of (o1, r) \<Rightarrow> (o0 @ o1, r))))"

text \<open>Whether a line makes \<open>main\<close> leave the loop: its first word, lower-cased, is
  \<open>exit\<close>.  The end of input also ends it.\<close>

definition is_exit_line :: "string \<Rightarrow> bool" where
  "is_exit_line l \<longleftrightarrow> (case py_split_ws (py_strip l) of [] \<Rightarrow> False | w # _ \<Rightarrow> py_lower w = ''exit'')"

fun ends_loop :: "input \<Rightarrow> bool" where
  "ends_loop EOF = True"
| "ends_loop (Line l) = is_exit_line l"

text \<open>The repository as checked out at \<open>base\<close>: \<open>raproxy.py\<close>, \<open>proxy_engine.py\<close>
  and \<open>network.py\<close> in \<open>base\<close>, \<open>tor_manager.py\<close> in \<open>base/Core\<close>, run as
  \<open>python3 base/raproxy.py\<close> on a case-sensitive file system.\<close>

definition repo_layout :: "string \<Rightarrow> string \<Rightarrow> layout" where
  "repo_layout base hm =
     \<lparr>script_dir = base, sys_path0 = [base],
      file_exists = (\<lambda>p. p \<in> set [base @ ''/raproxy.py'', base @ ''/proxy_engine.py'',
                                  base @ ''/network.py'', base @ ''/Core/tor_manager.py'']),
      user_home = hm\<rparr>"

text \<open>An installation where every core module is found: the layout the imports expect,
  with the modules in \<open>core/\<close> beside the script.\<close>

definition complete_layout :: layout where
  "complete_layout =
     \<lparr>script_dir = ''/opt/raproxy'', sys_path0 = [''/opt/raproxy''],
      file_exists = (\<lambda>p. p \<in> set [''/opt/raproxy/raproxy.py'', ''/opt/raproxy/core/proxy_engine.py'',
                                  ''/opt/raproxy/core/tor_manager.py'', ''/opt/raproxy/core/stealth.py'',
                                  ''/opt/raproxy/core/network.py'']),
      user_home = ''/home/op''\<rparr>"

section \<open>Lemmas\<close>


lemma dispatch_stop_iff: "snd (dispatch env a l) \<longleftrightarrow> is_exit_line l"
proof (cases "py_split_ws (py_strip l)")
  case Nil
  then show ?thesis by (simp add: dispatch_def is_exit_line_def Let_def)
next
  case (Cons w ws)
  then have "py_strip l \<noteq> []" by (auto simp: py_split_ws_def)
  with Cons show ?thesis by (simp add: dispatch_def is_exit_line_def Let_def)
qed

lemma main_loop_unfold:
  "main_loop env a s =
     (case shd s of EOF \<Rightarrow> Some a
      | Line l \<Rightarrow> if is_exit_line l then Some (fst (dispatch env a l)) else main_loop env (fst (dispatch env a l)) (stl s))"
proof (cases "shd s")
  case (Line l)
  obtain a' b where d: "dispatch env a l = (a', b)" by (cases "dispatch env a l") auto
  then have "b = is_exit_line l" using dispatch_stop_iff [of env a l] by simp
  then show ?thesis using Line d by (subst main_loop.simps) simp
next
  case EOF
  then show ?thesis by (subst main_loop.simps) simp
qed

lemma main_loop_Line:
  "main_loop env a (Line l ## s) =
     (if is_exit_line l then Some (fst (dispatch env a l)) else main_loop env (fst (dispatch env a l)) s)"
  by (subst main_loop_unfold) simp

lemma main_loop_EOF: "main_loop env a (EOF ## s) = Some a"
  by (subst main_loop_unfold) simp

lemma main_loop_Some_ends:
  assumes "main_loop env a s = Some r"
  shows "\<exists>n. ends_loop (s !! n)"
proof (rule main_loop.raw_induct [where P = "\<lambda>env a s r. \<exists>n. ends_loop (s !! n)", OF _ assms])
  fix f env a s r
  assume IH: "\<And>env a s r. f env a s = Some r \<Longrightarrow> \<exists>n. ends_loop (s !! n)"
    and eq: "(case shd s of EOF \<Rightarrow> Some a
              | Line l \<Rightarrow> (case dispatch env a l of (a', stop) \<Rightarrow> if stop then Some a' else f env a' (stl s))) = Some r"
  show "\<exists>n. ends_loop (s !! n)"
  proof (cases "shd s")
    case EOF
    then have "ends_loop (s !! 0)" by simp
    then show ?thesis ..
  next
    case (Line l)
    obtain a' stop where d: "dispatch env a l = (a', stop)" by (cases "dispatch env a l") auto
    have st: "stop = is_exit_line l" using dispatch_stop_iff [of env a l] d by simp
    show ?thesis
    proof (cases stop)
      case True
      with Line st have "ends_loop (s !! 0)" by simp
      then show ?thesis ..
    next
      case False
      with eq Line d have "f env a' (stl s) = Some r" by simp
      then obtain n where "ends_loop (stl s !! n)" using IH by blast
      then have "ends_loop (s !! Suc n)" by simp
      then show ?thesis ..
    qed
  qed
qed

lemma ends_main_loop_Some: "ends_loop (s !! n) \<Longrightarrow> \<exists>r. main_loop env a s = Some r"
proof (induction n arbitrary: a s)
  case 0
  then show ?case by (cases "shd s") (auto simp: main_loop_unfold)
next
  case (Suc n)
  show ?case
  proof (cases "ends_loop (shd s)")
    case True
    then show ?thesis by (cases "shd s") (auto simp: main_loop_unfold)
  next
    case False
    then obtain l where l: "shd s = Line l" "\<not> is_exit_line l" by (cases "shd s") auto
    have "\<exists>r. main_loop env (fst (dispatch env a l)) (stl s) = Some r" using Suc by simp
    then show ?thesis using l by (simp add: main_loop_unfold)
  qed
qed

lemma import_modules_None:
  "import_modules h L ms = None \<Longrightarrow> (m, ds) \<in> set ms \<Longrightarrow> find_source L m \<and> set ds \<subseteq> set (site_modules h)"
proof (induction ms)
  case Nil
  then show ?case by simp
next
  case (Cons md ms)
  obtain m' deps where md: "md = (m', deps)" by (cases md) auto
  have f: "find_source L m'" using Cons.prems(1) md by (auto split: if_split_asm)
  have n: "find (\<lambda>d. d \<notin> set (site_modules h)) deps = None" and r: "import_modules h L ms = None"
    using Cons.prems(1) md f by (simp_all split: option.split_asm)
  show ?case
  proof (cases "(m, ds) = (m', deps)")
    case True
    with f n show ?thesis by (auto simp: find_None_iff)
  next
    case False
    with Cons.prems(2) md have "(m, ds) \<in> set ms" by auto
    with Cons.IH r show ?thesis by blast
  qed
qed

lemma import_ok_requests:
  assumes "import_modules h L core_modules = None"
  shows "''requests'' \<in> set (site_modules h)"
proof -
  have "(''proxy_engine'', [''requests'']) \<in> set core_modules" by (simp add: core_modules_def)
  from import_modules_None [OF assms this] show ?thesis by simp
qed

lemma boot_msgs_no_requests_install:
  "show_disclaimer h s = (o2, r) \<Longrightarrow> InstallingRequests \<notin> set o2"
  "import_rich h = (o0, r') \<Longrightarrow> InstallingRequests \<notin> set o0"
  "InstallingRequests \<notin> set (banner h)"
  by (auto simp: show_disclaimer_def banner_def import_rich_def split: input.splits prod.splits if_splits)

lemma raproxy_imported:
  "import_modules h L core_modules = None \<Longrightarrow> ''rich'' \<in> set (site_modules h) \<Longrightarrow>
     raproxy h L env w s = main_prog h (boot_env h env) (app_init (user_home L) w) s"
  by (simp add: raproxy_def import_rich_def split: prod.split)

lemma main_loop_shift: "main_loop env a (map Line ls @- EOF ## s) = Some (run_shell env a ls)"
proof (induction ls arbitrary: a)
  case Nil
  then show ?case by (simp add: main_loop_EOF)
next
  case (Cons l ls)
  obtain a' b where d: "dispatch env a l = (a', b)" by (cases "dispatch env a l") auto
  then have "b = is_exit_line l" using dispatch_stop_iff [of env a l] by simp
  then show ?case using Cons d by (simp add: main_loop_Line)
qed

lemma path_join_rel:
  "\<not> starts_with b ''/'' \<Longrightarrow> a \<noteq> [] \<Longrightarrow> last a \<noteq> CHR ''/'' \<Longrightarrow> path_join a b = a @ ''/'' @ b"
  by (simp add: path_join_def)

section \<open>Properties\<close>

text \<open>C32: The Termux guard of the shell (not IS_ROOT and "termux" in detect_platform(),
  used by enable tor and start) holds exactly when the start-up disclaimer is shown
  ("termux-nonroot" in detect_platform()), namely on Termux when the tsu probe does not
  report root.\<close>

theorem tor_guard_matches_disclaimer:
  "(termux_nonroot (boot_env h env) \<longleftrightarrow> py_contains ''termux-nonroot'' (fst (detect_platform h)))
   \<and> (termux_nonroot (boot_env h env) \<longleftrightarrow> is_termux h \<and> \<not> tsu_root h)"
proof -
  have "termux_nonroot (boot_env h env) \<longleftrightarrow> is_termux h \<and> \<not> tsu_root h"
    by (cases "is_termux h")
       (auto simp: termux_nonroot_def boot_env_def detect_platform_termux platform_label_termux_iff)
  then show ?thesis by (simp add: disclaimer_cond_iff)
qed

text \<open>C33: Without a stealth module on the search path (stealth.py is not in the
  repository), the program prints the missing-module error and exits with status 1 before
  main runs, whatever the host and the input.\<close>

theorem missing_stealth_exits:
  assumes "\<not> find_source L ''stealth''"
  shows "\<exists>m. raproxy h L env w s = ([MissingCore m, EnsureCoreFolder], Some (Exited 1))"
proof -
  have "import_modules h L core_modules \<noteq> None"
  proof
    assume "import_modules h L core_modules = None"
    moreover have "(''stealth'', []) \<in> set core_modules" by (simp add: core_modules_def)
    ultimately have "find_source L ''stealth''" using import_modules_None by blast
    with assms show False by simp
  qed
  then obtain m where "import_modules h L core_modules = Some m" by auto
  then show ?thesis by (simp add: raproxy_def)
qed

text \<open>C34: Run from the repository as laid out (tor_manager.py in Core/, the script
  adding core/ to the path) on a case-sensitive file system, the program exits with
  status 1 at the import of tor_manager, or of requests when that is not installed.\<close>

theorem repo_layout_exits:
  assumes "base \<noteq> []" and "last base \<noteq> CHR ''/''"
  shows "raproxy h (repo_layout base hm) env w s =
     ([MissingCore (if ''requests'' \<in> set (site_modules h) then ''tor_manager'' else ''requests''), EnsureCoreFolder],
      Some (Exited 1))"
proof -
  have sp: "sys_path (repo_layout base hm) = [base @ ''/core'', base]"
    using assms by (simp add: sys_path_def core_dir_def repo_layout_def path_join_rel)
  have j1: "\<And>m. \<not> starts_with m ''/'' \<Longrightarrow> path_join base m = base @ ''/'' @ m"
    using assms by (simp add: path_join_rel)
  have j2: "\<And>m. \<not> starts_with m ''/'' \<Longrightarrow> path_join (base @ ''/core'') m = base @ ''/core/'' @ m"
    by (simp add: path_join_def)
  have pe: "find_source (repo_layout base hm) ''proxy_engine''"
    using j1 [of "''proxy_engine.py''"] unfolding find_source_def sp by (simp add: repo_layout_def)
  have tm: "\<not> find_source (repo_layout base hm) ''tor_manager''"
    using j1 [of "''tor_manager.py''"] j2 [of "''tor_manager.py''"]
    unfolding find_source_def sp by (simp add: repo_layout_def)
  have "import_modules h (repo_layout base hm) core_modules =
          Some (if ''requests'' \<in> set (site_modules h) then ''tor_manager'' else ''requests'')"
    using pe tm by (simp add: core_modules_def)
  then show ?thesis by (simp add: raproxy_def)
qed

text \<open>C35: The automatic installation of requests in install_deps never runs: whenever
  main is reached, requests was already imported by proxy_engine, and otherwise the
  program has exited at the import.\<close>

theorem requests_installer_unreachable: "InstallingRequests \<notin> set (fst (raproxy h L env w s))"
proof (cases "import_modules h L core_modules")
  case (Some m)
  then show ?thesis by (simp add: raproxy_def)
next
  case None
  then have r: "''requests'' \<in> set (site_modules h)" by (rule import_ok_requests)
  show ?thesis using None
    by (auto simp: raproxy_def main_prog_def install_deps_installed [OF r] boot_msgs_no_requests_install
             split: prod.split sum.split)
qed

text \<open>C36: On Termux without root, the "Press ENTER" prompt of the disclaimer reads the
  first input line, so that line is never executed whatever it says; and at the end of
  input there it raises EOFError out of main, where the command loop would end cleanly.\<close>

theorem nonroot_termux_first_line_ignored:
  assumes "is_termux h" and "\<not> tsu_root h" and "''requests'' \<in> set (site_modules h)"
  shows "main_prog h env a (Line l ## s) = main_prog h env a (Line l' ## s)
         \<and> snd (main_prog h env a (EOF ## s)) = Some (Crashed EOFError)"
  using assms by (simp add: main_prog_def install_deps_installed show_disclaimer_shown)

text \<open>C37: The command loop of main returns exactly when the input has, at some
  position, the end of input or a line whose first word is exit; otherwise it runs
  forever.\<close>

theorem main_loop_returns_iff: "(\<exists>r. main_loop env a s = Some r) \<longleftrightarrow> (\<exists>n. ends_loop (s !! n))"
  using main_loop_Some_ends ends_main_loop_Some by blast

text \<open>C39: When every core module and rich import and the host is not a non-root Termux,
  the program prints the platform and the banner and then behaves as run_shell on the
  input lines, from the module-level engine, Tor manager and fetcher, with the platform
  label and IS_ROOT that detect_platform gives.\<close>

theorem raproxy_runs_shell:
  assumes "import_modules h L core_modules = None" and "''rich'' \<in> set (site_modules h)"
    and "\<not> (is_termux h \<and> \<not> tsu_root h)"
  shows "raproxy h L env w (map Line ls @- EOF ## s) =
     (PlatformIs (py_upper (fst (detect_platform h))) # banner h,
      Some (Finished (run_shell (boot_env h env) (app_init (user_home L) w) ls)))"
  using assms(3)
  by (simp add: raproxy_imported [OF assms(1,2)] main_prog_def install_deps_installed [OF import_ok_requests [OF assms(1)]]
      show_disclaimer_skip main_loop_shift)

lemma missing_stealth_exits_witness:
  "\<not> find_source (repo_layout ''/opt/raproxy/src'' ''/home/op'') ''stealth''
   \<and> (\<exists>m. raproxy linux_box (repo_layout ''/opt/raproxy/src'' ''/home/op'') demo_shell closed_world (sconst EOF)
          = ([MissingCore m, EnsureCoreFolder], Some (Exited 1)))"
proof -
  have n: "\<not> find_source (repo_layout ''/opt/raproxy/src'' ''/home/op'') ''stealth''"
    by (simp add: find_source_def sys_path_def core_dir_def path_join_def repo_layout_def)
  show ?thesis using missing_stealth_exits [OF n] n by blast
qed

lemma repo_layout_exits_witness:
  "''/opt/raproxy/src'' \<noteq> [] \<and> last ''/opt/raproxy/src'' \<noteq> CHR ''/''
   \<and> raproxy linux_box (repo_layout ''/opt/raproxy/src'' ''/home/op'') demo_shell closed_world (sconst EOF)
       = ([MissingCore ''tor_manager'', EnsureCoreFolder], Some (Exited 1))"
  using repo_layout_exits [of "''/opt/raproxy/src''" linux_box "''/home/op''" demo_shell closed_world "sconst EOF"]
  by (simp add: linux_box_def)

lemma nonroot_termux_first_line_ignored_witness:
  "is_termux termux_phone \<and> \<not> tsu_root termux_phone \<and> ''requests'' \<in> set (site_modules termux_phone)
   \<and> main_prog termux_phone demo_shell (app_init ''/home/op'' closed_world) (Line ''exit'' ## sconst EOF)
       = main_prog termux_phone demo_shell (app_init ''/home/op'' closed_world) (Line ''status'' ## sconst EOF)
   \<and> snd (main_prog termux_phone demo_shell (app_init ''/home/op'' closed_world) (EOF ## sconst EOF))
       = Some (Crashed EOFError)"
proof -
  have t: "is_termux termux_phone" and r: "\<not> tsu_root termux_phone"
    and q: "''requests'' \<in> set (site_modules termux_phone)"
    by (simp_all add: is_termux_def tsu_root_def termux_phone_def)
  show ?thesis using nonroot_termux_first_line_ignored [OF t r q] t r q by blast
qed

lemma main_loop_returns_iff_witness:
  "(\<exists>r. main_loop demo_shell (app_init ''/home/op'' closed_world) (Line ''status'' ## sconst EOF) = Some r)
   \<and> main_loop demo_shell (app_init ''/home/op'' closed_world) (sconst (Line ''status'')) = None"
proof -
  have e: "\<exists>n. ends_loop ((Line ''status'' ## sconst EOF) !! n)"
  proof
    show "ends_loop ((Line ''status'' ## sconst EOF) !! 1)" by simp
  qed
  have ne: "\<not> (\<exists>n. ends_loop (sconst (Line ''status'') !! n))" by (simp add: is_exit_line_def py_simps)
  have a1: "\<exists>r. main_loop demo_shell (app_init ''/home/op'' closed_world) (Line ''status'' ## sconst EOF) = Some r"
    using main_loop_returns_iff [of demo_shell "app_init ''/home/op'' closed_world" "Line ''status'' ## sconst EOF"] e
    by blast
  have "\<not> (\<exists>r. main_loop demo_shell (app_init ''/home/op'' closed_world) (sconst (Line ''status'')) = Some r)"
    using main_loop_returns_iff [of demo_shell "app_init ''/home/op'' closed_world" "sconst (Line ''status'')"] ne
    by blast
  with a1 show ?thesis by auto
qed

lemma raproxy_runs_shell_witness:
  "import_modules linux_box complete_layout core_modules = None \<and> ''rich'' \<in> set (site_modules linux_box)
   \<and> \<not> (is_termux linux_box \<and> \<not> tsu_root linux_box)
   \<and> raproxy linux_box complete_layout demo_shell closed_world (map Line [''status''] @- EOF ## sconst EOF)
       = (PlatformIs ''LINUX-USER'' # banner linux_box,
          Some (Finished (run_shell (boot_env linux_box demo_shell) (app_init ''/home/op'' closed_world) [''status''])))"
proof -
  have i: "import_modules linux_box complete_layout core_modules = None"
    by (simp add: core_modules_def find_source_def sys_path_def core_dir_def path_join_def complete_layout_def
                  linux_box_def)
  have r: "''rich'' \<in> set (site_modules linux_box)" and t: "\<not> (is_termux linux_box \<and> \<not> tsu_root linux_box)"
    by (simp_all add: linux_box_def is_termux_def)
  have p: "py_upper (fst (detect_platform linux_box)) = ''LINUX-USER''"
    by (simp add: detect_platform_def is_termux_def os_name_def linux_box_def py_simps)
  have h: "user_home complete_layout = ''/home/op''" by (simp add: complete_layout_def)
  show ?thesis using raproxy_runs_shell [OF i r t, of demo_shell closed_world "[''status'']" "sconst EOF"] i r t p h
    by simp
qed

end
