(* ===== verification/Spec2Isabelle.thy ===== *)
theory Spec2Isabelle
  imports Handler Shell Listener Startup
begin

text \<open>
  \<^bold>\<open>A verification model of Raproxy.\<close>

  Raproxy is a local forward proxy (\<open>src/proxy_engine.py\<close>) driven by an
  interactive shell (\<open>src/raproxy.py\<close>), with a supervisor for an external Tor
  process (\<open>src/Core/tor_manager.py\<close>) and a fetcher of public proxy lists
  (\<open>src/network.py\<close>).  The shell mutates a \<open>ProxyEngine\<close>'s configuration,
  asks the supervisor and the fetcher for Tor and a pool, and starts the server thread;
  the server handles the accepted connections one at a time (a single-threaded
  \<open>socketserver.TCPServer\<close>), running a \<open>Handler\<close> for each; a handler reads the shared
  configuration, asks the certificate cache for a certificate on \<open>CONNECT\<close>, chooses
  an egress path, forwards the request with \<open>requests\<close> and relays the answer.

  \<^bold>\<open>Theories and what they model.\<close>
  \<^item> \<open>Prelude\<close>: Python exceptions and \<open>str(e)\<close>, the \<open>str\<close> methods the code
    calls (\<open>strip\<close>, \<open>split\<close>, \<open>split()\<close>, \<open>splitlines\<close>, \<open>lower\<close>,
    \<open>upper\<close>, \<open>startswith\<close>, \<open>lstrip\<close>, \<open>join\<close>, \<open>in\<close>),
    \<open>os.path.join\<close>, \<open>%\<close> and list indexing with their exceptions, and the
    insertion-ordered \<open>dict\<close> (\<open>dict_set\<close>), with the lemmas the components share.
  \<^item> \<open>Config\<close>: \<open>ProxyEngine\<close> as the records \<open>engine_config\<close> (the
    \<open>config\<close> dict) and \<open>engine\<close>; \<open>engine_init\<close> (\<open>__init__\<close>),
    \<open>set_config\<close>, \<open>add_header\<close>, \<open>update_proxy_pool\<close>, \<open>start_proxy\<close>,
    \<open>run_server\<close> (\<open>_run_server\<close>, the bind outcome an input); the invariant
    \<open>wf_engine\<close> (unique header names, the representation invariant of the dict as
    an association list), preserved by every mutator, and frame lemmas; the public
    methods as a \<open>datatype\<close> of operations with a step function, over whose
    sequences at most one server thread is ever started (C25).
  \<^item> \<open>Router\<close>: the egress choice inside \<open>do_GET\<close>.  Python's \<open>hash\<close> of a
    \<open>str\<close> is a parameter into \<open>64 word\<close> read with \<open>sint\<close>, and \<open>%\<close> is HOL's
    floor \<open>mod\<close>.  \<open>select_proxies_reads\<close> makes the three reads of
    \<open>proxy_pool\<close> explicit; \<open>pool_update\<close> says where a concurrent
    \<open>update_proxy_pool\<close> interleaves.  \<open>route\<close> is the spec's abstract contract
    (direct, anonymizing, pooled) and \<open>select_proxies\<close> refines it (C12); the
    interleavings raise (C14), except under Tor, where the pool is never read (C13).
  \<^item> \<open>CertStore\<close>: \<open>generate_cert\<close> over a path-to-contents store, the
    \<open>cryptography\<close> package and file writability as the environment
    \<open>cert_env\<close> (C8, C9, C27); \<open>cg_step\<close>, an \<open>inductive\<close> step relation splitting
    one call into check, generate, write certificate, write key, so that calls could
    interleave as under the spec's thread-per-connection design (\<open>cert_race_mismatch\<close>:
    the pair would then mismatch; the code's serial server never interleaves them).
  \<^item> \<open>Handler\<close>: \<open>do_GET\<close> (\<open>outbound_request\<close> for steps 1 to 3 and
    \<open>relay\<close> for the streaming), \<open>do_CONNECT\<close> and the standard library's
    \<open>handle_one_request\<close>, mutually recursive over the client's input items (request
    lines and handshake outcomes; termination is structural on that list), with
    \<open>send_error\<close> of \<open>http.server\<close> written out (status, \<open>Connection: close\<close>,
    the HTML page and its length).  The outbound \<open>requests.get\<close>, the hash, the
    certificate environment, the pool interleaving and what \<open>parse_request\<close> does
    with a bad request line form \<open>handler_env\<close>; the output is the list of events
    written to the client (C1 to C7, C26).
  \<^item> \<open>Listener\<close>: \<open>serve_forever\<close> as \<open>serve\<close>, a fold of
    \<open>handle_one_request\<close> over the accepted connections threading the certificate
    store; each connection brings its own engine snapshot and outside world.  A pair on
    disk is never changed by later connections (C10), a CONNECT host beginning with a
    slash puts both files outside the certificate directory (C11), and the only files
    ever changed are the certificate and key paths of CONNECT hosts (C30).
  \<^item> \<open>TorManager\<close>: \<open>get_tor_cmd\<close> over the host facts and \<open>ensure_running\<close>
    over a world of port state, spawned processes and sleep time (C15 to C18).
  \<^item> \<open>Network\<close>: \<open>fetch_proxies\<close>, the GET an oracle, the filter exact (C19).
  \<^item> \<open>Shell\<close>: the globals as the record \<open>app\<close>, each \<open>cmd_*\<close> as a state
    function, \<open>main\<close>'s loop as \<open>dispatch\<close> and \<open>run_shell\<close> over input lines,
    the console as a list of messages; the invariant \<open>shell_inv\<close> over all command
    sequences (C20), the behaviour of \<open>start\<close> on failures (C21, C22) and with a
    fetched list (C24), and the parsing of \<open>set\<close> commands (C28, C29).
  \<^item> \<open>Platform\<close>: \<open>detect_platform\<close> (label and \<open>IS_ROOT\<close>) over the host
    facts \<open>platform_host\<close>, \<open>install_deps\<close>, \<open>show_disclaimer\<close> (reading
    one line of the input stream) and \<open>banner\<close>; the labels are a closed set and
    \<open>IS_ROOT\<close> agrees with them (C31).
  \<^item> \<open>Startup\<close>: the module level of \<open>raproxy.py\<close> (the search path with
    \<open>core/\<close> put first, the four core imports with the modules they import, the
    exit on a missing one, \<open>rich\<close>) and \<open>main\<close> as \<open>raproxy\<close>; \<open>main\<close>'s loop
    over a possibly infinite input stream as \<open>main_loop\<close>.  The shell's Termux guard
    is the disclaimer's condition (C32); without \<open>stealth.py\<close>, and in the
    repository's own layout, the program exits at the imports (C33, C34); the
    \<open>requests\<close> installer is unreachable (C35); the disclaimer swallows a line (C36);
    the loop returns exactly on an \<open>exit\<close> line or the end of input (C37) and
    computes \<open>run_shell\<close> on finite input, so the whole program reduces to
    \<open>run_shell\<close> once the imports succeed (C39), which carries every \<open>Shell\<close>
    property to the program.
  \<^item> This theory: properties of shell and handler together: MITM is unreachable
    (C23), and a failed re-fetch leaves the old pool in use (C38).

  \<^bold>\<open>Bounds, fuel and concurrency.\<close>  No fuel is needed.  The loops over the
  client's items, the response chunks and the candidate paths are structural recursion
  over finite lists.  \<open>main\<close>'s loop reads an input that may never end, so it is a
  \<open>partial_function (option)\<close> over a stream, and C37 says exactly when it returns;
  \<open>run_shell\<close> is its restriction to finite input.  The pool index is bounded by the pool size through floor
  \<open>mod\<close> of the signed 64-bit hash.  Concurrency is modelled where a claim depends
  on it.  There are two threads, the shell and the server; connections are served
  serially by the server thread.  The shell may update the pool while a request reads it
  (an explicit interleaving datatype, C14); the shared configuration otherwise is a
  snapshot per connection, and the server thread's bind is ordered after the shell's
  "ACTIVE" message.  The \<open>except PermissionError\<close> of \<open>cmd_start\<close> is not
  modelled: \<open>start_proxy\<close> cannot raise it.  Certificate generation is also given as a step relation over any
  number of concurrent calls, for the threaded design the spec asks for.

  \<^bold>\<open>Not modelled.\<close>  Socket I/O and TLS themselves (the handshake outcome is a
  client input, the outbound request an oracle, failures of writing to the client are
  not modelled; a \<open>Status\<close> event stands for \<open>send_response\<close> with its
  \<open>Server\<close> and \<open>Date\<close> headers; HTTP/0.9 request lines); the \<open>cryptography\<close>
  computations; \<open>os.makedirs\<close> of the
  certificate directory; \<open>stealth.py\<close> and its \<open>StealthManager\<close>, imported
  by \<open>raproxy.py\<close> but not in the repository (only whether the import finds it is
  modelled); the text of the banner art and of the prompt (\<open>getpass.getuser()\<close>,
  \<open>os.getcwd()\<close>); \<open>KeyboardInterrupt\<close>; the Rich formatting of messages; Unicode
  beyond ASCII in string methods; \<open>urlsplit\<close>'s bracketed-host validation beyond the
  balance check.  The host facts are fixed for a run, so the repeated
  \<open>detect_platform\<close> calls (three at start-up, one per Termux guard) agree; a
  \<open>tsu\<close> probe whose outcome changes between calls is not modelled.  Python's import
  system is reduced to the search of \<open>sys.path\<close> for \<open>m.py\<close> and the presence of
  installed third-party modules.

  \<^bold>\<open>Plan for later sittings.\<close>  The refinement of one \<open>cg_step\<close> run by
  \<open>generate_cert\<close>; the shell thread's pool updates interleaved with \<open>serve\<close>;
  the \<open>status\<close> report against the engine state.
\<close>

section \<open>Properties across components\<close>

text \<open>C23: Whatever commands the operator types, in the resulting engine every CONNECT is
  answered 403 and closed, with the certificate store untouched: MITM interception, which
  the spec describes as a feature, cannot be enabled through the shell.\<close>

theorem connect_refused_after_any_commands:
  "handle_one_request henv (eng (run_shell env (app_init home w) cmds)) m (Req ''CONNECT'' t # rest)
     = ([Status 403 None, EndHeaders], m, Closed)"
proof -
  have "shell_inv (run_shell env (app_init home w) cmds)"
    by (rule run_shell_inv [OF shell_inv_init])
  then show ?thesis by (simp add: shell_inv_def)
qed

text \<open>C38: A failed re-fetch keeps the previous pool: when start runs with rotation on
  and the download fails, the shell prints "No proxies fetched. Continuing without
  rotation", yet the engine keeps the pool an earlier start installed and every
  per-request GET is still routed through the entry hash(url) mod its size selects.\<close>

theorem stale_pool_after_failed_refetch:
  assumes "\<not> tor_enabled (config (eng a))" and "ip_rotation (config (eng a)) = ''per-request''"
    and "proxy_pool (eng a) \<noteq> []" and "http_get env proxy_list_url = Inl ex"
  shows "NoProxiesFetched \<in> set (console (cmd_start env a))
         \<and> proxy_pool (eng (cmd_start env a)) = proxy_pool (eng a)
         \<and> select_proxies h (eng (cmd_start env a)) NoUpdate url
             = Inr (proxies_of (Pooled (proxy_pool (eng a) ! pool_slot h (proxy_pool (eng a)) url)))"
proof -
  let ?a0 = "say Initializing a"
  have t: "start_tor env ?a0 = (?a0, True)" using assms(1) by (simp add: start_tor_disabled)
  let ?a1 = "start_rotation env ?a0"
  have r: "proxy_pool (eng ?a1) = proxy_pool (eng a) \<and> NoProxiesFetched \<in> set (console ?a1)"
    using assms(2,4) by (simp add: start_rotation_def Let_def fetch_proxies_def)
  have s: "proxy_pool (eng (cmd_start env a)) = proxy_pool (eng a) \<and> NoProxiesFetched \<in> set (console (cmd_start env a))"
    using r t start_server_pool_console [of env ?a1] by (auto simp: cmd_start_def)
  have c: "config (eng (cmd_start env a)) = config (eng a)" by (rule cmd_start_config)
  show ?thesis using s c assms(1-3) by (simp add: select_proxies_def route_def)
qed

lemma connect_refused_after_any_commands_witness:
  "handle_one_request demo_env (eng (run_shell demo_shell (app_init ''/home/op'' closed_world)
       [''set header X-A 1'', ''enable tor'', ''start'']))
     Map.empty [Req ''CONNECT'' ''example.com:443'']
     = ([Status 403 None, EndHeaders], Map.empty, Closed)"
  by (rule connect_refused_after_any_commands)

lemma stale_pool_after_failed_refetch_witness:
  "\<not> tor_enabled (config (eng (app_init ''/home/op'' closed_world\<lparr>eng := rot_engine\<rparr>)))
   \<and> ip_rotation (config (eng (app_init ''/home/op'' closed_world\<lparr>eng := rot_engine\<rparr>))) = ''per-request''
   \<and> proxy_pool (eng (app_init ''/home/op'' closed_world\<lparr>eng := rot_engine\<rparr>)) \<noteq> []
   \<and> http_get (demo_shell\<lparr>http_get := \<lambda>u. Inl (RequestException ''timed out'')\<rparr>) proxy_list_url
       = Inl (RequestException ''timed out'')
   \<and> select_proxies (\<lambda>u. 7)
       (eng (cmd_start (demo_shell\<lparr>http_get := \<lambda>u. Inl (RequestException ''timed out'')\<rparr>)
              (app_init ''/home/op'' closed_world\<lparr>eng := rot_engine\<rparr>))) NoUpdate ''http://example.com/''
       = Inr [(''http'', ''http://5.6.7.8:8000''), (''https'', ''http://5.6.7.8:8000'')]"
proof -
  let ?a = "app_init ''/home/op'' closed_world\<lparr>eng := rot_engine\<rparr>"
  let ?env = "demo_shell\<lparr>http_get := \<lambda>u. Inl (RequestException ''timed out'')\<rparr>"
  have a: "\<not> tor_enabled (config (eng ?a))" and b: "ip_rotation (config (eng ?a)) = ''per-request''"
    and c: "proxy_pool (eng ?a) \<noteq> []" by (simp_all add: rot_engine_defs)
  have d: "http_get ?env proxy_list_url = Inl (RequestException ''timed out'')" by simp
  have p: "proxies_of (Pooled (proxy_pool (eng ?a) ! pool_slot (\<lambda>u. 7) (proxy_pool (eng ?a)) ''http://example.com/''))
      = [(''http'', ''http://5.6.7.8:8000''), (''https'', ''http://5.6.7.8:8000'')]"
    by (simp add: rot_engine_defs pool_slot_def)
  show ?thesis using stale_pool_after_failed_refetch [OF a b c d, of "\<lambda>u. 7" "''http://example.com/''"] a b c d p
    by simp
qed

end
